theory Spec2Isabelle
  imports Complex_Main "HOL-Library.AList" "HOL-Library.Sublist" "HOL-Library.Multiset"
    "HOL-Library.Option_ord"
begin

section \<open>Errors, warnings and string formatting\<close>

text \<open>
  Every \<^verbatim>\<open>raise\<close> of the bucketers and of the bucketing process is a value of
  \<open>error\<close>; a fit returns \<open>error + state\<close>. \<open>NotPreBucketedError\<close> and
  \<open>NotBucketedError\<close> are the two exception classes of \<^verbatim>\<open>skorecard.utils\<close>;
  \<open>ExternalError\<close> stands for whatever a delegated library (solver, clustering,
  tree, pipeline) raises.
\<close>

datatype error =
    NotPreBucketedError string
  | NotBucketedError string
  | ValueError string
  | KeyError string
  | IndexError string
  | ZeroDivisionError
  | AssertionError string
  | ExternalError string

datatype warning = ApproximationWarning string

text \<open>Python's \<^verbatim>\<open>str(n)\<close> on integers, as used by the f-strings of the messages.\<close>

definition digit_char :: "nat \<Rightarrow> char" where
  "digit_char d = ''0123456789'' ! d"

function str_nat :: "nat \<Rightarrow> string" where
  "str_nat n = (if n < 10 then [digit_char n] else str_nat (n div 10) @ [digit_char (n mod 10)])"
  by pat_completeness auto
termination
  by (relation "measure id") auto

declare str_nat.simps [simp del]

definition str_int :: "int \<Rightarrow> string" where
  "str_int i = (if i < 0 then ''-'' @ str_nat (nat (- i)) else str_nat (nat i))"

text \<open>\<^verbatim>\<open>sep.join(xs)\<close>.\<close>

fun join :: "string \<Rightarrow> string list \<Rightarrow> string" where
  "join sep [] = []"
| "join sep [x] = x"
| "join sep (x # y # ys) = x @ sep @ join sep (y # ys)"

section \<open>Data model\<close>

text \<open>
  A column is a list of cells; a missing cell (NaN) is \<open>None\<close>. A data frame is an
  ordered list of named columns. A Python \<^verbatim>\<open>dict\<close> is an association list with
  distinct keys, in insertion order; \<open>AList.update\<close> is the item assignment
  \<^verbatim>\<open>d[k] = v\<close> (an existing key keeps its position, a new key goes last).
\<close>

type_synonym 'v column = "'v option list"
type_synonym 'v dataframe = "(string \<times> 'v column) list"
type_synonym target = "nat list option"

text \<open>The specials of one feature: \<^verbatim>\<open>{"name of special bucket": [values]}\<close>.\<close>
type_synonym 'v var_specials = "(string \<times> 'v list) list"
text \<open>The \<^verbatim>\<open>specials\<close> argument: \<^verbatim>\<open>{"column": {"name": [values]}}\<close>.\<close>
type_synonym 'v specials = "(string \<times> 'v var_specials) list"

datatype 'v bmap = Boundaries "'v list" | Categories "('v \<times> int) list"

text \<open>The arguments of the \<^verbatim>\<open>BucketMapping(...)\<close> constructor calls.\<close>
record 'v bucket_mapping =
  feature_name :: string
  type :: string
  bmap :: "'v bmap"
  right :: bool
  bm_specials :: "'v var_specials"
  missing_bucket :: "int option"

type_synonym 'v features_bucket_mapping = "(string \<times> 'v bucket_mapping) list"

text \<open>
  The columns of a bucket table that \<^verbatim>\<open>fit\<close> reads: \<^verbatim>\<open>bucket_id\<close>,
  \<^verbatim>\<open>label\<close> and \<^verbatim>\<open>Count\<close>.
\<close>
record table_row =
  bucket_id :: int
  label :: string
  Count :: nat

type_synonym bucket_table = "table_row list"

text \<open>
  \<^verbatim>\<open>missing_treatment\<close>: the strings \<^verbatim>\<open>"separate"\<close> and
  \<^verbatim>\<open>"most_frequent"\<close>, or a dict \<^verbatim>\<open>{"column": bucket_number}\<close>.
\<close>
datatype missing_treatment = Separate | MostFrequent | PerColumn "(string \<times> int) list"

section \<open>Helpers shared by the bucketers\<close>

text \<open>The non-null values of a column, in row order (\<^verbatim>\<open>X_flt.values\<close> once nulls are gone).\<close>
definition values_of :: "'v column \<Rightarrow> 'v list" where
  "values_of X = concat (map (\<lambda>x. case x of None \<Rightarrow> [] | Some v \<Rightarrow> [v]) X)"

text \<open>Selecting rows with a boolean mask: \<^verbatim>\<open>X[mask]\<close>.\<close>
definition keep_rows :: "bool list \<Rightarrow> 'a list \<Rightarrow> 'a list" where
  "keep_rows keep xs = map snd (filter fst (zip keep xs))"

definition special_values :: "'v var_specials \<Rightarrow> 'v list" where
  "special_values special = concat (map snd special)"

text \<open>
  \<^verbatim>\<open>Series.unique()\<close>: the distinct cells in the order of their first appearance;
  all missing cells count as one.
\<close>
definition unique :: "'a list \<Rightarrow> 'a list" where
  "unique xs = rev (remdups (rev xs))"

text \<open>
  Modelled from the spec: \<^verbatim>\<open>BaseBucketer._filter_specials_for_fit\<close> is not among
  the sources. The feature's rows are split into special rows (the value matches some
  declared special group's value list) and normal rows; only the normal rows, and the
  target's entries for them, are kept.
\<close>
definition filter_specials_for_fit :: "'v column \<Rightarrow> target \<Rightarrow> 'v var_specials \<Rightarrow> 'v column \<times> target" where
  "filter_specials_for_fit X y special =
     (let flt = map (\<lambda>x. case x of None \<Rightarrow> False | Some v \<Rightarrow> List.member (special_values special) v) X
      in (keep_rows (map Not flt) X, map_option (keep_rows (map Not flt)) y))"

text \<open>
  Modelled from the spec: \<^verbatim>\<open>BaseBucketer._filter_na_for_fit\<close> is not among the
  sources. Missing values are removed from the normal subset (with the target's entries
  for them), so that the fitting algorithm never sees nulls.
\<close>
definition filter_na_for_fit :: "'v column \<Rightarrow> target \<Rightarrow> 'v column \<times> target" where
  "filter_na_for_fit X y =
     (let flt = map (\<lambda>x. x = None) X
      in (keep_rows (map Not flt) X, map_option (keep_rows (map Not flt)) y))"

text \<open>
  The head of every per-feature loop body:
  \<^verbatim>\<open>if feature in self.specials.keys(): special = self.specials[feature]; X_flt, y_flt = self._filter_specials_for_fit(...)\<close>
  \<^verbatim>\<open>else: X_flt, y_flt = X[feature], y; special = {}\<close>
\<close>
definition split_specials ::
  "'v specials \<Rightarrow> string \<Rightarrow> 'v column \<Rightarrow> target \<Rightarrow> ('v column \<times> target) \<times> 'v var_specials" where
  "split_specials specs feature col y =
     (case map_of specs feature of
        Some special \<Rightarrow> (filter_specials_for_fit col y special, special)
      | None \<Rightarrow> ((col, y), []))"

text \<open>
  Modelled from the spec: \<^verbatim>\<open>BaseBucketer._check_variables\<close> is not among the
  sources. The effective variable list is the explicit list, or all columns if none is
  given.
\<close>
definition check_variables :: "(string \<times> 'c) list \<Rightarrow> string list \<Rightarrow> string list" where
  "check_variables X variables = (if variables = [] then map fst X else variables)"

text \<open>\<^verbatim>\<open>X.shape[0]\<close>, the number of rows of a (rectangular) frame.\<close>
definition shape0 :: "(string \<times> 'c list) list \<Rightarrow> nat" where
  "shape0 X = (case X of [] \<Rightarrow> 0 | c # _ \<Rightarrow> length (snd c))"

text \<open>
  What a bucketer's \<^verbatim>\<open>fit\<close> builds: the mappings
  (\<^verbatim>\<open>features_bucket_mapping_\<close>), the bucket tables (\<^verbatim>\<open>bucket_tables_\<close>), the
  fitted binners and the warnings issued. \<open>bucket_table_calls\<close> records every call of
  \<^verbatim>\<open>build_bucket_table\<close>, in order, with the feature and the mapping passed.
\<close>
record ('v, 'b) fitted =
  features_bucket_mapping' :: "'v features_bucket_mapping"
  bucket_tables' :: "(string \<times> bucket_table) list"
  binners :: "(string \<times> 'b) list"
  warnings :: "warning list"
  bucket_table_calls :: "(string \<times> 'v bucket_mapping) list"

definition unfitted :: "('v, 'b) fitted" where
  "unfitted = \<lparr>features_bucket_mapping' = [], bucket_tables' = [], binners = [], warnings = [],
               bucket_table_calls = []\<rparr>"

text \<open>
  The reporting and pandas collaborators of a fit: \<^verbatim>\<open>build_bucket_table\<close> and
  \<^verbatim>\<open>DataFrame.sort_values("Count", ascending=False)\<close>.
\<close>
record ('x, 'v) reporting =
  build_bucket_table :: "'x \<Rightarrow> target \<Rightarrow> string \<Rightarrow> 'v bucket_mapping \<Rightarrow> bucket_table"
  sort_values_Count_descending :: "bucket_table \<Rightarrow> bucket_table"

text \<open>
  The choice of the missing bucket under \<^verbatim>\<open>"most_frequent"\<close>, on the table
  sorted by descending count: \<^verbatim>\<open>.iloc[0]\<close> is the most frequent row; if its label
  is \<^verbatim>\<open>"Missing"\<close>, the \<^verbatim>\<open>bucket_id\<close> at position 1 is taken.
\<close>
definition most_frequent_bucket :: "bucket_table \<Rightarrow> error + int" where
  "most_frequent_bucket sorted_table =
     (case sorted_table of
        [] \<Rightarrow> Inl (IndexError ''single positional indexer is out-of-bounds'')
      | most_frequent_row # others \<Rightarrow>
          if label most_frequent_row \<noteq> ''Missing'' then Inr (bucket_id most_frequent_row)
          else (case others of
                  [] \<Rightarrow> Inl (KeyError ''1'')
                | next_row # _ \<Rightarrow> Inr (bucket_id next_row)))"

text \<open>
  The tail of every per-feature loop body, from \<^verbatim>\<open># Deal with missing values\<close>
  on. \<open>mapping\<close> is the \<^verbatim>\<open>BucketMapping(...)\<close> constructor call of the bucketer
  with everything but \<^verbatim>\<open>missing_bucket\<close> filled in; the source writes the call
  twice with the same arguments.
\<close>
definition finish_feature ::
  "('x, 'v) reporting \<Rightarrow> missing_treatment \<Rightarrow> 'x \<Rightarrow> target \<Rightarrow> string \<Rightarrow>
   (int option \<Rightarrow> 'v bucket_mapping) \<Rightarrow> ('v, 'b) fitted \<Rightarrow> error + ('v, 'b) fitted" where
  "finish_feature rep treatment X y feature mapping s =
     (let missing_bucket = (case treatment of PerColumn d \<Rightarrow> map_of d feature | _ \<Rightarrow> None);
          bm = mapping missing_bucket;
          tab = build_bucket_table rep X y feature bm;
          s1 = s\<lparr>features_bucket_mapping' := AList.update feature bm (features_bucket_mapping' s),
                 bucket_tables' := AList.update feature tab (bucket_tables' s),
                 bucket_table_calls := bucket_table_calls s @ [(feature, bm)]\<rparr>
      in if treatment = MostFrequent
         then (case most_frequent_bucket (sort_values_Count_descending rep tab) of
                 Inl e \<Rightarrow> Inl e
               | Inr b \<Rightarrow>
                   (let bm2 = mapping (Some b);
                        tab2 = build_bucket_table rep X y feature bm2
                    in Inr (s1\<lparr>features_bucket_mapping' := AList.update feature bm2 (features_bucket_mapping' s1),
                               bucket_tables' := AList.update feature tab2 (bucket_tables' s1),
                               bucket_table_calls := bucket_table_calls s1 @ [(feature, bm2)]\<rparr>)))
         else Inr s1)"

text \<open>The loop \<^verbatim>\<open>for feature in self.variables\<close>: the first error aborts the fit.\<close>
fun for_features ::
  "(string \<Rightarrow> 's \<Rightarrow> error + 's) \<Rightarrow> string list \<Rightarrow> 's \<Rightarrow> error + 's" where
  "for_features body [] s = Inr s"
| "for_features body (feature # rest) s =
     (case body feature s of Inl e \<Rightarrow> Inl e | Inr s' \<Rightarrow> for_features body rest s')"

text \<open>\<^verbatim>\<open>X[feature]\<close>.\<close>
definition get_column :: "(string \<times> 'c) list \<Rightarrow> string \<Rightarrow> error + 'c" where
  "get_column X feature = (case map_of X feature of None \<Rightarrow> Inl (KeyError feature) | Some col \<Rightarrow> Inr col)"

section \<open>OptimalBucketer\<close>

record 'v OptimalBucketer =
  ob_variables :: "string list"
  ob_specials :: "'v specials"
  ob_variables_type :: string
  ob_max_n_bins :: int
  ob_missing_treatment :: missing_treatment
  ob_min_bin_size :: real
  ob_cat_cutoff :: "real option"
  ob_time_limit :: real

text \<open>The arguments of the \<^verbatim>\<open>OptimalBinning(...)\<close> call.\<close>
record 'v OptimalBinning =
  name :: string
  dtype :: string
  solver :: string
  monotonic_trend :: string
  user_splits :: "'v list option"
  min_bin_size :: real
  max_n_bins :: int
  cat_cutoff :: "real option"
  time_limit :: real

text \<open>
  The delegated solver: \<^verbatim>\<open>binner.fit(X_flt.values, y_flt)\<close> followed by
  \<^verbatim>\<open>binner.splits\<close>, which is an array of split points for a numerical variable and
  a list of groups of categories for a categorical one.
\<close>
record 'v optbinning =
  numerical_splits :: "'v OptimalBinning \<Rightarrow> 'v list \<Rightarrow> target \<Rightarrow> error + 'v list"
  categorical_splits :: "'v OptimalBinning \<Rightarrow> 'v list \<Rightarrow> target \<Rightarrow> error + 'v list list"

definition optimal_not_prebucketed_msg :: "string \<Rightarrow> nat \<Rightarrow> string" where
  "optimal_not_prebucketed_msg feature n =
     ''\<newline>'' @ replicate 24 CHR '' '' @ ''OptimalBucketer requires numerical feature ''
       @ [CHR 0x27] @ feature @ [CHR 0x27] @ '' to be pre-bucketed\<newline>''
     @ replicate 24 CHR '' '' @ ''to max 100 unique values (for performance reasons).\<newline>''
     @ replicate 24 CHR '' '' @ ''Currently there are '' @ str_nat n @ '' unique values present.\<newline>''
     @ ''\<newline>''
     @ replicate 24 CHR '' '' @ ''Apply pre-binning, f.e. with skorecard.bucketers.DecisionTreeBucketer.\<newline>''
     @ replicate 24 CHR '' ''"

text \<open>
  \<^verbatim>\<open>for bucket_nr, values in enumerate(binner.splits): for value in values: splits[value] = bucket_nr\<close>
\<close>
fun enumerate_groups :: "int \<Rightarrow> 'v list list \<Rightarrow> ('v \<times> int) list \<Rightarrow> ('v \<times> int) list" where
  "enumerate_groups bucket_nr [] splits = splits"
| "enumerate_groups bucket_nr (vals # groups) splits =
     enumerate_groups (bucket_nr + 1) groups (fold (\<lambda>v splits. AList.update v bucket_nr splits) vals splits)"

definition OptimalBucketer_binner :: "'v OptimalBucketer \<Rightarrow> string \<Rightarrow> 'v list option \<Rightarrow> 'v OptimalBinning" where
  "OptimalBucketer_binner self feature splits =
     \<lparr>name = feature, dtype = ob_variables_type self, solver = ''cp'',
      monotonic_trend = ''auto_asc_desc'', user_splits = splits,
      min_bin_size = ob_min_bin_size self, max_n_bins = ob_max_n_bins self,
      cat_cutoff = ob_cat_cutoff self, time_limit = ob_time_limit self\<rparr>"

text \<open>The body of the loop of \<^verbatim>\<open>OptimalBucketer.fit\<close> for one feature.\<close>
definition OptimalBucketer_fit_feature ::
  "('v dataframe, 'v) reporting \<Rightarrow> 'v optbinning \<Rightarrow> ('v::linorder) OptimalBucketer \<Rightarrow> 'v dataframe \<Rightarrow> target \<Rightarrow>
   string \<Rightarrow> ('v, 'v OptimalBinning) fitted \<Rightarrow> error + ('v, 'v OptimalBinning) fitted" where
  "OptimalBucketer_fit_feature rep opt self X y feature s =
     (case get_column X feature of
        Inl e \<Rightarrow> Inl e
      | Inr col \<Rightarrow>
     (let flt = split_specials (ob_specials self) feature col y;
          special = snd flt;
          flt_na = filter_na_for_fit (fst (fst flt)) (snd (fst flt));
          X_flt = fst flt_na;
          y_flt = snd flt_na
      in if ob_variables_type self = ''numerical''
         then
           (let uniq_values = sort (remdups (values_of X_flt)) in
            if length uniq_values > 100
            then Inl (NotPreBucketedError (optimal_not_prebucketed_msg feature (length uniq_values)))
            else
              (let binner = OptimalBucketer_binner self feature (Some uniq_values) in
               case numerical_splits opt binner (values_of X_flt) y_flt of
                 Inl e \<Rightarrow> Inl e
               | Inr splits \<Rightarrow>
                   finish_feature rep (ob_missing_treatment self) X y feature
                     (\<lambda>mb. \<lparr>feature_name = feature, type = ob_variables_type self,
                            bmap = Boundaries splits, right = False, bm_specials = special,
                            missing_bucket = mb\<rparr>)
                     (s\<lparr>binners := AList.update feature binner (binners s)\<rparr>)))
         else
           (let binner = OptimalBucketer_binner self feature None in
            case categorical_splits opt binner (values_of X_flt) y_flt of
              Inl e \<Rightarrow> Inl e
            | Inr groups \<Rightarrow>
                finish_feature rep (ob_missing_treatment self) X y feature
                  (\<lambda>mb. \<lparr>feature_name = feature, type = ob_variables_type self,
                         bmap = Categories (enumerate_groups 0 groups []), right = False,
                         bm_specials = special, missing_bucket = mb\<rparr>)
                  (s\<lparr>binners := AList.update feature binner (binners s)\<rparr>))))"

definition OptimalBucketer_fit ::
  "('v dataframe, 'v) reporting \<Rightarrow> 'v optbinning \<Rightarrow> ('v::linorder) OptimalBucketer \<Rightarrow> 'v dataframe \<Rightarrow> target \<Rightarrow>
   error + ('v, 'v OptimalBinning) fitted" where
  "OptimalBucketer_fit rep opt self X y =
     for_features (OptimalBucketer_fit_feature rep opt self X y)
       (check_variables X (ob_variables self)) unfitted"

section \<open>EqualWidthBucketer\<close>

record 'v EqualWidthBucketer =
  ew_n_bins :: nat
  ew_variables :: "string list"
  ew_specials :: "'v specials"
  ew_missing_treatment :: missing_treatment

text \<open>
  The bin edges of \<^verbatim>\<open>numpy.histogram(a, bins=n)\<close>, from numpy's documentation, in
  exact arithmetic: \<open>n + 1\<close> equally spaced edges from the minimum to the maximum of the
  sample; the range of an empty sample is \<open>(0, 1)\<close>, and a range whose ends coincide is
  widened by one half on each side.
\<close>
definition histogram_bin_edges :: "real list \<Rightarrow> nat \<Rightarrow> real list" where
  "histogram_bin_edges a bins =
     (let first_edge = (if a = [] then 0 else Min (set a));
          last_edge = (if a = [] then 1 else Max (set a));
          lo = (if first_edge = last_edge then first_edge - 1 / 2 else first_edge);
          hi = (if first_edge = last_edge then last_edge + 1 / 2 else last_edge)
      in map (\<lambda>i. lo + real i * ((hi - lo) / real bins)) [0..<bins + 1])"

text \<open>The slice \<^verbatim>\<open>boundaries[1:-1]\<close>.\<close>
definition inner_edges :: "'a list \<Rightarrow> 'a list" where
  "inner_edges boundaries = butlast (tl boundaries)"

definition EqualWidthBucketer_fit_feature ::
  "(real dataframe, real) reporting \<Rightarrow> real EqualWidthBucketer \<Rightarrow> real dataframe \<Rightarrow> target \<Rightarrow>
   string \<Rightarrow> (real, unit) fitted \<Rightarrow> error + (real, unit) fitted" where
  "EqualWidthBucketer_fit_feature rep self X y feature s =
     (case get_column X feature of
        Inl e \<Rightarrow> Inl e
      | Inr col \<Rightarrow>
     (let flt = split_specials (ew_specials self) feature col y;
          special = snd flt;
          flt_na = filter_na_for_fit (fst (fst flt)) (snd (fst flt));
          X_flt = fst flt_na;
          boundaries = histogram_bin_edges (values_of X_flt) (ew_n_bins self);
          boundaries = inner_edges boundaries
      in finish_feature rep (ew_missing_treatment self) X y feature
           (\<lambda>mb. \<lparr>feature_name = feature, type = ''numerical'', bmap = Boundaries boundaries,
                  right = True, bm_specials = special, missing_bucket = mb\<rparr>)
           s))"

definition EqualWidthBucketer_fit ::
  "(real dataframe, real) reporting \<Rightarrow> real EqualWidthBucketer \<Rightarrow> real dataframe \<Rightarrow> target \<Rightarrow>
   error + (real, unit) fitted" where
  "EqualWidthBucketer_fit rep self X y =
     for_features (EqualWidthBucketer_fit_feature rep self X y)
       (check_variables X (ew_variables self)) unfitted"

section \<open>AgglomerativeClusteringBucketer\<close>

record 'v AgglomerativeClusteringBucketer =
  ac_n_bins :: nat
  ac_variables :: "string list"
  ac_specials :: "'v specials"
  ac_missing_treatment :: missing_treatment

text \<open>The arguments of the \<^verbatim>\<open>AgglomerativeClustering(n_clusters=...)\<close> call.\<close>
record AgglomerativeClustering =
  n_clusters :: nat

text \<open>The frame \<^verbatim>\<open>df\<close> of values and cluster labels, sorted by value.\<close>
definition cluster_frame :: "real list \<Rightarrow> nat list \<Rightarrow> (real \<times> nat) list" where
  "cluster_frame xs labs = sort_key fst (zip xs labs)"

text \<open>The values of the rows of one cluster, and the groups \<^verbatim>\<open>df.groupby("label")\<close>.\<close>
definition cluster_values :: "(real \<times> nat) list \<Rightarrow> nat \<Rightarrow> real list" where
  "cluster_values df l = map fst (filter (\<lambda>row. snd row = l) df)"

definition cluster_labels :: "(real \<times> nat) list \<Rightarrow> nat list" where
  "cluster_labels df = sort (remdups (map snd df))"

definition cluster_minimum_values :: "(real \<times> nat) list \<Rightarrow> real list" where
  "cluster_minimum_values df = sort (map (\<lambda>l. Min (set (cluster_values df l))) (cluster_labels df))"

definition cluster_maximum_values :: "(real \<times> nat) list \<Rightarrow> real list" where
  "cluster_maximum_values df = sort (map (\<lambda>l. Max (set (cluster_values df l))) (cluster_labels df))"

text \<open>
  \<^verbatim>\<open>[float(np.mean([cluster_minimum_values[i + 1], cluster_maximum_values[i]])) for i in range(len(cluster_minimum_values) - 1)]\<close>
\<close>
definition cluster_boundaries :: "real list \<Rightarrow> nat list \<Rightarrow> real list" where
  "cluster_boundaries xs labs =
     (let df = cluster_frame xs labs;
          mins = cluster_minimum_values df;
          maxs = cluster_maximum_values df
      in map (\<lambda>i. (mins ! (i + 1) + maxs ! i) / 2) [0..<length mins - 1])"

text \<open>
  \<open>clustering\<close> is the delegated \<^verbatim>\<open>ab.fit(X_flt.values.reshape(-1, 1))\<close> followed by
  \<^verbatim>\<open>ab.labels_\<close>. Building \<^verbatim>\<open>df\<close> from arrays of different lengths fails.
\<close>
definition AgglomerativeClusteringBucketer_fit_feature ::
  "(real dataframe, real) reporting \<Rightarrow> (AgglomerativeClustering \<Rightarrow> real list \<Rightarrow> error + nat list) \<Rightarrow>
   real AgglomerativeClusteringBucketer \<Rightarrow> real dataframe \<Rightarrow> target \<Rightarrow>
   string \<Rightarrow> (real, AgglomerativeClustering) fitted \<Rightarrow> error + (real, AgglomerativeClustering) fitted" where
  "AgglomerativeClusteringBucketer_fit_feature rep clustering self X y feature s =
     (let ab = \<lparr>n_clusters = ac_n_bins self\<rparr> in
      case get_column X feature of
        Inl e \<Rightarrow> Inl e
      | Inr col \<Rightarrow>
     (let flt = split_specials (ac_specials self) feature col y;
          special = snd flt;
          flt_na = filter_na_for_fit (fst (fst flt)) (snd (fst flt));
          X_flt = fst flt_na
      in case clustering ab (values_of X_flt) of
           Inl e \<Rightarrow> Inl e
         | Inr cluster_labels' \<Rightarrow>
             if length cluster_labels' \<noteq> length (values_of X_flt)
             then Inl (ValueError ''All arrays must be of the same length'')
             else
               (let boundaries = cluster_boundaries (values_of X_flt) cluster_labels'
                in finish_feature rep (ac_missing_treatment self) X y feature
                     (\<lambda>mb. \<lparr>feature_name = feature, type = ''numerical'', bmap = Boundaries boundaries,
                            right = True, bm_specials = special, missing_bucket = mb\<rparr>)
                     (s\<lparr>binners := AList.update feature ab (binners s)\<rparr>))))"

definition AgglomerativeClusteringBucketer_fit ::
  "(real dataframe, real) reporting \<Rightarrow> (AgglomerativeClustering \<Rightarrow> real list \<Rightarrow> error + nat list) \<Rightarrow>
   real AgglomerativeClusteringBucketer \<Rightarrow> real dataframe \<Rightarrow> target \<Rightarrow>
   error + (real, AgglomerativeClustering) fitted" where
  "AgglomerativeClusteringBucketer_fit rep clustering self X y =
     for_features (AgglomerativeClusteringBucketer_fit_feature rep clustering self X y)
       (check_variables X (ac_variables self)) unfitted"

section \<open>EqualFrequencyBucketer\<close>

record 'v EqualFrequencyBucketer =
  ef_n_bins :: nat
  ef_variables :: "string list"
  ef_specials :: "'v specials"
  ef_missing_treatment :: missing_treatment

text \<open>The \<^verbatim>\<open>duplicates\<close> argument of \<^verbatim>\<open>pandas.qcut\<close>.\<close>
datatype duplicates = Raise | Drop

text \<open>
  \<open>qcut\<close> is \<^verbatim>\<open>pd.qcut(X_flt, q=self.n_bins, retbins=True, duplicates=...)\<close>, returning
  the bin edges; the column it gets still holds its missing values. Only a
  \<^verbatim>\<open>ValueError\<close> of the first call is caught; the second call is then made with
  \<^verbatim>\<open>duplicates="drop"\<close> and the warning is issued after it returns.
\<close>
definition EqualFrequencyBucketer_fit_feature ::
  "(real dataframe, real) reporting \<Rightarrow> (real column \<Rightarrow> nat \<Rightarrow> duplicates \<Rightarrow> error + real list) \<Rightarrow>
   real EqualFrequencyBucketer \<Rightarrow> real dataframe \<Rightarrow> target \<Rightarrow>
   string \<Rightarrow> (real, unit) fitted \<Rightarrow> error + (real, unit) fitted" where
  "EqualFrequencyBucketer_fit_feature rep qcut self X y feature s =
     (case get_column X feature of
        Inl e \<Rightarrow> Inl e
      | Inr col \<Rightarrow>
     (let flt = split_specials (ef_specials self) feature col y;
          special = snd flt;
          X_flt = fst (fst flt);
          cut = (case qcut X_flt (ef_n_bins self) Raise of
                   Inr boundaries \<Rightarrow> Inr (boundaries, [])
                 | Inl (ValueError m) \<Rightarrow>
                     (case qcut X_flt (ef_n_bins self) Drop of
                        Inl e \<Rightarrow> Inl e
                      | Inr boundaries \<Rightarrow>
                          Inr (boundaries,
                               [ApproximationWarning ''Approximated quantiles - too many unique values'']))
                 | Inl e \<Rightarrow> Inl e)
      in case cut of
           Inl e \<Rightarrow> Inl e
         | Inr (boundaries, warned) \<Rightarrow>
             (let boundaries = inner_edges boundaries
              in finish_feature rep (ef_missing_treatment self) X y feature
                   (\<lambda>mb. \<lparr>feature_name = feature, type = ''numerical'', bmap = Boundaries boundaries,
                          right = True, bm_specials = special, missing_bucket = mb\<rparr>)
                   (s\<lparr>warnings := warnings s @ warned\<rparr>))))"

definition EqualFrequencyBucketer_fit ::
  "(real dataframe, real) reporting \<Rightarrow> (real column \<Rightarrow> nat \<Rightarrow> duplicates \<Rightarrow> error + real list) \<Rightarrow>
   real EqualFrequencyBucketer \<Rightarrow> real dataframe \<Rightarrow> target \<Rightarrow> error + (real, unit) fitted" where
  "EqualFrequencyBucketer_fit rep qcut self X y =
     for_features (EqualFrequencyBucketer_fit_feature rep qcut self X y)
       (check_variables X (ef_variables self)) unfitted"

section \<open>DecisionTreeBucketer\<close>

record 'v DecisionTreeBucketer =
  dt_variables :: "string list"
  dt_specials :: "'v specials"
  dt_max_n_bins :: int
  dt_missing_treatment :: missing_treatment
  dt_min_bin_size :: real
  dt_random_state :: int

text \<open>The arguments of the \<^verbatim>\<open>DecisionTreeClassifier(...)\<close> call.\<close>
record DecisionTreeClassifier =
  max_leaf_nodes :: int
  min_samples_leaf :: real
  random_state :: int

definition max_n_bins_msg :: "nat \<Rightarrow> int \<Rightarrow> string" where
  "max_n_bins_msg n_special_bins max_bins =
     ''max_n_bins must be at least = the number of special bins + 2: set a value ''
     @ ''max_n_bins>= '' @ str_nat (n_special_bins + 2)
     @ '' (currently max_n_bins='' @ str_int max_bins @ '')''"

text \<open>
  \<open>tree\<close> is the delegated \<^verbatim>\<open>binner.fit(X_flt.values.reshape(-1, 1), y_flt)\<close> followed by
  \<^verbatim>\<open>binner.tree_.threshold[binner.tree_.feature != _tree.TREE_UNDEFINED]\<close>, the
  thresholds of the internal nodes. The division \<^verbatim>\<open>X_flt.shape[0] / X.shape[0]\<close> and
  the rescaled bin size are taken in exact arithmetic.
\<close>
definition DecisionTreeBucketer_fit_feature ::
  "(real dataframe, real) reporting \<Rightarrow> (DecisionTreeClassifier \<Rightarrow> real list \<Rightarrow> target \<Rightarrow> error + real list) \<Rightarrow>
   real DecisionTreeBucketer \<Rightarrow> real dataframe \<Rightarrow> target \<Rightarrow>
   string \<Rightarrow> (real, DecisionTreeClassifier) fitted \<Rightarrow> error + (real, DecisionTreeClassifier) fitted" where
  "DecisionTreeBucketer_fit_feature rep tree self X y feature s =
     (let n_special_bins = (case map_of (dt_specials self) feature of
                              Some special \<Rightarrow> length special | None \<Rightarrow> 0)
      in if map_of (dt_specials self) feature \<noteq> None \<and> dt_max_n_bins self - int n_special_bins \<le> 1
         then Inl (ValueError (max_n_bins_msg n_special_bins (dt_max_n_bins self)))
         else
     (case get_column X feature of
        Inl e \<Rightarrow> Inl e
      | Inr col \<Rightarrow>
     (let flt = split_specials (dt_specials self) feature col y;
          special = snd flt;
          flt_na = filter_na_for_fit (fst (fst flt)) (snd (fst flt));
          X_flt = fst flt_na;
          y_flt = snd flt_na
      in if shape0 X = 0 then Inl ZeroDivisionError
         else
           (let frac_left = real (length X_flt) / real (shape0 X) in
            if frac_left > 0
            then
              (let min_bin_size = dt_min_bin_size self / frac_left;
                   min_bin_size = (if min_bin_size > 1 / 2 then 1 / 2 else min_bin_size);
                   binner = \<lparr>max_leaf_nodes = dt_max_n_bins self - int n_special_bins,
                             min_samples_leaf = min_bin_size,
                             random_state = dt_random_state self\<rparr>
               in case tree binner (values_of X_flt) y_flt of
                    Inl e \<Rightarrow> Inl e
                  | Inr thresholds \<Rightarrow>
                      finish_feature rep (dt_missing_treatment self) X y feature
                        (\<lambda>mb. \<lparr>feature_name = feature, type = ''numerical'',
                               bmap = Boundaries (sort (remdups thresholds)), right = False,
                               bm_specials = special, missing_bucket = mb\<rparr>)
                        (s\<lparr>binners := AList.update feature binner (binners s)\<rparr>))
            else
              finish_feature rep (dt_missing_treatment self) X y feature
                (\<lambda>mb. \<lparr>feature_name = feature, type = ''numerical'', bmap = Boundaries [],
                       right = False, bm_specials = special, missing_bucket = mb\<rparr>)
                s))))"

definition DecisionTreeBucketer_fit ::
  "(real dataframe, real) reporting \<Rightarrow> (DecisionTreeClassifier \<Rightarrow> real list \<Rightarrow> target \<Rightarrow> error + real list) \<Rightarrow>
   real DecisionTreeBucketer \<Rightarrow> real dataframe \<Rightarrow> target \<Rightarrow> error + (real, DecisionTreeClassifier) fitted" where
  "DecisionTreeBucketer_fit rep tree self X y =
     for_features (DecisionTreeBucketer_fit_feature rep tree self X y)
       (check_variables X (dt_variables self)) unfitted"

section \<open>OrdinalCategoricalBucketer\<close>

text \<open>\<^verbatim>\<open>encoding_method\<close>, which the constructor restricts to these two strings.\<close>
datatype encoding_method = Frequency | Ordered

record 'v OrdinalCategoricalBucketer =
  oc_tol :: real
  oc_max_n_categories :: "nat option"
  oc_variables :: "string list"
  oc_specials :: "'v specials"
  oc_encoding_method :: encoding_method
  oc_missing_treatment :: missing_treatment

text \<open>
  The pandas collaborators of this bucketer: \<^verbatim>\<open>X_y[var].value_counts(normalize=True)\<close>,
  the categories with their relative frequencies, most frequent first; and
  \<^verbatim>\<open>X_y.groupby([var])["target"].mean().sort_values(ascending=True).index\<close>, the
  categories in ascending order of their mean target.
\<close>
record 'v pandas_counts =
  value_counts_normalize :: "'v list \<Rightarrow> ('v \<times> real) list"
  target_mean_order :: "'v list \<Rightarrow> target \<Rightarrow> 'v list"

text \<open>
  \<^verbatim>\<open>normalized_counts[cats]\<close>: the entries of the given categories, in the order
  given; a category without an entry is a \<^verbatim>\<open>KeyError\<close>.
\<close>
fun select_labels :: "('v \<times> real) list \<Rightarrow> 'v list \<Rightarrow> error + ('v \<times> real) list" where
  "select_labels counts [] = Inr []"
| "select_labels counts (c # cats) =
     (case map_of counts c of
        None \<Rightarrow> Inl (KeyError ''not in index'')
      | Some f \<Rightarrow>
          (case select_labels counts cats of
             Inl e \<Rightarrow> Inl e
           | Inr rest \<Rightarrow> Inr ((c, f) # rest)))"

text \<open>\<^verbatim>\<open>dict(zip(keys, range(0, len(keys))))\<close>.\<close>
definition enumerate_dict :: "'k list \<Rightarrow> ('k \<times> int) list" where
  "enumerate_dict keys =
     fold (\<lambda>item d. AList.update (fst item) (snd item) d) (zip keys (map int [0..<length keys])) []"

text \<open>
  The body of the loop of \<^verbatim>\<open>OrdinalCategoricalBucketer.fit\<close> for one variable.
  The \<^verbatim>\<open>BucketMapping(...)\<close> calls of the two categorical bucketers do not pass
  \<^verbatim>\<open>right\<close>; the inclusion side, which has no meaning for a categorical mapping, is
  left at \<open>True\<close>.
\<close>
definition OrdinalCategoricalBucketer_fit_feature ::
  "('v dataframe, 'v) reporting \<Rightarrow> 'v pandas_counts \<Rightarrow> 'v OrdinalCategoricalBucketer \<Rightarrow> 'v dataframe \<Rightarrow> target \<Rightarrow>
   string \<Rightarrow> ('v, unit) fitted \<Rightarrow> error + ('v, unit) fitted" where
  "OrdinalCategoricalBucketer_fit_feature rep pd self X y var s =
     (case get_column X var of
        Inl e \<Rightarrow> Inl e
      | Inr col \<Rightarrow>
     (let flt = split_specials (oc_specials self) var col y;
          special = snd flt;
          flt_na = filter_na_for_fit (fst (fst flt)) (snd (fst flt));
          X_flt = fst flt_na;
          y_flt = snd flt_na;
          counts = (case oc_encoding_method self of
                      Ordered \<Rightarrow>
                        if y = None
                        then Inl (ValueError (''To use encoding_method=='' @ [CHR 0x27] @ ''ordered''
                                              @ [CHR 0x27] @ '', y cannot be None.''))
                        else select_labels (value_counts_normalize pd (values_of X_flt))
                               (target_mean_order pd (values_of X_flt) y_flt)
                    | Frequency \<Rightarrow> Inr (value_counts_normalize pd (values_of X_flt)))
      in case counts of
           Inl e \<Rightarrow> Inl e
         | Inr normalized_counts \<Rightarrow>
             (let normalized_counts = (case oc_max_n_categories self of
                                         None \<Rightarrow> normalized_counts
                                       | Some n \<Rightarrow> take n normalized_counts);
                  normalized_counts = filter (\<lambda>c. snd c \<ge> oc_tol self) normalized_counts;
                  mapping = enumerate_dict (map fst normalized_counts)
              in finish_feature rep (oc_missing_treatment self) X y var
                   (\<lambda>mb. \<lparr>feature_name = var, type = ''categorical'', bmap = Categories mapping,
                          right = True, bm_specials = special, missing_bucket = mb\<rparr>)
                   s)))"

text \<open>\<^verbatim>\<open>OrdinalCategoricalBucketer.fit\<close> starts with \<^verbatim>\<open>assert y is not None\<close>.\<close>
definition OrdinalCategoricalBucketer_fit ::
  "('v dataframe, 'v) reporting \<Rightarrow> 'v pandas_counts \<Rightarrow> 'v OrdinalCategoricalBucketer \<Rightarrow> 'v dataframe \<Rightarrow> target \<Rightarrow>
   error + ('v, unit) fitted" where
  "OrdinalCategoricalBucketer_fit rep pd self X y =
     (if y = None then Inl (AssertionError ''This bucketer is supervised. Provide y.'')
      else for_features (OrdinalCategoricalBucketer_fit_feature rep pd self X y)
             (check_variables X (oc_variables self)) unfitted)"

section \<open>AsIsCategoricalBucketer\<close>

record 'v AsIsCategoricalBucketer =
  aic_variables :: "string list"
  aic_specials :: "'v specials"
  aic_missing_treatment :: missing_treatment

text \<open>
  The body of the loop of \<^verbatim>\<open>AsIsCategoricalBucketer.fit\<close> for one variable: every
  distinct normal value gets a bucket of its own, in the order of first appearance.
\<close>
definition AsIsCategoricalBucketer_fit_feature ::
  "('v dataframe, 'v) reporting \<Rightarrow> 'v AsIsCategoricalBucketer \<Rightarrow> 'v dataframe \<Rightarrow> target \<Rightarrow>
   string \<Rightarrow> ('v, unit) fitted \<Rightarrow> error + ('v, unit) fitted" where
  "AsIsCategoricalBucketer_fit_feature rep self X y var s =
     (case get_column X var of
        Inl e \<Rightarrow> Inl e
      | Inr col \<Rightarrow>
     (let flt = split_specials (aic_specials self) var col y;
          special = snd flt;
          flt_na = filter_na_for_fit (fst (fst flt)) (snd (fst flt));
          X_flt = fst flt_na;
          unq = unique (values_of X_flt);
          mapping = enumerate_dict unq
      in finish_feature rep (aic_missing_treatment self) X y var
           (\<lambda>mb. \<lparr>feature_name = var, type = ''categorical'', bmap = Categories mapping,
                  right = True, bm_specials = special, missing_bucket = mb\<rparr>)
           s))"

definition AsIsCategoricalBucketer_fit ::
  "('v dataframe, 'v) reporting \<Rightarrow> 'v AsIsCategoricalBucketer \<Rightarrow> 'v dataframe \<Rightarrow> target \<Rightarrow>
   error + ('v, unit) fitted" where
  "AsIsCategoricalBucketer_fit rep self X y =
     for_features (AsIsCategoricalBucketer_fit_feature rep self X y)
       (check_variables X (aic_variables self)) unfitted"

section \<open>AsIsNumericalBucketer\<close>

record 'v AsIsNumericalBucketer =
  an_right :: bool
  an_variables :: "string list"
  an_specials :: "'v specials"
  an_missing_treatment :: missing_treatment

definition asis_not_prebucketed_msg :: "string \<Rightarrow> string" where
  "asis_not_prebucketed_msg feature =
     ''The column '' @ [CHR 0x27] @ feature @ [CHR 0x27] @ '' has more than 100 unique values ''
     @ ''and cannot be used with the AsIsBucketer.''
     @ ''Apply a different bucketer first.''"

text \<open>
  What Python and numpy do with a NaN among the boundaries (\<open>None\<close> is the NaN). Every
  comparison with a NaN is false, so the order in which \<^verbatim>\<open>list.sort()\<close> leaves a
  list that holds one depends on the sorting algorithm: \<open>list_sort\<close> is that order.
  \<open>boundaries_error\<close> is the error, if any, that \<^verbatim>\<open>build_bucket_table\<close> raises
  on boundaries left in that order (numpy refuses bins that are neither increasing nor
  decreasing with a \<^verbatim>\<open>ValueError\<close>).
\<close>
record 'v nan_boundaries =
  list_sort :: "'v option list \<Rightarrow> 'v option list"
  boundaries_error :: "'v option list \<Rightarrow> error option"

text \<open>
  The body of the loop of \<^verbatim>\<open>AsIsNumericalBucketer.fit\<close>. This bucketer does not
  call \<^verbatim>\<open>_filter_na_for_fit\<close>: \<^verbatim>\<open>X_flt.unique()\<close> is taken on the cells of
  the column, where all missing cells count as one more value (\<open>None\<close>), and the
  boundaries handed to the mapping are these cells. The mapping is therefore one over
  cells, of type \<open>'v option bucket_mapping\<close>. \<^verbatim>\<open>boundaries.sort()\<close> sorts in
  place, so that \<^verbatim>\<open>len(boundaries)\<close> is the number of unique cells. Without a NaN
  the boundaries are the unique values in ascending order; with a NaN they are in the
  order \<open>list_sort\<close>, and the first \<^verbatim>\<open>build_bucket_table\<close> may refuse them.
\<close>
definition AsIsNumericalBucketer_fit_feature ::
  "('v dataframe, 'v option) reporting \<Rightarrow> 'v nan_boundaries \<Rightarrow> ('v::linorder) AsIsNumericalBucketer \<Rightarrow>
   'v dataframe \<Rightarrow> target \<Rightarrow> string \<Rightarrow> ('v option, unit) fitted \<Rightarrow> error + ('v option, unit) fitted" where
  "AsIsNumericalBucketer_fit_feature rep nan self X y feature s =
     (case get_column X feature of
        Inl e \<Rightarrow> Inl e
      | Inr col \<Rightarrow>
     (let flt = split_specials (an_specials self) feature col y;
          special = snd flt;
          X_flt = fst (fst flt);
          uniq = unique X_flt;
          boundaries = (if List.member uniq None then list_sort nan uniq else sort uniq)
      in if length uniq > 100
         then Inl (NotPreBucketedError (asis_not_prebucketed_msg feature))
         else
           (case (if List.member uniq None then boundaries_error nan boundaries else None) of
              Some e \<Rightarrow> Inl e
            | None \<Rightarrow>
                finish_feature rep (an_missing_treatment self) X y feature
                  (\<lambda>mb. \<lparr>feature_name = feature, type = ''numerical'', bmap = Boundaries boundaries,
                         right = an_right self, bm_specials = map (\<lambda>g. (fst g, map Some (snd g))) special,
                         missing_bucket = mb\<rparr>)
                  s)))"

definition AsIsNumericalBucketer_fit ::
  "('v dataframe, 'v option) reporting \<Rightarrow> 'v nan_boundaries \<Rightarrow> ('v::linorder) AsIsNumericalBucketer \<Rightarrow>
   'v dataframe \<Rightarrow> target \<Rightarrow> error + ('v option, unit) fitted" where
  "AsIsNumericalBucketer_fit rep nan self X y =
     for_features (AsIsNumericalBucketer_fit_feature rep nan self X y)
       (check_variables X (an_variables self)) unfitted"

section \<open>Transforming with a bucket mapping\<close>

text \<open>
  Modelled from the spec: \<^verbatim>\<open>BucketMapping.transform\<close> is not among the sources.
  A null value goes to the missing bucket (the explicit one, or -1); a value listed under a
  special group goes to that group's reserved id (-3 and decreasing, in declaration
  order); a numerical value goes to the index of the segment of the boundary sequence
  that holds it, the boundary belonging to the segment below it when the mapping is
  right-inclusive and to the one above it otherwise; a category goes to its bucket, or to
  -2 when it is not in the map.
\<close>
fun special_bucket :: "'v var_specials \<Rightarrow> 'v \<Rightarrow> int \<Rightarrow> int option" where
  "special_bucket [] v b = None"
| "special_bucket (special # others) v b =
     (if List.member (snd special) v then Some b else special_bucket others v (b - 1))"

definition transform_value :: "('v::linorder) bucket_mapping \<Rightarrow> 'v option \<Rightarrow> int" where
  "transform_value bm x =
     (case x of
        None \<Rightarrow> (case missing_bucket bm of None \<Rightarrow> - 1 | Some b \<Rightarrow> b)
      | Some v \<Rightarrow>
          (case special_bucket (bm_specials bm) v (- 3) of
             Some b \<Rightarrow> b
           | None \<Rightarrow>
               (case bmap bm of
                  Boundaries bs \<Rightarrow>
                    int (length (filter (\<lambda>b. if right bm then b < v else b \<le> v) bs))
                | Categories m \<Rightarrow> (case map_of m v of None \<Rightarrow> - 2 | Some b \<Rightarrow> b))))"

definition transform :: "('v::linorder) bucket_mapping \<Rightarrow> 'v column \<Rightarrow> int list" where
  "transform bm col = map (transform_value bm) col"

section \<open>BucketingProcess\<close>

text \<open>
  A bucketer of a pipeline, as far as the process touches it: its \<^verbatim>\<open>specials\<close>
  attribute, and everything else (\<open>params\<close>). A pipeline is its list of steps; a step is
  the estimator itself or a \<^verbatim>\<open>(name, estimator)\<close> tuple.
\<close>

record ('v, 'p) bucketer =
  specials :: "'v specials"
  params :: 'p

datatype ('v, 'p) step = Estimator "('v, 'p) bucketer" | Tuple string "('v, 'p) bucketer"

fun estimator :: "('v, 'p) step \<Rightarrow> ('v, 'p) bucketer" where
  "estimator (Estimator b) = b"
| "estimator (Tuple n b) = b"

text \<open>
  \<^verbatim>\<open>if type(step) != tuple: step.specials = s else: step[1].specials = s\<close>
\<close>
fun assign_specials :: "'v specials \<Rightarrow> ('w, 'p) step \<Rightarrow> ('v, 'p) step" where
  "assign_specials s (Estimator b) = Estimator \<lparr>specials = s, params = params b\<rparr>"
| "assign_specials s (Tuple n b) = Tuple n \<lparr>specials = s, params = params b\<rparr>"

text \<open>
  \<^verbatim>\<open>_find_remapped_specials(bucket_labels, var_specials)\<close>: \<open>bucket_labels\<close> is the
  dict from pre-bucket id to label, \<open>var_specials\<close> the declared specials of the
  variable; either may be \<^verbatim>\<open>None\<close>. \<open>remap_label\<close> is the inner loop over
  \<^verbatim>\<open>bucket_labels.items()\<close> for one \<^verbatim>\<open>label\<close> (here \<open>lbl\<close>), \<open>remap_labels\<close> the outer loop over
  \<^verbatim>\<open>var_specials.keys()\<close>.
\<close>
fun remap_label :: "string \<Rightarrow> (int \<times> string) list \<Rightarrow> int var_specials \<Rightarrow> int var_specials" where
  "remap_label lbl [] new_specials = new_specials"
| "remap_label lbl ((bucket, bucket_label) # items) new_specials =
     remap_label lbl items
       (if bucket_label = ''Special: '' @ lbl
        then AList.update lbl [bucket] new_specials
        else new_specials)"

fun remap_labels :: "string list \<Rightarrow> (int \<times> string) list \<Rightarrow> int var_specials \<Rightarrow> int var_specials" where
  "remap_labels [] bucket_labels new_specials = new_specials"
| "remap_labels (lbl # keys) bucket_labels new_specials =
     remap_labels keys bucket_labels (remap_label lbl bucket_labels new_specials)"

definition find_remapped_specials ::
  "(int \<times> string) list option \<Rightarrow> 'v var_specials option \<Rightarrow> int var_specials" where
  "find_remapped_specials bucket_labels var_specials =
     (case bucket_labels of None \<Rightarrow> [] | Some bl \<Rightarrow>
      (case var_specials of None \<Rightarrow> [] | Some vs \<Rightarrow> remap_labels (map fst vs) bl []))"

text \<open>
  The collaborators of \<^verbatim>\<open>BucketingProcess.fit\<close> that are not part of the
  process: fitting and transforming with the prebucketing pipeline (it returns the
  pre-bucketed frame and its \<^verbatim>\<open>features_bucket_mapping_\<close>), fitting the
  bucketing pipeline, the \<^verbatim>\<open>labels\<close> property of a bucket mapping, and
  \<^verbatim>\<open>build_bucket_table\<close> on raw and on pre-bucketed data.
\<close>
record ('v, 'p) collaborators =
  pre_fit_transform ::
    "('v, 'p) step list \<Rightarrow> 'v dataframe \<Rightarrow> target \<Rightarrow> error + (int dataframe \<times> 'v features_bucket_mapping)"
  bucketing_fit ::
    "(int, 'p) step list \<Rightarrow> int dataframe \<Rightarrow> target \<Rightarrow> error + int features_bucket_mapping"
  labels :: "'v bucket_mapping \<Rightarrow> (int \<times> string) list option"
  raw_bucket_table :: "'v dataframe \<Rightarrow> target \<Rightarrow> string \<Rightarrow> 'v bucket_mapping \<Rightarrow> bucket_table"
  pre_bucket_table :: "int dataframe \<Rightarrow> target \<Rightarrow> string \<Rightarrow> int bucket_mapping \<Rightarrow> bucket_table"

text \<open>
  Modelled from the spec: \<^verbatim>\<open>FeaturesBucketMapping.columns\<close> and
  \<^verbatim>\<open>.maps.keys()\<close> (the class is not among the sources) enumerate the covered
  columns, the keys of the name-keyed collection.
\<close>
definition columns :: "'v features_bucket_mapping \<Rightarrow> string list" where
  "columns fbm = map fst fbm"

record ('v, 'p) bucketing_process =
  prebucketing_pipeline :: "('v, 'p) step list"
  bucketing_pipeline :: "(int, 'p) step list"
  bp_specials :: "'v specials"
  prebucketing_specials :: "'v specials"
  bucketing_specials :: "int specials"
  prebucketing_mapping :: "'v features_bucket_mapping"
  bucketing_mapping :: "int features_bucket_mapping"
  prebucket_tables :: "(string \<times> bucket_table) list"
  bucket_tables :: "(string \<times> bucket_table) list"

text \<open>
  \<^verbatim>\<open>__init__\<close>: a prebucketing step that already has specials is refused;
  the process's specials are given to every prebucketing step, and the stage-2 specials
  start empty. In the source the message of the \<^verbatim>\<open>ValueError\<close> ends with the
  printed form of the offending step, which is left out here.
\<close>
definition BucketingProcess_init ::
  "('v, 'p) step list \<Rightarrow> (int, 'p) step list \<Rightarrow> 'v specials \<Rightarrow> error + ('v, 'p) bucketing_process" where
  "BucketingProcess_init pre buck specs =
     (if list_ex (\<lambda>st. length (specials (estimator st)) \<noteq> 0) pre
      then Inl (ValueError ''Specials should be defined on the BucketingProcess level, remove the specials from '')
      else Inr \<lparr>prebucketing_pipeline = map (assign_specials specs) pre,
                bucketing_pipeline = buck,
                bp_specials = specs,
                prebucketing_specials = specs,
                bucketing_specials = [],
                prebucketing_mapping = [],
                bucketing_mapping = [],
                prebucket_tables = [],
                bucket_tables = []\<rparr>)"

text \<open>
  The loop \<^verbatim>\<open>for var, var_specials in self._prebucketing_specials.items()\<close>:
  \<open>bs\<close> is \<^verbatim>\<open>self._bucketing_specials\<close>, updated in place. Looking up a
  variable that the prebucketing mapping does not hold fails.
\<close>
fun remap_all_specials ::
  "('v bucket_mapping \<Rightarrow> (int \<times> string) list option) \<Rightarrow> 'v features_bucket_mapping \<Rightarrow>
   'v specials \<Rightarrow> int specials \<Rightarrow> error + int specials" where
  "remap_all_specials lab fbm [] bs = Inr bs"
| "remap_all_specials lab fbm ((var, var_specials) # rest) bs =
     (case map_of fbm var of
        None \<Rightarrow> Inl (KeyError var)
      | Some bm \<Rightarrow>
          (let new_specials = find_remapped_specials (lab bm) (Some var_specials)
           in remap_all_specials lab fbm rest
                (if length new_specials \<noteq> 0 then AList.update var new_specials bs else bs)))"

text \<open>The two messages of the coverage check.\<close>
definition not_prebucketed_msg :: "string list \<Rightarrow> string" where
  "not_prebucketed_msg cols =
     ''The following columns are bucketed but have not been pre-bucketed: '' @ join '', '' cols @ ''.\<newline>''
     @ ''Consider adding an AsIsNumericalBucketer or AsIsCategoricalBucketer to the prebucketing pipeline.\<newline>''
     @ ''Or add an additional bucketing step after the BucketingProcess:\<newline>''
     @ ''make_pipeline(BucketingProcess(..), Bucketer())''"

definition not_bucketed_msg :: "string list \<Rightarrow> string" where
  "not_bucketed_msg cols =
     ''The following columns are prebucketed but have not been bucketed: '' @ join '', '' cols @ ''.\<newline>''
     @ ''Consider updating the bucketing pipeline,\<newline>''"

text \<open>
  The tables \<^verbatim>\<open>{column: build_bucket_table(...)}\<close> for the columns of \<open>X\<close> that
  the mapping covers.
\<close>
definition tables_for ::
  "('w dataframe \<Rightarrow> target \<Rightarrow> string \<Rightarrow> 'v bucket_mapping \<Rightarrow> bucket_table) \<Rightarrow>
   'u dataframe \<Rightarrow> 'w dataframe \<Rightarrow> target \<Rightarrow> 'v features_bucket_mapping \<Rightarrow> (string \<times> bucket_table) list" where
  "tables_for build X D y fbm =
     fold (\<lambda>column tabs.
             (case map_of fbm column of
                None \<Rightarrow> tabs
              | Some bm \<Rightarrow> AList.update column (build D y column bm) tabs))
          (map fst X) []"

text \<open>
  \<^verbatim>\<open>BucketingProcess.fit(X, y)\<close>. The summary that the reporting mixin
  computes last is not part of the state modelled here.
\<close>
definition fit ::
  "('v, 'p) collaborators \<Rightarrow> ('v, 'p) bucketing_process \<Rightarrow> 'v dataframe \<Rightarrow> target \<Rightarrow>
   error + ('v, 'p) bucketing_process" where
  "fit env self X y =
     (case pre_fit_transform env (prebucketing_pipeline self) X y of
        Inl e \<Rightarrow> Inl e
      | Inr (X_prebucketed, pre_fbm) \<Rightarrow>
     (let pre_tabs = tables_for (raw_bucket_table env) X X y pre_fbm in
      case remap_all_specials (labels env) pre_fbm (prebucketing_specials self) (bucketing_specials self) of
        Inl e \<Rightarrow> Inl e
      | Inr new_bucketing_specials \<Rightarrow>
     (let steps = map (assign_specials new_bucketing_specials) (bucketing_pipeline self) in
      case bucketing_fit env steps X_prebucketed y of
        Inl e \<Rightarrow> Inl e
      | Inr fbm \<Rightarrow>
     (let not_prebucketed = filter (\<lambda>col. \<not> List.member (columns pre_fbm) col) (columns fbm) in
      if length not_prebucketed \<noteq> 0 then Inl (NotPreBucketedError (not_prebucketed_msg not_prebucketed))
      else
     (let not_bucketed = filter (\<lambda>col. \<not> List.member (columns fbm) col) (columns pre_fbm) in
      if length not_bucketed \<noteq> 0 then Inl (NotBucketedError (not_bucketed_msg not_bucketed))
      else
        Inr (self\<lparr>bucketing_pipeline := steps,
                  bucketing_specials := new_bucketing_specials,
                  prebucketing_mapping := pre_fbm,
                  bucketing_mapping := fbm,
                  prebucket_tables := pre_tabs,
                  bucket_tables := tables_for (pre_bucket_table env) X X_prebucketed y fbm\<rparr>))))))"

text \<open>
  The pre-bucket ids whose prebucketing label is \<^verbatim>\<open>"Special: L"\<close>, in the order of
  the labels dict.
\<close>
definition label_ids :: "(int \<times> string) list \<Rightarrow> string \<Rightarrow> int list" where
  "label_ids bl L = map fst (filter (\<lambda>p. snd p = ''Special: '' @ L) bl)"

section \<open>Example inputs\<close>

text \<open>
  Concrete collaborators and inputs on which the theorems below are instantiated. The
  example collaborators of the process return fixed mappings: \<open>pre_cols\<close> are the columns
  the prebucketing pipeline covers, \<open>cols\<close> those of the bucketing pipeline, and \<open>bl\<close>
  the labels of every prebucketing mapping.
\<close>

definition example_mapping :: "string \<Rightarrow> 'v bucket_mapping" where
  "example_mapping f =
     \<lparr>feature_name = f, type = ''numerical'', bmap = Boundaries [], right = True,
      bm_specials = [], missing_bucket = None\<rparr>"

definition example_collaborators ::
  "string list \<Rightarrow> string list \<Rightarrow> (int \<times> string) list \<Rightarrow> (real, unit) collaborators" where
  "example_collaborators pre_cols cols bl =
     \<lparr>pre_fit_transform = (\<lambda>steps X y. Inr ([], map (\<lambda>c. (c, example_mapping c)) pre_cols)),
      bucketing_fit = (\<lambda>steps X y. Inr (map (\<lambda>c. (c, example_mapping c)) cols)),
      labels = (\<lambda>bm. Some bl),
      raw_bucket_table = (\<lambda>X y c bm. []),
      pre_bucket_table = (\<lambda>X y c bm. [])\<rparr>"

definition example_process :: "real specials \<Rightarrow> (real, unit) bucketing_process" where
  "example_process specs =
     \<lparr>prebucketing_pipeline = [Tuple ''pre'' \<lparr>specials = specs, params = ()\<rparr>],
      bucketing_pipeline = [Tuple ''opt'' \<lparr>specials = [], params = ()\<rparr>, Estimator \<lparr>specials = [], params = ()\<rparr>],
      bp_specials = specs,
      prebucketing_specials = specs,
      bucketing_specials = [],
      prebucketing_mapping = [],
      bucketing_mapping = [],
      prebucket_tables = [],
      bucket_tables = []\<rparr>"

definition example_column :: "real column" where
  "example_column = [Some 10, Some 20, Some 30, Some 40, None]"

definition example_EqualWidthBucketer :: "real EqualWidthBucketer" where
  "example_EqualWidthBucketer =
     \<lparr>ew_n_bins = 2, ew_variables = [''x''], ew_specials = [], ew_missing_treatment = Separate\<rparr>"

definition example_mapping_25 :: "real bucket_mapping" where
  "example_mapping_25 =
     \<lparr>feature_name = ''x'', type = ''numerical'', bmap = Boundaries [25], right = True,
      bm_specials = [], missing_bucket = None\<rparr>"

definition example_labels :: "(int \<times> string) list" where
  "example_labels = [(0, ''(-inf, 25000.0)''), (1, ''[25000.0, inf)''), (- 1, ''Missing''), (- 3, ''Special: high'')]"

definition example_specials :: "real specials" where
  "example_specials = [(''LIMIT_BAL'', [(''high'', [999999]), (''low'', [0])])]"

definition example_table :: bucket_table where
  "example_table =
     [\<lparr>bucket_id = 0, label = ''(-inf, 25.0]'', Count = 2\<rparr>,
      \<lparr>bucket_id = 1, label = ''(25.0, inf]'', Count = 2\<rparr>,
      \<lparr>bucket_id = - 1, label = ''Missing'', Count = 3\<rparr>]"

definition example_reporting :: "('x, 'v) reporting" where
  "example_reporting =
     \<lparr>build_bucket_table = (\<lambda>X y feature bm. example_table),
      sort_values_Count_descending = (\<lambda>tab. rev (sort_key Count tab))\<rparr>"

text \<open>
  The normal values of a feature: the values of its column that are neither missing nor
  listed under one of the feature's special groups.
\<close>
definition normal_values :: "'v specials \<Rightarrow> string \<Rightarrow> 'v column \<Rightarrow> 'v list" where
  "normal_values specs feature col =
     filter (\<lambda>v. \<not> List.member (special_values (case map_of specs feature of None \<Rightarrow> [] | Some special \<Rightarrow> special)) v)
       (values_of col)"

text \<open>A column of the hundred distinct values 1, ..., 100 followed by one missing value.\<close>
definition example_column_100 :: "real column" where
  "example_column_100 = map (\<lambda>n. Some (real n)) [1..<101] @ [None]"

text \<open>
  An example in which \<^verbatim>\<open>list.sort()\<close> leaves a list that holds a NaN as it is
  and the bucket table is built.
\<close>
definition example_nan_boundaries :: "real nan_boundaries" where
  "example_nan_boundaries = \<lparr>list_sort = (\<lambda>xs. xs), boundaries_error = (\<lambda>bs. None)\<rparr>"

definition example_AsIsNumericalBucketer :: "real AsIsNumericalBucketer" where
  "example_AsIsNumericalBucketer =
     \<lparr>an_right = True, an_variables = [''x''], an_specials = [], an_missing_treatment = Separate\<rparr>"

definition example_DecisionTreeBucketer :: "real DecisionTreeBucketer" where
  "example_DecisionTreeBucketer =
     \<lparr>dt_variables = [''LIMIT_BAL''], dt_specials = [(''LIMIT_BAL'', [(''=400000.0'', [400000])])],
      dt_max_n_bins = 2, dt_missing_treatment = Separate, dt_min_bin_size = 5 / 100,
      dt_random_state = 42\<rparr>"

text \<open>An example tree that finds no split.\<close>
definition example_tree :: "DecisionTreeClassifier \<Rightarrow> real list \<Rightarrow> target \<Rightarrow> error + real list" where
  "example_tree binner xs y = Inr []"

text \<open>A column of the 101 distinct values 1, ..., 101.\<close>
definition example_column_101 :: "real column" where
  "example_column_101 = map (\<lambda>n. Some (real n)) [1..<102]"

definition example_OptimalBucketer :: "real OptimalBucketer" where
  "example_OptimalBucketer =
     \<lparr>ob_variables = [''x''], ob_specials = [], ob_variables_type = ''numerical'', ob_max_n_bins = 10,
      ob_missing_treatment = Separate, ob_min_bin_size = 5 / 100, ob_cat_cutoff = None,
      ob_time_limit = 25\<rparr>"

text \<open>An example solver that merges everything into one bucket.\<close>
definition example_optbinning :: "real optbinning" where
  "example_optbinning =
     \<lparr>numerical_splits = (\<lambda>binner xs y. Inr []), categorical_splits = (\<lambda>binner xs y. Inr [xs])\<rparr>"

definition example_DecisionTreeBucketer_5 :: "real DecisionTreeBucketer" where
  "example_DecisionTreeBucketer_5 =
     \<lparr>dt_variables = [''LIMIT_BAL''], dt_specials = [(''LIMIT_BAL'', [(''=400000.0'', [400000])])],
      dt_max_n_bins = 5, dt_missing_treatment = Separate, dt_min_bin_size = 3 / 10,
      dt_random_state = 42\<rparr>"

text \<open>
  An example quantile cut in the manner of \<^verbatim>\<open>pandas.qcut\<close>: the edges are the
  quantiles \<open>i / q\<close> of the non-null values, by linear interpolation between the order
  statistics; edges that are not unique are refused or dropped, as \<open>dup\<close> says.
\<close>
definition example_quantile :: "real list \<Rightarrow> nat \<Rightarrow> nat \<Rightarrow> real" where
  "example_quantile vs i q =
     (let m = length vs;
          lo = (i * (m - 1)) div q;
          hi = min (lo + 1) (m - 1)
      in vs ! lo + (real ((i * (m - 1)) mod q) / real q) * (vs ! hi - vs ! lo))"

definition example_qcut :: "real column \<Rightarrow> nat \<Rightarrow> duplicates \<Rightarrow> error + real list" where
  "example_qcut X q dup =
     (let vs = sort (values_of X);
          bins = map (\<lambda>i. example_quantile vs i q) [0..<q + 1]
      in if vs = [] \<or> q = 0 then Inl (ValueError ''cannot cut empty data'')
         else if length (remdups bins) < length bins \<and> length bins \<noteq> 2
         then (case dup of
                 Raise \<Rightarrow> Inl (ValueError ''Bin edges must be unique'')
               | Drop \<Rightarrow> Inr (remdups bins))
         else Inr bins)"

definition example_EqualFrequencyBucketer :: "real EqualFrequencyBucketer" where
  "example_EqualFrequencyBucketer =
     \<lparr>ef_n_bins = 4, ef_variables = [''x''], ef_specials = [], ef_missing_treatment = Separate\<rparr>"

text \<open>A column with many duplicates.\<close>
definition example_column_duplicates :: "real column" where
  "example_column_duplicates = [Some 1, Some 1, Some 1, Some 2, Some 3]"

text \<open>Labels of a prebucketing mapping in which no special group has a bucket.\<close>
definition example_labels_plain :: "(int \<times> string) list" where
  "example_labels_plain = [(0, ''(-inf, 25000.0)''), (1, ''[25000.0, inf)''), (- 1, ''Missing'')]"

definition example_AgglomerativeClusteringBucketer :: "real AgglomerativeClusteringBucketer" where
  "example_AgglomerativeClusteringBucketer =
     \<lparr>ac_n_bins = 3, ac_variables = [''x''], ac_specials = [], ac_missing_treatment = Separate\<rparr>"

definition example_column_clusters :: "real column" where
  "example_column_clusters = [Some 10, Some 1, None, Some 12, Some 2, Some 20]"

text \<open>
  An example clustering of the five values 10, 1, 12, 2, 20 into the clusters \<open>{1, 2}\<close>
  (label 0), \<open>{10, 12}\<close> (label 2) and \<open>{20}\<close> (label 1).
\<close>
definition example_clustering :: "AgglomerativeClustering \<Rightarrow> real list \<Rightarrow> error + nat list" where
  "example_clustering ab xs = Inr [2, 0, 2, 0, 1]"

text \<open>
  A bucket table in which the missing values are the most frequent bucket, with no two
  counts equal, and the collaborators that return it.
\<close>
definition example_table_missing_first :: bucket_table where
  "example_table_missing_first =
     [\<lparr>bucket_id = 0, label = ''(-inf, 25.0]'', Count = 2\<rparr>,
      \<lparr>bucket_id = 1, label = ''(25.0, inf]'', Count = 1\<rparr>,
      \<lparr>bucket_id = - 1, label = ''Missing'', Count = 3\<rparr>]"

definition example_reporting_missing_first :: "('x, 'v) reporting" where
  "example_reporting_missing_first =
     \<lparr>build_bucket_table = (\<lambda>X y feature bm. example_table_missing_first),
      sort_values_Count_descending = (\<lambda>tab. rev (sort_key Count tab))\<rparr>"

text \<open>
  The bucket table of a column in which every value is missing: one row per realized
  bucket, so that the row of the missing values is the only one.
\<close>
definition example_table_only_missing :: bucket_table where
  "example_table_only_missing = [\<lparr>bucket_id = - 1, label = ''Missing'', Count = 3\<rparr>]"

definition example_reporting_only_missing :: "('x, 'v) reporting" where
  "example_reporting_only_missing =
     \<lparr>build_bucket_table = (\<lambda>X y feature bm. example_table_only_missing),
      sort_values_Count_descending = (\<lambda>tab. rev (sort_key Count tab))\<rparr>"

definition example_DecisionTreeBucketer_most_frequent :: "real DecisionTreeBucketer" where
  "example_DecisionTreeBucketer_most_frequent =
     \<lparr>dt_variables = [''LIMIT_BAL''], dt_specials = [], dt_max_n_bins = 5,
      dt_missing_treatment = MostFrequent, dt_min_bin_size = 5 / 100, dt_random_state = 42\<rparr>"

text \<open>
  Example relative frequencies in the manner of \<^verbatim>\<open>value_counts(normalize=True)\<close>,
  most frequent first, and the categories in ascending order as an example order of the
  mean target.
\<close>
definition example_pandas_counts :: "real pandas_counts" where
  "example_pandas_counts =
     \<lparr>value_counts_normalize =
        (\<lambda>xs. rev (sort_key snd (map (\<lambda>v. (v, real (count_list xs v) / real (length xs))) (unique xs)))),
      target_mean_order = (\<lambda>xs y. sort (unique xs))\<rparr>"

definition example_OrdinalCategoricalBucketer :: "real OrdinalCategoricalBucketer" where
  "example_OrdinalCategoricalBucketer =
     \<lparr>oc_tol = 5 / 100, oc_max_n_categories = None, oc_variables = [''x''], oc_specials = [],
      oc_encoding_method = Frequency, oc_missing_treatment = Separate\<rparr>"

definition example_AsIsCategoricalBucketer :: "real AsIsCategoricalBucketer" where
  "example_AsIsCategoricalBucketer =
     \<lparr>aic_variables = [''x''], aic_specials = [], aic_missing_treatment = Separate\<rparr>"

text \<open>A column of categories, one of them missing.\<close>
definition example_column_categories :: "real column" where
  "example_column_categories = [Some 3, Some 1, Some 3, None]"

text \<open>Labels of a prebucketing mapping in which two pre-buckets carry the label of one group.\<close>
definition example_labels_two :: "(int \<times> string) list" where
  "example_labels_two =
     [(0, ''(-inf, 25000.0)''), (1, ''[25000.0, inf)''), (- 1, ''Missing''),
      (- 3, ''Special: high''), (- 4, ''Special: high'')]"

section \<open>Auxiliary lemmas\<close>

lemma sublist_append_left_mono: "sublist c ys \<Longrightarrow> sublist c (ps @ ys)"
  by (auto simp add: sublist_append)

lemma sublist_append_right_mono: "sublist c ys \<Longrightarrow> sublist c (ys @ ss)"
  by (auto simp add: sublist_append)

lemma sublist_join: "c \<in> set cols \<Longrightarrow> sublist c (join sep cols)"
proof (induction sep cols rule: join.induct)
  case (1 sep)
  then show ?case by simp
next
  case (2 sep x)
  then show ?case by simp
next
  case (3 sep x y ys)
  show ?case
  proof (cases "c = x")
    case True
    then show ?thesis by simp
  next
    case False
    with 3 have "sublist c (join sep (y # ys))" by simp
    then have "sublist c ((x @ sep) @ join sep (y # ys))"
      by (rule sublist_append_left_mono)
    then show ?thesis by simp
  qed
qed

lemma sublist_not_prebucketed_msg: "c \<in> set cols \<Longrightarrow> sublist c (not_prebucketed_msg cols)"
  unfolding not_prebucketed_msg_def
  by (intro sublist_append_left_mono sublist_append_right_mono sublist_join)

lemma sublist_not_bucketed_msg: "c \<in> set cols \<Longrightarrow> sublist c (not_bucketed_msg cols)"
  unfolding not_bucketed_msg_def
  by (intro sublist_append_left_mono sublist_append_right_mono sublist_join)

lemma label_ids_Nil [simp]: "label_ids [] L = []"
  by (simp add: label_ids_def)

lemma label_ids_Cons:
  "label_ids ((b, l) # bl) L = (if l = ''Special: '' @ L then b # label_ids bl L else label_ids bl L)"
  by (simp add: label_ids_def)

lemma map_of_remap_label:
  "map_of (remap_label k bl acc) L =
   (if L = k \<and> label_ids bl k \<noteq> [] then Some [last (label_ids bl k)] else map_of acc L)"
proof (induction k bl acc rule: remap_label.induct)
  case (1 lbl new_specials)
  then show ?case by simp
next
  case (2 lbl bucket bucket_label items new_specials)
  show ?case
    unfolding remap_label.simps "2.IH" label_ids_Cons
    by (auto simp add: update_conv')
qed

lemma map_of_remap_labels:
  "map_of (remap_labels ks bl acc) L =
   (if L \<in> set ks \<and> label_ids bl L \<noteq> [] then Some [last (label_ids bl L)] else map_of acc L)"
  by (induction ks bl acc rule: remap_labels.induct) (auto simp add: map_of_remap_label)

lemma map_of_find_remapped_specials:
  "map_of (find_remapped_specials (Some bl) (Some vs)) L =
   (if L \<in> fst ` set vs \<and> label_ids bl L \<noteq> [] then Some [last (label_ids bl L)] else None)"
  by (simp add: find_remapped_specials_def map_of_remap_labels)

lemma fit_cases:
  assumes "pre_fit_transform env (prebucketing_pipeline self) X y = Inr (Xp, pre_fbm)"
    and "remap_all_specials (labels env) pre_fbm (prebucketing_specials self) (bucketing_specials self) = Inr bs"
    and "bucketing_fit env (map (assign_specials bs) (bucketing_pipeline self)) Xp y = Inr fbm"
  shows "fit env self X y =
     (if filter (\<lambda>col. col \<notin> set (columns pre_fbm)) (columns fbm) \<noteq> []
      then Inl (NotPreBucketedError (not_prebucketed_msg (filter (\<lambda>col. col \<notin> set (columns pre_fbm)) (columns fbm))))
      else if filter (\<lambda>col. col \<notin> set (columns fbm)) (columns pre_fbm) \<noteq> []
      then Inl (NotBucketedError (not_bucketed_msg (filter (\<lambda>col. col \<notin> set (columns fbm)) (columns pre_fbm))))
      else Inr (self\<lparr>bucketing_pipeline := map (assign_specials bs) (bucketing_pipeline self),
                  bucketing_specials := bs,
                  prebucketing_mapping := pre_fbm,
                  bucketing_mapping := fbm,
                  prebucket_tables := tables_for (raw_bucket_table env) X X y pre_fbm,
                  bucket_tables := tables_for (pre_bucket_table env) X Xp y fbm\<rparr>))"
  using assms by (simp add: fit_def Let_def)

lemma find_remapped_specials_Nil_iff:
  "find_remapped_specials (Some bl) (Some vs) = [] \<longleftrightarrow> (\<forall>L\<in>fst ` set vs. label_ids bl L = [])"
proof -
  have "find_remapped_specials (Some bl) (Some vs) = [] \<longleftrightarrow>
        map_of (find_remapped_specials (Some bl) (Some vs)) = Map.empty"
    by simp
  also have "\<dots> \<longleftrightarrow> (\<forall>L. map_of (find_remapped_specials (Some bl) (Some vs)) L = None)"
    by (simp add: fun_eq_iff)
  also have "\<dots> \<longleftrightarrow> (\<forall>L\<in>fst ` set vs. label_ids bl L = [])"
    unfolding map_of_find_remapped_specials by auto
  finally show ?thesis .
qed

lemma find_remapped_specials_None [simp]: "find_remapped_specials None vs = []"
  by (simp add: find_remapped_specials_def)

lemma map_of_remap_all_specials:
  assumes "remap_all_specials lab fbm specs bs = Inr bs'" and "distinct (map fst specs)"
  shows "map_of bs' var =
     (case map_of specs var of
        None \<Rightarrow> map_of bs var
      | Some vs \<Rightarrow>
          (case map_of fbm var of
             None \<Rightarrow> None
           | Some bm \<Rightarrow>
               if find_remapped_specials (lab bm) (Some vs) = [] then map_of bs var
               else Some (find_remapped_specials (lab bm) (Some vs))))"
  using assms
proof (induction lab fbm specs bs rule: remap_all_specials.induct)
  case (1 lab fbm bs)
  then show ?case by simp
next
  case (2 lab fbm v vs rest bs)
  from "2.prems"(1) obtain bm where bm: "map_of fbm v = Some bm"
    by (auto split: option.splits)
  let ?n = "find_remapped_specials (lab bm) (Some vs)"
  let ?bs = "if length ?n \<noteq> 0 then AList.update v ?n bs else bs"
  from "2.prems"(1) bm have rest: "remap_all_specials lab fbm rest ?bs = Inr bs'"
    by (simp add: Let_def)
  from "2.prems"(2) have d: "distinct (map fst rest)" and nv: "v \<notin> fst ` set rest"
    by auto
  have ih: "map_of bs' var =
     (case map_of rest var of
        None \<Rightarrow> map_of ?bs var
      | Some vs \<Rightarrow>
          (case map_of fbm var of
             None \<Rightarrow> None
           | Some bm \<Rightarrow>
               if find_remapped_specials (lab bm) (Some vs) = [] then map_of ?bs var
               else Some (find_remapped_specials (lab bm) (Some vs))))"
    using "2.IH" [OF bm refl rest d] .
  show ?case
  proof (cases "var = v")
    case True
    with nv have r: "map_of rest var = None"
      by (simp add: map_of_eq_None_iff)
    have "map_of bs' v = map_of ?bs v"
      using ih True r by simp
    also have "\<dots> = (if ?n = [] then map_of bs v else Some ?n)"
      by (simp add: update_conv')
    finally show ?thesis
      using True bm by simp
  next
    case False
    have u: "map_of ?bs var = map_of bs var"
      using False by (simp add: update_conv')
    have "map_of ((v, vs) # rest) var = map_of rest var"
      using False by simp
    then show ?thesis
      unfolding ih u by simp
  qed
qed

lemma remap_all_specials_returns:
  "(\<exists>bs'. remap_all_specials lab fbm specs bs = Inr bs') \<longleftrightarrow> (\<forall>v\<in>fst ` set specs. v \<in> fst ` set fbm)"
proof (induction lab fbm specs bs rule: remap_all_specials.induct)
  case (1 lab fbm bs)
  then show ?case by simp
next
  case (2 lab fbm v vs rest bs)
  show ?case
  proof (cases "map_of fbm v")
    case None
    then have "v \<notin> fst ` set fbm"
      by (simp add: map_of_eq_None_iff)
    with None show ?thesis by simp
  next
    case (Some bm)
    then have "v \<in> fst ` set fbm"
      using map_of_eq_None_iff [of fbm v] by auto
    with 2 [OF Some refl] Some show ?thesis
      by (simp add: Let_def)
  qed
qed

lemma specials_assign [simp]: "specials (estimator (assign_specials s st)) = s"
  by (cases st) simp_all

lemma fit_Inr_state:
  assumes "fit env self X y = Inr self'"
    and "pre_fit_transform env (prebucketing_pipeline self) X y = Inr (Xp, pre_fbm)"
  shows "\<exists>bs. remap_all_specials (labels env) pre_fbm (prebucketing_specials self) (bucketing_specials self) = Inr bs
           \<and> bucketing_specials self' = bs
           \<and> bucketing_pipeline self' = map (assign_specials bs) (bucketing_pipeline self)
           \<and> bucketing_fit env (bucketing_pipeline self') Xp y = Inr (bucketing_mapping self')"
proof -
  from assms obtain bs where bs:
    "remap_all_specials (labels env) pre_fbm (prebucketing_specials self) (bucketing_specials self) = Inr bs"
    by (auto simp add: fit_def Let_def split: sum.splits)
  with assms obtain fbm where fbm:
    "bucketing_fit env (map (assign_specials bs) (bucketing_pipeline self)) Xp y = Inr fbm"
    by (auto simp add: fit_def Let_def split: sum.splits)
  from assms(1) show ?thesis
    unfolding fit_cases [OF assms(2) bs fbm]
    using bs fbm by (auto split: if_splits)
qed

lemma example_process_init:
  "BucketingProcess_init [Tuple ''pre'' \<lparr>specials = [], params = ()\<rparr>]
      [Tuple ''opt'' \<lparr>specials = [], params = ()\<rparr>, Estimator \<lparr>specials = [], params = ()\<rparr>] specs
   = Inr (example_process specs)"
  by (simp add: BucketingProcess_init_def example_process_def)

lemma values_of_simps [simp]:
  "values_of [] = []"
  "values_of (Some v # X) = v # values_of X"
  "values_of (None # X) = values_of X"
  by (simp_all add: values_of_def)

lemma keep_rows_simps [simp]:
  "keep_rows [] xs = []"
  "keep_rows ms [] = []"
  "keep_rows (True # ms) (x # xs) = x # keep_rows ms xs"
  "keep_rows (False # ms) (x # xs) = keep_rows ms xs"
  by (simp_all add: keep_rows_def)

lemma example_histogram: "histogram_bin_edges [10, 20, 30, 40] 2 = [10, 25, 40]"
proof -
  have "[0..<Suc (Suc (Suc 0))] = [0, 1, 2]" by (simp add: upt_rec)
  then show ?thesis
    by (simp add: histogram_bin_edges_def Let_def numeral_2_eq_2)
qed

lemma label_ids_example [simp]:
  "label_ids example_labels ''high'' = [- 3]" "label_ids example_labels ''low'' = []"
  by (simp_all add: label_ids_def example_labels_def)

lemma find_remapped_example:
  "find_remapped_specials (Some example_labels) (Some [(''high'', [999999::real]), (''low'', [0])]) = [(''high'', [- 3])]"
  by (simp add: find_remapped_specials_def example_labels_def)

lemma fit_example:
  "fit (example_collaborators [''LIMIT_BAL''] [''LIMIT_BAL''] example_labels) (example_process example_specials) [] None
   = Inr ((example_process example_specials)
       \<lparr>bucketing_pipeline := [Tuple ''opt'' \<lparr>specials = [(''LIMIT_BAL'', [(''high'', [- 3])])], params = ()\<rparr>,
                                Estimator \<lparr>specials = [(''LIMIT_BAL'', [(''high'', [- 3])])], params = ()\<rparr>],
        bucketing_specials := [(''LIMIT_BAL'', [(''high'', [- 3])])],
        prebucketing_mapping := [(''LIMIT_BAL'', example_mapping ''LIMIT_BAL'')],
        bucketing_mapping := [(''LIMIT_BAL'', example_mapping ''LIMIT_BAL'')],
        prebucket_tables := [],
        bucket_tables := []\<rparr>)"
  by (simp add: fit_def example_collaborators_def example_process_def example_specials_def
      find_remapped_example columns_def tables_for_def)

lemma most_frequent_bucket_rows:
  "most_frequent_bucket sorted_table =
     (if sorted_table = [] then Inl (IndexError ''single positional indexer is out-of-bounds'')
      else if label (sorted_table ! 0) \<noteq> ''Missing'' then Inr (bucket_id (sorted_table ! 0))
      else if length sorted_table < 2 then Inl (KeyError ''1'')
      else Inr (bucket_id (sorted_table ! 1)))"
  by (cases sorted_table; cases "tl sorted_table")
    (auto simp add: most_frequent_bucket_def)

lemma most_frequent_bucket_highest:
  assumes perm: "mset srt = mset tab"
    and srt: "sorted_wrt (\<lambda>a b. Count b \<le> Count a) srt"
    and one: "length (filter (\<lambda>r. label r = ''Missing'') tab) \<le> 1"
    and ret: "most_frequent_bucket srt = Inr b"
  shows "\<exists>r\<in>set tab. label r \<noteq> ''Missing'' \<and> bucket_id r = b
           \<and> (\<forall>r'\<in>set tab. label r' \<noteq> ''Missing'' \<longrightarrow> Count r' \<le> Count r)"
proof -
  have set_eq: "set srt = set tab"
    using perm by (rule mset_eq_setD)
  have "length (filter (\<lambda>r. label r = ''Missing'') srt) = size (filter_mset (\<lambda>r. label r = ''Missing'') (mset srt))"
    by (simp flip: mset_filter)
  also have "\<dots> = length (filter (\<lambda>r. label r = ''Missing'') tab)"
    unfolding perm by (simp flip: mset_filter)
  finally have one': "length (filter (\<lambda>r. label r = ''Missing'') srt) \<le> 1"
    using one by simp
  from ret obtain r0 rest where s0: "srt = r0 # rest"
    by (cases srt) (auto simp add: most_frequent_bucket_def)
  show ?thesis
  proof (cases "label r0 \<noteq> ''Missing''")
    case True
    have "\<forall>r'\<in>set tab. Count r' \<le> Count r0"
      using srt set_eq s0 by auto
    moreover have "r0 \<in> set tab"
      using set_eq s0 by auto
    moreover have "bucket_id r0 = b"
      using True ret by (simp add: most_frequent_bucket_def s0)
    ultimately show ?thesis
      using True by auto
  next
    case False
    then have m0: "label r0 = ''Missing''" by simp
    from ret s0 m0 obtain r1 rest' where s1: "rest = r1 # rest'"
      by (cases rest) (auto simp add: most_frequent_bucket_def)
    from one' s0 s1 m0 have nomiss: "\<forall>r\<in>set (r1 # rest'). label r \<noteq> ''Missing''"
      by (auto simp add: filter_empty_conv split: if_splits)
    have "\<forall>r'\<in>set tab. label r' \<noteq> ''Missing'' \<longrightarrow> Count r' \<le> Count r1"
    proof (intro ballI impI)
      fix r' assume "r' \<in> set tab" "label r' \<noteq> ''Missing''"
      with set_eq s0 s1 m0 have "r' = r1 \<or> r' \<in> set rest'" by auto
      with srt s0 s1 show "Count r' \<le> Count r1" by auto
    qed
    moreover have "r1 \<in> set tab"
      using set_eq s0 s1 by auto
    moreover have "bucket_id r1 = b"
      using m0 ret by (simp add: most_frequent_bucket_def s0 s1)
    ultimately show ?thesis
      using nomiss by auto
  qed
qed

text \<open>
  A loop body \<open>f\<close>, as a function of the missing treatment, either fails before its tail
  whatever the treatment is, or is the tail \<open>finish_feature\<close> on a constructor call and
  a state that do not depend on the treatment.
\<close>
lemma loop_body_tail:
  assumes "\<And>t. f t = finish_feature rep t X y feature
                 (\<lambda>mb. \<lparr>feature_name = a, type = b, bmap = c, right = d, bm_specials = e,
                        missing_bucket = mb\<rparr>) s0"
    and "bucket_table_calls s0 = bucket_table_calls s"
  shows "(\<exists>e. \<forall>t. f t = Inl e)
       \<or> (\<exists>mapping s0. (\<forall>mb. mapping mb = (mapping None)\<lparr>missing_bucket := mb\<rparr>)
             \<and> missing_bucket (mapping None) = None
             \<and> bucket_table_calls s0 = bucket_table_calls s
             \<and> (\<forall>t. f t = finish_feature rep t X y feature mapping s0))"
  apply (rule disjI2)
  apply (rule exI [of _ "\<lambda>mb. \<lparr>feature_name = a, type = b, bmap = c, right = d, bm_specials = e,
                        missing_bucket = mb\<rparr>"])
  apply (rule exI [of _ s0])
  using assms apply simp
  done

lemma most_frequent_after_separate:
  assumes "(\<exists>e. \<forall>t. f t = Inl e)
       \<or> (\<exists>mapping s0. (\<forall>mb. mapping mb = (mapping None)\<lparr>missing_bucket := mb\<rparr>)
             \<and> missing_bucket (mapping None) = None
             \<and> bucket_table_calls s0 = bucket_table_calls s
             \<and> (\<forall>t. f t = finish_feature rep t X y feature mapping s0))"
  shows "(\<forall>s1. f Separate = Inr s1 \<longrightarrow>
           (\<exists>bm. missing_bucket bm = None
              \<and> map_of (features_bucket_mapping' s1) feature = Some bm
              \<and> map_of (bucket_tables' s1) feature = Some (build_bucket_table rep X y feature bm)
              \<and> bucket_table_calls s1 = bucket_table_calls s @ [(feature, bm)]
              \<and> f MostFrequent =
                  (case most_frequent_bucket (sort_values_Count_descending rep (build_bucket_table rep X y feature bm)) of
                     Inl e \<Rightarrow> Inl e
                   | Inr b \<Rightarrow>
                       Inr (s1\<lparr>features_bucket_mapping' :=
                                  AList.update feature (bm\<lparr>missing_bucket := Some b\<rparr>) (features_bucket_mapping' s1),
                               bucket_tables' :=
                                  AList.update feature (build_bucket_table rep X y feature (bm\<lparr>missing_bucket := Some b\<rparr>))
                                    (bucket_tables' s1),
                               bucket_table_calls :=
                                  bucket_table_calls s1 @ [(feature, bm\<lparr>missing_bucket := Some b\<rparr>)]\<rparr>))))
       \<and> (\<forall>e. f Separate = Inl e \<longrightarrow> f MostFrequent = Inl e)"
  using assms
proof (elim disjE exE conjE)
  fix e assume "\<forall>t. f t = Inl e"
  then show ?thesis by simp
next
  fix mapping s0
  assume m: "\<forall>mb. mapping mb = (mapping None)\<lparr>missing_bucket := mb\<rparr>"
    and n: "missing_bucket (mapping None) = None"
    and c: "bucket_table_calls s0 = bucket_table_calls s"
    and f: "\<forall>t. f t = finish_feature rep t X y feature mapping s0"
  from m have m': "mapping (Some b) = (mapping None)\<lparr>missing_bucket := Some b\<rparr>" for b
    by blast
  have sep: "f Separate =
     Inr (s0\<lparr>features_bucket_mapping' := AList.update feature (mapping None) (features_bucket_mapping' s0),
             bucket_tables' := AList.update feature (build_bucket_table rep X y feature (mapping None)) (bucket_tables' s0),
             bucket_table_calls := bucket_table_calls s0 @ [(feature, mapping None)]\<rparr>)"
    using f by (simp add: finish_feature_def Let_def)
  have mf: "f MostFrequent =
     (case most_frequent_bucket (sort_values_Count_descending rep (build_bucket_table rep X y feature (mapping None))) of
        Inl e \<Rightarrow> Inl e
      | Inr b \<Rightarrow>
          Inr (s0\<lparr>features_bucket_mapping' :=
                    AList.update feature (mapping (Some b)) (AList.update feature (mapping None) (features_bucket_mapping' s0)),
                  bucket_tables' :=
                    AList.update feature (build_bucket_table rep X y feature (mapping (Some b)))
                      (AList.update feature (build_bucket_table rep X y feature (mapping None)) (bucket_tables' s0)),
                  bucket_table_calls :=
                    bucket_table_calls s0 @ [(feature, mapping None), (feature, mapping (Some b))]\<rparr>))"
    using f by (simp add: finish_feature_def Let_def split: sum.splits)
  show ?thesis
    unfolding sep mf
    using n c by (auto simp add: update_conv' m' [symmetric] split: sum.splits)
qed

lemma finish_feature_Separate:
  "finish_feature rep Separate X y feature mapping s =
     Inr (s\<lparr>features_bucket_mapping' := AList.update feature (mapping None) (features_bucket_mapping' s),
            bucket_tables' := AList.update feature (build_bucket_table rep X y feature (mapping None)) (bucket_tables' s),
            bucket_table_calls := bucket_table_calls s @ [(feature, mapping None)]\<rparr>)"
  by (simp add: finish_feature_def Let_def)

lemma most_frequent_refit:
  assumes tail: "\<And>s1. f Separate = Inr s1 \<Longrightarrow>
        \<exists>a b c d e s0.
           (\<forall>t. f t = finish_feature rep t X y feature
                    (\<lambda>mb. \<lparr>feature_name = a, type = b, bmap = c, right = d, bm_specials = e,
                           missing_bucket = mb\<rparr>) s0)
         \<and> bucket_table_calls s0 = bucket_table_calls s"
    and fails: "\<And>e. f Separate = Inl e \<Longrightarrow> f MostFrequent = Inl e"
  shows "(\<forall>s1. f Separate = Inr s1 \<longrightarrow>
           (\<exists>bm. missing_bucket bm = None
              \<and> map_of (features_bucket_mapping' s1) feature = Some bm
              \<and> map_of (bucket_tables' s1) feature = Some (build_bucket_table rep X y feature bm)
              \<and> bucket_table_calls s1 = bucket_table_calls s @ [(feature, bm)]
              \<and> f MostFrequent =
                  (case most_frequent_bucket (sort_values_Count_descending rep (build_bucket_table rep X y feature bm)) of
                     Inl e \<Rightarrow> Inl e
                   | Inr b \<Rightarrow>
                       Inr (s1\<lparr>features_bucket_mapping' :=
                                  AList.update feature (bm\<lparr>missing_bucket := Some b\<rparr>) (features_bucket_mapping' s1),
                               bucket_tables' :=
                                  AList.update feature (build_bucket_table rep X y feature (bm\<lparr>missing_bucket := Some b\<rparr>))
                                    (bucket_tables' s1),
                               bucket_table_calls :=
                                  bucket_table_calls s1 @ [(feature, bm\<lparr>missing_bucket := Some b\<rparr>)]\<rparr>))))
       \<and> (\<forall>e. f Separate = Inl e \<longrightarrow> f MostFrequent = Inl e)"
proof (cases "f Separate")
  case (Inl e)
  with fails show ?thesis by simp
next
  case (Inr s1)
  from tail [OF Inr] obtain a b c d e s0 where
    t: "\<forall>t. f t = finish_feature rep t X y feature
                    (\<lambda>mb. \<lparr>feature_name = a, type = b, bmap = c, right = d, bm_specials = e,
                           missing_bucket = mb\<rparr>) s0"
    and c: "bucket_table_calls s0 = bucket_table_calls s"
    by blast
  have "(\<exists>e. \<forall>t. f t = Inl e)
       \<or> (\<exists>mapping s0. (\<forall>mb. mapping mb = (mapping None)\<lparr>missing_bucket := mb\<rparr>)
             \<and> missing_bucket (mapping None) = None
             \<and> bucket_table_calls s0 = bucket_table_calls s
             \<and> (\<forall>t. f t = finish_feature rep t X y feature mapping s0))"
    using t c by (intro loop_body_tail) simp_all
  then show ?thesis
    by (rule most_frequent_after_separate)
qed

lemma OptimalBucketer_fit_feature_tail:
  assumes "OptimalBucketer_fit_feature rep opt (self\<lparr>ob_missing_treatment := t0\<rparr>) X y feature s = Inr s1"
  shows "\<exists>a b c d e s0.
           (\<forall>t. OptimalBucketer_fit_feature rep opt (self\<lparr>ob_missing_treatment := t\<rparr>) X y feature s
                = finish_feature rep t X y feature
                    (\<lambda>mb. \<lparr>feature_name = a, type = b, bmap = c, right = d, bm_specials = e,
                           missing_bucket = mb\<rparr>) s0)
         \<and> bucket_table_calls s0 = bucket_table_calls s"
proof -
  define f where "f = (\<lambda>t. OptimalBucketer_fit_feature rep opt (self\<lparr>ob_missing_treatment := t\<rparr>) X y feature s)"
  have "OptimalBucketer_fit_feature rep opt (self\<lparr>ob_missing_treatment := t0\<rparr>) X y feature s = Inr s1 \<Longrightarrow>
        \<exists>a b c d e s0.
           (\<forall>t. f t = finish_feature rep t X y feature
                    (\<lambda>mb. \<lparr>feature_name = a, type = b, bmap = c, right = d, bm_specials = e,
                           missing_bucket = mb\<rparr>) s0)
         \<and> bucket_table_calls s0 = bucket_table_calls s"
    apply (simp add: OptimalBucketer_fit_feature_def OptimalBucketer_binner_def Let_def
        split: sum.splits if_splits option.splits error.splits prod.splits encoding_method.splits)
    apply (simp_all add: f_def OptimalBucketer_fit_feature_def OptimalBucketer_binner_def Let_def)
    apply ((intro exI conjI allI, rule refl, simp)+)
    done
  with assms show ?thesis
    by (simp add: f_def)
qed

lemma OptimalBucketer_fit_feature_fails:
  assumes "OptimalBucketer_fit_feature rep opt (self\<lparr>ob_missing_treatment := Separate\<rparr>) X y feature s = Inl err"
  shows "OptimalBucketer_fit_feature rep opt (self\<lparr>ob_missing_treatment := t\<rparr>) X y feature s = Inl err"
proof -
  define f where "f = (\<lambda>t. OptimalBucketer_fit_feature rep opt (self\<lparr>ob_missing_treatment := t\<rparr>) X y feature s)"
  have "OptimalBucketer_fit_feature rep opt (self\<lparr>ob_missing_treatment := Separate\<rparr>) X y feature s = Inl err \<Longrightarrow> f t = Inl err"
    apply (simp add: OptimalBucketer_fit_feature_def OptimalBucketer_binner_def Let_def finish_feature_Separate
        split: sum.splits if_splits option.splits error.splits prod.splits encoding_method.splits)
    apply (auto simp add: f_def OptimalBucketer_fit_feature_def OptimalBucketer_binner_def Let_def)
    done
  with assms show ?thesis
    by (simp add: f_def)
qed

lemma EqualWidthBucketer_fit_feature_tail:
  assumes "EqualWidthBucketer_fit_feature rep (self\<lparr>ew_missing_treatment := t0\<rparr>) X y feature s = Inr s1"
  shows "\<exists>a b c d e s0.
           (\<forall>t. EqualWidthBucketer_fit_feature rep (self\<lparr>ew_missing_treatment := t\<rparr>) X y feature s
                = finish_feature rep t X y feature
                    (\<lambda>mb. \<lparr>feature_name = a, type = b, bmap = c, right = d, bm_specials = e,
                           missing_bucket = mb\<rparr>) s0)
         \<and> bucket_table_calls s0 = bucket_table_calls s"
proof -
  define f where "f = (\<lambda>t. EqualWidthBucketer_fit_feature rep (self\<lparr>ew_missing_treatment := t\<rparr>) X y feature s)"
  have "EqualWidthBucketer_fit_feature rep (self\<lparr>ew_missing_treatment := t0\<rparr>) X y feature s = Inr s1 \<Longrightarrow>
        \<exists>a b c d e s0.
           (\<forall>t. f t = finish_feature rep t X y feature
                    (\<lambda>mb. \<lparr>feature_name = a, type = b, bmap = c, right = d, bm_specials = e,
                           missing_bucket = mb\<rparr>) s0)
         \<and> bucket_table_calls s0 = bucket_table_calls s"
    apply (simp add: EqualWidthBucketer_fit_feature_def Let_def
        split: sum.splits if_splits option.splits error.splits prod.splits encoding_method.splits)
    apply (simp_all add: f_def EqualWidthBucketer_fit_feature_def Let_def)
    apply ((intro exI conjI allI, rule refl, simp)+)
    done
  with assms show ?thesis
    by (simp add: f_def)
qed

lemma EqualWidthBucketer_fit_feature_fails:
  assumes "EqualWidthBucketer_fit_feature rep (self\<lparr>ew_missing_treatment := Separate\<rparr>) X y feature s = Inl err"
  shows "EqualWidthBucketer_fit_feature rep (self\<lparr>ew_missing_treatment := t\<rparr>) X y feature s = Inl err"
proof -
  define f where "f = (\<lambda>t. EqualWidthBucketer_fit_feature rep (self\<lparr>ew_missing_treatment := t\<rparr>) X y feature s)"
  have "EqualWidthBucketer_fit_feature rep (self\<lparr>ew_missing_treatment := Separate\<rparr>) X y feature s = Inl err \<Longrightarrow> f t = Inl err"
    apply (simp add: EqualWidthBucketer_fit_feature_def Let_def finish_feature_Separate
        split: sum.splits if_splits option.splits error.splits prod.splits encoding_method.splits)
    apply (auto simp add: f_def EqualWidthBucketer_fit_feature_def Let_def)
    done
  with assms show ?thesis
    by (simp add: f_def)
qed

lemma AgglomerativeClusteringBucketer_fit_feature_tail:
  assumes "AgglomerativeClusteringBucketer_fit_feature rep clustering (self\<lparr>ac_missing_treatment := t0\<rparr>) X y feature s = Inr s1"
  shows "\<exists>a b c d e s0.
           (\<forall>t. AgglomerativeClusteringBucketer_fit_feature rep clustering (self\<lparr>ac_missing_treatment := t\<rparr>) X y feature s
                = finish_feature rep t X y feature
                    (\<lambda>mb. \<lparr>feature_name = a, type = b, bmap = c, right = d, bm_specials = e,
                           missing_bucket = mb\<rparr>) s0)
         \<and> bucket_table_calls s0 = bucket_table_calls s"
proof -
  define f where "f = (\<lambda>t. AgglomerativeClusteringBucketer_fit_feature rep clustering (self\<lparr>ac_missing_treatment := t\<rparr>) X y feature s)"
  have "AgglomerativeClusteringBucketer_fit_feature rep clustering (self\<lparr>ac_missing_treatment := t0\<rparr>) X y feature s = Inr s1 \<Longrightarrow>
        \<exists>a b c d e s0.
           (\<forall>t. f t = finish_feature rep t X y feature
                    (\<lambda>mb. \<lparr>feature_name = a, type = b, bmap = c, right = d, bm_specials = e,
                           missing_bucket = mb\<rparr>) s0)
         \<and> bucket_table_calls s0 = bucket_table_calls s"
    apply (simp add: AgglomerativeClusteringBucketer_fit_feature_def Let_def
        split: sum.splits if_splits option.splits error.splits prod.splits encoding_method.splits)
    apply (simp_all add: f_def AgglomerativeClusteringBucketer_fit_feature_def Let_def)
    apply ((intro exI conjI allI, rule refl, simp)+)
    done
  with assms show ?thesis
    by (simp add: f_def)
qed

lemma AgglomerativeClusteringBucketer_fit_feature_fails:
  assumes "AgglomerativeClusteringBucketer_fit_feature rep clustering (self\<lparr>ac_missing_treatment := Separate\<rparr>) X y feature s = Inl err"
  shows "AgglomerativeClusteringBucketer_fit_feature rep clustering (self\<lparr>ac_missing_treatment := t\<rparr>) X y feature s = Inl err"
proof -
  define f where "f = (\<lambda>t. AgglomerativeClusteringBucketer_fit_feature rep clustering (self\<lparr>ac_missing_treatment := t\<rparr>) X y feature s)"
  have "AgglomerativeClusteringBucketer_fit_feature rep clustering (self\<lparr>ac_missing_treatment := Separate\<rparr>) X y feature s = Inl err \<Longrightarrow> f t = Inl err"
    apply (simp add: AgglomerativeClusteringBucketer_fit_feature_def Let_def finish_feature_Separate
        split: sum.splits if_splits option.splits error.splits prod.splits encoding_method.splits)
    apply (auto simp add: f_def AgglomerativeClusteringBucketer_fit_feature_def Let_def)
    done
  with assms show ?thesis
    by (simp add: f_def)
qed

lemma EqualFrequencyBucketer_fit_feature_tail:
  assumes "EqualFrequencyBucketer_fit_feature rep qcut (self\<lparr>ef_missing_treatment := t0\<rparr>) X y feature s = Inr s1"
  shows "\<exists>a b c d e s0.
           (\<forall>t. EqualFrequencyBucketer_fit_feature rep qcut (self\<lparr>ef_missing_treatment := t\<rparr>) X y feature s
                = finish_feature rep t X y feature
                    (\<lambda>mb. \<lparr>feature_name = a, type = b, bmap = c, right = d, bm_specials = e,
                           missing_bucket = mb\<rparr>) s0)
         \<and> bucket_table_calls s0 = bucket_table_calls s"
proof -
  define f where "f = (\<lambda>t. EqualFrequencyBucketer_fit_feature rep qcut (self\<lparr>ef_missing_treatment := t\<rparr>) X y feature s)"
  have "EqualFrequencyBucketer_fit_feature rep qcut (self\<lparr>ef_missing_treatment := t0\<rparr>) X y feature s = Inr s1 \<Longrightarrow>
        \<exists>a b c d e s0.
           (\<forall>t. f t = finish_feature rep t X y feature
                    (\<lambda>mb. \<lparr>feature_name = a, type = b, bmap = c, right = d, bm_specials = e,
                           missing_bucket = mb\<rparr>) s0)
         \<and> bucket_table_calls s0 = bucket_table_calls s"
    apply (simp add: EqualFrequencyBucketer_fit_feature_def Let_def
        split: sum.splits if_splits option.splits error.splits prod.splits encoding_method.splits)
    apply (simp_all add: f_def EqualFrequencyBucketer_fit_feature_def Let_def)
    apply ((intro exI conjI allI, rule refl, simp)+)
    done
  with assms show ?thesis
    by (simp add: f_def)
qed

lemma EqualFrequencyBucketer_fit_feature_fails:
  assumes "EqualFrequencyBucketer_fit_feature rep qcut (self\<lparr>ef_missing_treatment := Separate\<rparr>) X y feature s = Inl err"
  shows "EqualFrequencyBucketer_fit_feature rep qcut (self\<lparr>ef_missing_treatment := t\<rparr>) X y feature s = Inl err"
proof -
  define f where "f = (\<lambda>t. EqualFrequencyBucketer_fit_feature rep qcut (self\<lparr>ef_missing_treatment := t\<rparr>) X y feature s)"
  have "EqualFrequencyBucketer_fit_feature rep qcut (self\<lparr>ef_missing_treatment := Separate\<rparr>) X y feature s = Inl err \<Longrightarrow> f t = Inl err"
    apply (simp add: EqualFrequencyBucketer_fit_feature_def Let_def finish_feature_Separate
        split: sum.splits if_splits option.splits error.splits prod.splits encoding_method.splits)
    apply (auto simp add: f_def EqualFrequencyBucketer_fit_feature_def Let_def)
    done
  with assms show ?thesis
    by (simp add: f_def)
qed

lemma DecisionTreeBucketer_fit_feature_tail:
  assumes "DecisionTreeBucketer_fit_feature rep tree (self\<lparr>dt_missing_treatment := t0\<rparr>) X y feature s = Inr s1"
  shows "\<exists>a b c d e s0.
           (\<forall>t. DecisionTreeBucketer_fit_feature rep tree (self\<lparr>dt_missing_treatment := t\<rparr>) X y feature s
                = finish_feature rep t X y feature
                    (\<lambda>mb. \<lparr>feature_name = a, type = b, bmap = c, right = d, bm_specials = e,
                           missing_bucket = mb\<rparr>) s0)
         \<and> bucket_table_calls s0 = bucket_table_calls s"
proof -
  define f where "f = (\<lambda>t. DecisionTreeBucketer_fit_feature rep tree (self\<lparr>dt_missing_treatment := t\<rparr>) X y feature s)"
  have "DecisionTreeBucketer_fit_feature rep tree (self\<lparr>dt_missing_treatment := t0\<rparr>) X y feature s = Inr s1 \<Longrightarrow>
        \<exists>a b c d e s0.
           (\<forall>t. f t = finish_feature rep t X y feature
                    (\<lambda>mb. \<lparr>feature_name = a, type = b, bmap = c, right = d, bm_specials = e,
                           missing_bucket = mb\<rparr>) s0)
         \<and> bucket_table_calls s0 = bucket_table_calls s"
    apply (simp add: DecisionTreeBucketer_fit_feature_def Let_def
        split: sum.splits if_splits option.splits error.splits prod.splits encoding_method.splits)
    apply (simp_all add: f_def DecisionTreeBucketer_fit_feature_def Let_def)
    apply ((intro exI conjI allI, rule refl, simp)+)
    done
  with assms show ?thesis
    by (simp add: f_def)
qed

lemma DecisionTreeBucketer_fit_feature_fails:
  assumes "DecisionTreeBucketer_fit_feature rep tree (self\<lparr>dt_missing_treatment := Separate\<rparr>) X y feature s = Inl err"
  shows "DecisionTreeBucketer_fit_feature rep tree (self\<lparr>dt_missing_treatment := t\<rparr>) X y feature s = Inl err"
proof -
  define f where "f = (\<lambda>t. DecisionTreeBucketer_fit_feature rep tree (self\<lparr>dt_missing_treatment := t\<rparr>) X y feature s)"
  have "DecisionTreeBucketer_fit_feature rep tree (self\<lparr>dt_missing_treatment := Separate\<rparr>) X y feature s = Inl err \<Longrightarrow> f t = Inl err"
    apply (simp add: DecisionTreeBucketer_fit_feature_def Let_def finish_feature_Separate
        split: sum.splits if_splits option.splits error.splits prod.splits encoding_method.splits)
    apply (auto simp add: f_def DecisionTreeBucketer_fit_feature_def Let_def)
    done
  with assms show ?thesis
    by (simp add: f_def)
qed

lemma OrdinalCategoricalBucketer_fit_feature_tail:
  assumes "OrdinalCategoricalBucketer_fit_feature rep pd (self\<lparr>oc_missing_treatment := t0\<rparr>) X y feature s = Inr s1"
  shows "\<exists>a b c d e s0.
           (\<forall>t. OrdinalCategoricalBucketer_fit_feature rep pd (self\<lparr>oc_missing_treatment := t\<rparr>) X y feature s
                = finish_feature rep t X y feature
                    (\<lambda>mb. \<lparr>feature_name = a, type = b, bmap = c, right = d, bm_specials = e,
                           missing_bucket = mb\<rparr>) s0)
         \<and> bucket_table_calls s0 = bucket_table_calls s"
proof -
  define f where "f = (\<lambda>t. OrdinalCategoricalBucketer_fit_feature rep pd (self\<lparr>oc_missing_treatment := t\<rparr>) X y feature s)"
  have "OrdinalCategoricalBucketer_fit_feature rep pd (self\<lparr>oc_missing_treatment := t0\<rparr>) X y feature s = Inr s1 \<Longrightarrow>
        \<exists>a b c d e s0.
           (\<forall>t. f t = finish_feature rep t X y feature
                    (\<lambda>mb. \<lparr>feature_name = a, type = b, bmap = c, right = d, bm_specials = e,
                           missing_bucket = mb\<rparr>) s0)
         \<and> bucket_table_calls s0 = bucket_table_calls s"
    apply (simp add: OrdinalCategoricalBucketer_fit_feature_def Let_def
        split: sum.splits if_splits option.splits error.splits prod.splits encoding_method.splits)
    apply (simp_all add: f_def OrdinalCategoricalBucketer_fit_feature_def Let_def)
    apply ((intro exI conjI allI, rule refl, simp)+)
    done
  with assms show ?thesis
    by (simp add: f_def)
qed

lemma OrdinalCategoricalBucketer_fit_feature_fails:
  assumes "OrdinalCategoricalBucketer_fit_feature rep pd (self\<lparr>oc_missing_treatment := Separate\<rparr>) X y feature s = Inl err"
  shows "OrdinalCategoricalBucketer_fit_feature rep pd (self\<lparr>oc_missing_treatment := t\<rparr>) X y feature s = Inl err"
proof -
  define f where "f = (\<lambda>t. OrdinalCategoricalBucketer_fit_feature rep pd (self\<lparr>oc_missing_treatment := t\<rparr>) X y feature s)"
  have "OrdinalCategoricalBucketer_fit_feature rep pd (self\<lparr>oc_missing_treatment := Separate\<rparr>) X y feature s = Inl err \<Longrightarrow> f t = Inl err"
    apply (simp add: OrdinalCategoricalBucketer_fit_feature_def Let_def finish_feature_Separate
        split: sum.splits if_splits option.splits error.splits prod.splits encoding_method.splits)
    apply (auto simp add: f_def OrdinalCategoricalBucketer_fit_feature_def Let_def)
    done
  with assms show ?thesis
    by (simp add: f_def)
qed

lemma AsIsCategoricalBucketer_fit_feature_tail:
  assumes "AsIsCategoricalBucketer_fit_feature rep (self\<lparr>aic_missing_treatment := t0\<rparr>) X y feature s = Inr s1"
  shows "\<exists>a b c d e s0.
           (\<forall>t. AsIsCategoricalBucketer_fit_feature rep (self\<lparr>aic_missing_treatment := t\<rparr>) X y feature s
                = finish_feature rep t X y feature
                    (\<lambda>mb. \<lparr>feature_name = a, type = b, bmap = c, right = d, bm_specials = e,
                           missing_bucket = mb\<rparr>) s0)
         \<and> bucket_table_calls s0 = bucket_table_calls s"
proof -
  define f where "f = (\<lambda>t. AsIsCategoricalBucketer_fit_feature rep (self\<lparr>aic_missing_treatment := t\<rparr>) X y feature s)"
  have "AsIsCategoricalBucketer_fit_feature rep (self\<lparr>aic_missing_treatment := t0\<rparr>) X y feature s = Inr s1 \<Longrightarrow>
        \<exists>a b c d e s0.
           (\<forall>t. f t = finish_feature rep t X y feature
                    (\<lambda>mb. \<lparr>feature_name = a, type = b, bmap = c, right = d, bm_specials = e,
                           missing_bucket = mb\<rparr>) s0)
         \<and> bucket_table_calls s0 = bucket_table_calls s"
    apply (simp add: AsIsCategoricalBucketer_fit_feature_def Let_def
        split: sum.splits if_splits option.splits error.splits prod.splits encoding_method.splits)
    apply (simp_all add: f_def AsIsCategoricalBucketer_fit_feature_def Let_def)
    apply ((intro exI conjI allI, rule refl, simp)+)
    done
  with assms show ?thesis
    by (simp add: f_def)
qed

lemma AsIsCategoricalBucketer_fit_feature_fails:
  assumes "AsIsCategoricalBucketer_fit_feature rep (self\<lparr>aic_missing_treatment := Separate\<rparr>) X y feature s = Inl err"
  shows "AsIsCategoricalBucketer_fit_feature rep (self\<lparr>aic_missing_treatment := t\<rparr>) X y feature s = Inl err"
proof -
  define f where "f = (\<lambda>t. AsIsCategoricalBucketer_fit_feature rep (self\<lparr>aic_missing_treatment := t\<rparr>) X y feature s)"
  have "AsIsCategoricalBucketer_fit_feature rep (self\<lparr>aic_missing_treatment := Separate\<rparr>) X y feature s = Inl err \<Longrightarrow> f t = Inl err"
    apply (simp add: AsIsCategoricalBucketer_fit_feature_def Let_def finish_feature_Separate
        split: sum.splits if_splits option.splits error.splits prod.splits encoding_method.splits)
    apply (auto simp add: f_def AsIsCategoricalBucketer_fit_feature_def Let_def)
    done
  with assms show ?thesis
    by (simp add: f_def)
qed

lemma AsIsNumericalBucketer_fit_feature_tail:
  assumes "AsIsNumericalBucketer_fit_feature rep nan (self\<lparr>an_missing_treatment := t0\<rparr>) X y feature s = Inr s1"
  shows "\<exists>a b c d e s0.
           (\<forall>t. AsIsNumericalBucketer_fit_feature rep nan (self\<lparr>an_missing_treatment := t\<rparr>) X y feature s
                = finish_feature rep t X y feature
                    (\<lambda>mb. \<lparr>feature_name = a, type = b, bmap = c, right = d, bm_specials = e,
                           missing_bucket = mb\<rparr>) s0)
         \<and> bucket_table_calls s0 = bucket_table_calls s"
proof -
  define f where "f = (\<lambda>t. AsIsNumericalBucketer_fit_feature rep nan (self\<lparr>an_missing_treatment := t\<rparr>) X y feature s)"
  have "AsIsNumericalBucketer_fit_feature rep nan (self\<lparr>an_missing_treatment := t0\<rparr>) X y feature s = Inr s1 \<Longrightarrow>
        \<exists>a b c d e s0.
           (\<forall>t. f t = finish_feature rep t X y feature
                    (\<lambda>mb. \<lparr>feature_name = a, type = b, bmap = c, right = d, bm_specials = e,
                           missing_bucket = mb\<rparr>) s0)
         \<and> bucket_table_calls s0 = bucket_table_calls s"
    apply (simp add: AsIsNumericalBucketer_fit_feature_def Let_def
        split: sum.splits if_splits option.splits error.splits prod.splits encoding_method.splits)
    apply (simp_all add: f_def AsIsNumericalBucketer_fit_feature_def Let_def)
    apply ((intro exI conjI allI, rule refl, simp)+)
    done
  with assms show ?thesis
    by (simp add: f_def)
qed

lemma AsIsNumericalBucketer_fit_feature_fails:
  assumes "AsIsNumericalBucketer_fit_feature rep nan (self\<lparr>an_missing_treatment := Separate\<rparr>) X y feature s = Inl err"
  shows "AsIsNumericalBucketer_fit_feature rep nan (self\<lparr>an_missing_treatment := t\<rparr>) X y feature s = Inl err"
proof -
  define f where "f = (\<lambda>t. AsIsNumericalBucketer_fit_feature rep nan (self\<lparr>an_missing_treatment := t\<rparr>) X y feature s)"
  have "AsIsNumericalBucketer_fit_feature rep nan (self\<lparr>an_missing_treatment := Separate\<rparr>) X y feature s = Inl err \<Longrightarrow> f t = Inl err"
    apply (simp add: AsIsNumericalBucketer_fit_feature_def Let_def finish_feature_Separate
        split: sum.splits if_splits option.splits error.splits prod.splits encoding_method.splits)
    apply (auto simp add: f_def AsIsNumericalBucketer_fit_feature_def Let_def)
    done
  with assms show ?thesis
    by (simp add: f_def)
qed

lemma keep_rows_map_filter: "keep_rows (map P xs) xs = filter P xs"
  by (induction xs) (simp_all add: keep_rows_def)

lemma fst_filter_specials_for_fit:
  "fst (filter_specials_for_fit X y special)
     = filter (\<lambda>x. case x of None \<Rightarrow> True | Some v \<Rightarrow> v \<notin> set (special_values special)) X"
proof -
  have "map Not (map (\<lambda>x. case x of None \<Rightarrow> False | Some v \<Rightarrow> List.member (special_values special) v) X)
          = map (\<lambda>x. case x of None \<Rightarrow> True | Some v \<Rightarrow> v \<notin> set (special_values special)) X"
    by (auto split: option.splits)
  then show ?thesis
    by (simp add: filter_specials_for_fit_def Let_def keep_rows_map_filter del: map_map)
qed

lemma fst_filter_na_for_fit: "fst (filter_na_for_fit X y) = filter (\<lambda>x. x \<noteq> None) X"
proof -
  have "map Not (map (\<lambda>x. x = None) X) = map (\<lambda>x. x \<noteq> None) X"
    by simp
  then show ?thesis
    by (simp add: filter_na_for_fit_def Let_def keep_rows_map_filter del: map_map)
qed

lemma values_of_filter_not_None [simp]: "values_of (filter (\<lambda>x. x \<noteq> None) X) = values_of X"
  by (induction X) (auto split: option.splits)

lemma values_of_filter:
  "values_of (filter (\<lambda>x. case x of None \<Rightarrow> True | Some v \<Rightarrow> P v) X) = filter P (values_of X)"
  by (induction X) (auto split: option.splits)

lemma length_values_of_filter_not_None: "length (filter (\<lambda>x. x \<noteq> None) X) = length (values_of X)"
  by (induction X) (auto split: option.splits)

lemma values_of_normal_rows:
  "values_of (fst (filter_na_for_fit (fst (filter_specials_for_fit col y special)) y'))
     = filter (\<lambda>v. v \<notin> set (special_values special)) (values_of col)"
  unfolding fst_filter_na_for_fit fst_filter_specials_for_fit values_of_filter_not_None
  by (rule values_of_filter)

lemma fitted_values_normal:
  "values_of (fst (filter_na_for_fit (fst (fst (split_specials specs feature col y))) y'))
     = normal_values specs feature col"
proof (cases "map_of specs feature")
  case None
  then show ?thesis
    by (simp add: split_specials_def normal_values_def fst_filter_na_for_fit special_values_def
        del: not_None_eq)
next
  case (Some special)
  then show ?thesis
    by (simp add: split_specials_def normal_values_def values_of_normal_rows)
qed

lemma finish_feature_error:
  assumes "finish_feature rep treatment X y feature mapping s = Inl e"
  shows "(\<exists>m. e = IndexError m) \<or> (\<exists>m. e = KeyError m)"
  using assms
  by (auto simp add: finish_feature_def Let_def most_frequent_bucket_def
      split: if_splits sum.splits list.splits)

lemma OptimalBucketer_not_prebucketed_iff:
  assumes "ob_variables_type self = ''numerical''"
    and "get_column X feature = Inr col"
    and "\<And>b v t m. numerical_splits opt b v t \<noteq> Inl (NotPreBucketedError m)"
  shows "(\<exists>m. OptimalBucketer_fit_feature rep opt self X y feature s = Inl (NotPreBucketedError m))
         \<longleftrightarrow> 100 < card (set (normal_values (ob_specials self) feature col))"
proof (cases "100 < card (set (normal_values (ob_specials self) feature col))")
  case True
  then show ?thesis
    using assms(1,2)
    by (simp add: OptimalBucketer_fit_feature_def Let_def fitted_values_normal length_remdups_card_conv)
next
  case False
  have "OptimalBucketer_fit_feature rep opt self X y feature s \<noteq> Inl (NotPreBucketedError m)" for m
  proof
    assume a: "OptimalBucketer_fit_feature rep opt self X y feature s = Inl (NotPreBucketedError m)"
    with False assms(1,2) show False
      using assms(3)
      by (auto simp add: OptimalBucketer_fit_feature_def Let_def fitted_values_normal
          length_remdups_card_conv split: sum.splits dest!: finish_feature_error)
  qed
  with False show ?thesis by blast
qed

lemma length_unique: "length (unique xs) = card (set xs)"
  using length_remdups_card_conv [of "rev xs"] by (simp add: unique_def)

lemma set_unique [simp]: "set (unique xs) = set xs"
  by (simp add: unique_def)

lemma distinct_unique [simp]: "distinct (unique xs)"
  by (simp add: unique_def)

lemma unique_distinct: "distinct xs \<Longrightarrow> unique xs = xs"
  by (simp add: unique_def distinct_remdups_id)

lemma AsIsNumericalBucketer_not_prebucketed_iff:
  assumes "get_column X feature = Inr col"
    and "\<And>bs m. boundaries_error nan bs \<noteq> Some (NotPreBucketedError m)"
  shows "(\<exists>m. AsIsNumericalBucketer_fit_feature rep nan self X y feature s = Inl (NotPreBucketedError m))
         \<longleftrightarrow> 100 < card (set (fst (fst (split_specials (an_specials self) feature col y))))"
  using assms
  by (auto simp add: AsIsNumericalBucketer_fit_feature_def Let_def length_unique
      split: option.splits if_splits dest!: finish_feature_error)

lemma distinct_example_column_100: "distinct example_column_100"
  by (auto simp add: example_column_100_def distinct_map inj_on_def)

lemma length_example_column_100: "length example_column_100 = 101"
  by (simp add: example_column_100_def)

lemma values_of_map_Some [simp]: "values_of (map (\<lambda>n. Some (f n)) xs) = map f xs"
  by (induction xs) simp_all

lemma values_of_append [simp]: "values_of (X @ Y) = values_of X @ values_of Y"
  by (simp add: values_of_def)

lemma normal_values_example_column_100:
  "normal_values [] ''x'' example_column_100 = map real [1..<101]"
  by (simp add: normal_values_def example_column_100_def special_values_def)

lemma for_features_append:
  "for_features body (before @ rest) s =
     (case for_features body before s of Inl e \<Rightarrow> Inl e | Inr s' \<Rightarrow> for_features body rest s')"
  by (induction before arbitrary: s) (simp_all split: sum.splits)

lemma for_features_abort:
  assumes "for_features body before s = Inr s'" and "body feature s' = Inl e"
  shows "for_features body (before @ feature # after) s = Inl e"
  using assms by (simp add: for_features_append)

lemma sublist_100_optimal: "sublist ''100'' ''to max 100 unique values (for performance reasons).\<newline>''"
  by (simp add: sublist_Cons_right)

lemma sublist_100_asis: "sublist ''100'' '' has more than 100 unique values ''"
  by (simp add: sublist_Cons_right)

lemma optimal_msg_names_feature: "sublist feature (optimal_not_prebucketed_msg feature n)"
  unfolding optimal_not_prebucketed_msg_def
  by (intro sublist_append_left_mono sublist_append_right_mono sublist_order.order_refl)

lemma optimal_msg_names_threshold: "sublist ''100'' (optimal_not_prebucketed_msg feature n)"
  unfolding optimal_not_prebucketed_msg_def
  by (intro sublist_append_left_mono sublist_append_right_mono sublist_100_optimal)

lemma asis_msg_names_feature: "sublist feature (asis_not_prebucketed_msg feature)"
  unfolding asis_not_prebucketed_msg_def
  by (intro sublist_append_left_mono sublist_append_right_mono sublist_order.order_refl)

lemma asis_msg_names_threshold: "sublist ''100'' (asis_not_prebucketed_msg feature)"
  unfolding asis_not_prebucketed_msg_def
  by (intro sublist_append_left_mono sublist_append_right_mono sublist_100_asis)

lemma max_n_bins_msg_names_threshold: "sublist (str_nat (k + 2)) (max_n_bins_msg k n)"
  unfolding max_n_bins_msg_def
  by (intro sublist_append_left_mono sublist_append_right_mono sublist_order.order_refl)

lemma max_n_bins_msg_names_current: "sublist (str_int n) (max_n_bins_msg k n)"
  unfolding max_n_bins_msg_def
  by (intro sublist_append_left_mono sublist_append_right_mono sublist_order.order_refl)

lemma OptimalBucketer_raises:
  assumes "ob_variables_type self = ''numerical''"
    and "get_column X feature = Inr col"
    and "100 < card (set (normal_values (ob_specials self) feature col))"
  shows "OptimalBucketer_fit_feature rep opt self X y feature s
         = Inl (NotPreBucketedError (optimal_not_prebucketed_msg feature
                  (card (set (normal_values (ob_specials self) feature col)))))"
  using assms
  by (simp add: OptimalBucketer_fit_feature_def Let_def fitted_values_normal length_remdups_card_conv)

lemma AsIsNumericalBucketer_raises:
  assumes "get_column X feature = Inr col"
    and "100 < card (set (fst (fst (split_specials (an_specials self) feature col y))))"
  shows "AsIsNumericalBucketer_fit_feature rep nan self X y feature s
         = Inl (NotPreBucketedError (asis_not_prebucketed_msg feature))"
  using assms
  by (simp add: AsIsNumericalBucketer_fit_feature_def Let_def length_unique)

lemma DecisionTreeBucketer_raises:
  assumes "map_of (dt_specials self) feature = Some special"
    and "dt_max_n_bins self - int (length special) \<le> 1"
  shows "DecisionTreeBucketer_fit_feature rep tree self X y feature s
         = Inl (ValueError (max_n_bins_msg (length special) (dt_max_n_bins self)))"
  using assms
  by (simp add: DecisionTreeBucketer_fit_feature_def Let_def)

lemma example_max_n_bins_msg:
  "max_n_bins_msg 1 2 = ''max_n_bins must be at least = the number of special bins + 2: set a value max_n_bins>= 3 (currently max_n_bins=2)''"
  by (simp add: max_n_bins_msg_def str_int_def str_nat.simps digit_char_def)

lemma example_DecisionTreeBucketer_fit:
  "DecisionTreeBucketer_fit example_reporting example_tree example_DecisionTreeBucketer
       [(''LIMIT_BAL'', [Some 10000, Some 400000])] None
     = Inl (ValueError (max_n_bins_msg 1 2))"
  by (simp add: DecisionTreeBucketer_fit_def check_variables_def example_DecisionTreeBucketer_def
      DecisionTreeBucketer_fit_feature_def Let_def)

lemma card_normal_values_example_column_101:
  "card (set (normal_values [] ''x'' example_column_101)) = 101"
proof -
  have n: "normal_values [] ''x'' example_column_101 = map real [1..<102]"
    by (simp add: normal_values_def example_column_101_def special_values_def)
  have "distinct (map real [1..<102])"
    by (simp add: distinct_map inj_on_def)
  then have "card (set (map real [1..<102])) = length (map real [1..<102])"
    by (rule distinct_card)
  then show ?thesis
    unfolding n by simp
qed

lemma card_example_column_100: "card (set example_column_100) = 101"
  using distinct_card [OF distinct_example_column_100] length_example_column_100 by simp

lemma length_fitted_rows:
  "length (fst (filter_na_for_fit (fst (fst (split_specials specs feature col y))) y'))
     = length (normal_values specs feature col)"
  unfolding fitted_values_normal [symmetric, of specs feature col y y'] fst_filter_na_for_fit
  by (simp add: length_values_of_filter_not_None del: not_None_eq)

lemma snd_split_specials:
  "snd (split_specials specs feature col y) = (case map_of specs feature of None \<Rightarrow> [] | Some special \<Rightarrow> special)"
  by (simp add: split_specials_def split: option.splits)

lemma all_special_no_normal_values:
  assumes "map_of specs feature = Some special"
    and "\<forall>x\<in>set col. \<exists>v. x = Some v \<and> v \<in> set (special_values special)"
  shows "normal_values specs feature col = []"
proof -
  have "set (values_of col) \<subseteq> set (special_values special)"
    using assms(2) by (induction col) (auto split: option.splits)
  then show ?thesis
    using assms(1) by (auto simp add: normal_values_def filter_empty_conv)
qed

lemma finish_feature_keeps:
  assumes "finish_feature rep treatment X y feature mapping s = Inr s'"
  shows "warnings s' = warnings s \<and> binners s' = binners s"
  using assms
  by (auto simp add: finish_feature_def Let_def split: if_splits sum.splits)

lemma finish_feature_mapping:
  assumes "finish_feature rep treatment X y feature mapping s = Inr s'"
  shows "\<exists>mb. map_of (features_bucket_mapping' s') feature = Some (mapping mb)"
  using assms
  by (auto simp add: finish_feature_def Let_def update_conv' split: if_splits sum.splits)

lemma finish_feature_returns:
  assumes "treatment \<noteq> MostFrequent"
  shows "\<exists>s'. finish_feature rep treatment X y feature mapping s = Inr s'"
  using assms by (simp add: finish_feature_def Let_def)

lemma example_bins:
  "map (\<lambda>i. example_quantile [1, 1, 1, 2, 3] i 4) [0..<5] = [1, 1, 1, 2, 3]"
  by (simp add: example_quantile_def Let_def upt_rec)

lemma example_qcut_Raise:
  "example_qcut example_column_duplicates 4 Raise = Inl (ValueError ''Bin edges must be unique'')"
  by (simp add: example_qcut_def example_column_duplicates_def Let_def example_bins)

lemma example_qcut_Drop:
  "example_qcut example_column_duplicates 4 Drop = Inr [1, 2, 3]"
  by (simp add: example_qcut_def example_column_duplicates_def Let_def example_bins)

lemma split_specials_no_entry:
  "map_of specs feature = None \<Longrightarrow> split_specials specs feature col y = ((col, y), [])"
  by (simp add: split_specials_def)

lemma label_ids_example_plain [simp]: "label_ids example_labels_plain L = []"
  by (simp add: label_ids_def example_labels_plain_def)

lemma set_cluster_frame [simp]: "set (cluster_frame xs labs) = set (zip xs labs)"
  by (simp add: cluster_frame_def)

lemma set_cluster_values:
  "set (cluster_values df l) = {x. (x, l) \<in> set df}"
  by (force simp add: cluster_values_def)

lemma set_cluster_values_frame:
  "set (cluster_values (cluster_frame xs labs) l) = set (cluster_values (zip xs labs) l)"
  by (simp add: set_cluster_values)

lemma set_snd_zip: "length labs = length xs \<Longrightarrow> set (map snd (zip xs labs)) = set labs"
  by simp

lemma set_cluster_labels:
  assumes "length labs = length xs"
  shows "set (cluster_labels (cluster_frame xs labs)) = set labs"
proof -
  have "set (map snd (cluster_frame xs labs)) = snd ` set (zip xs labs)"
    by simp
  also have "\<dots> = set (map snd (zip xs labs))"
    by simp
  also have "\<dots> = set labs"
    using assms by simp
  finally show ?thesis
    by (simp add: cluster_labels_def del: set_map)
qed

lemma distinct_cluster_labels [simp]: "distinct (cluster_labels df)"
  by (simp add: cluster_labels_def)

lemma length_cluster_labels:
  assumes "length labs = length xs"
  shows "length (cluster_labels (cluster_frame xs labs)) = card (set labs)"
  using distinct_card [OF distinct_cluster_labels, of "cluster_frame xs labs"] set_cluster_labels [OF assms]
  by simp

lemma length_cluster_boundaries:
  assumes "length labs = length xs"
  shows "length (cluster_boundaries xs labs) = card (set labs) - 1"
  by (simp add: cluster_boundaries_def Let_def cluster_minimum_values_def length_cluster_labels [OF assms])

lemma sort_eq_if_mset_sorted:
  fixes ys :: "real list"
  assumes "mset ys = mset xs" and "sorted ys"
  shows "sort xs = ys"
  using assms by (simp add: properties_for_sort)

lemma mset_distinct_same_set:
  assumes "distinct xs" "distinct ys" "set xs = set ys"
  shows "mset xs = mset ys"
  using assms by (simp add: set_eq_iff_mset_eq_distinct)

lemma cluster_values_nonempty:
  assumes "length labs = length xs" and "l \<in> set labs"
  shows "set (cluster_values (zip xs labs) l) \<noteq> {}"
proof -
  have "map snd (zip xs labs) = labs"
    using assms(1) by simp
  then have "snd ` set (zip xs labs) = set labs"
    by (metis set_map)
  with assms(2) have "l \<in> snd ` set (zip xs labs)"
    by simp
  then obtain x where "(x, l) \<in> set (zip xs labs)"
    by force
  then show ?thesis
    by (auto simp add: set_cluster_values)
qed

lemma sorted_map_cluster_labels:
  fixes g :: "nat \<Rightarrow> real"
  assumes "length labs = length xs" and "distinct cs" and "set cs = set labs"
    and "sorted (map g cs)"
  shows "sort (map g (cluster_labels (cluster_frame xs labs))) = map g cs"
proof -
  have "mset cs = mset (cluster_labels (cluster_frame xs labs))"
    by (rule mset_distinct_same_set) (simp_all add: assms set_cluster_labels)
  then have "mset (map g cs) = mset (map g (cluster_labels (cluster_frame xs labs)))"
    by simp
  then show ?thesis
    using assms(4) by (rule sort_eq_if_mset_sorted)
qed

lemma chain_sorted:
  fixes lo hi :: "nat \<Rightarrow> real"
  assumes "\<forall>l\<in>set cs. lo l \<le> hi l"
    and "\<forall>i. Suc i < length cs \<longrightarrow> hi (cs ! i) < lo (cs ! Suc i)"
  shows "sorted (map lo cs) \<and> sorted (map hi cs)"
proof -
  have "map lo cs ! i \<le> map lo cs ! Suc i" if "Suc i < length (map lo cs)" for i
  proof -
    from that have i: "Suc i < length cs" by simp
    then have "lo (cs ! i) \<le> hi (cs ! i)" using assms(1) by simp
    also have "\<dots> < lo (cs ! Suc i)" using assms(2) i by simp
    finally show ?thesis using i by simp
  qed
  moreover have "map hi cs ! i \<le> map hi cs ! Suc i" if "Suc i < length (map hi cs)" for i
  proof -
    from that have i: "Suc i < length cs" by simp
    then have "hi (cs ! i) < lo (cs ! Suc i)" using assms(2) by simp
    also have "\<dots> \<le> hi (cs ! Suc i)" using assms(1) i by simp
    finally show ?thesis using i by simp
  qed
  ultimately show ?thesis
    by (simp add: sorted_iff_nth_Suc)
qed

lemma cluster_boundaries_ordered:
  assumes len: "length labs = length xs" and "distinct cs" and "set cs = set labs"
    and chain: "\<forall>i. Suc i < length cs \<longrightarrow>
           Max (set (cluster_values (zip xs labs) (cs ! i))) < Min (set (cluster_values (zip xs labs) (cs ! Suc i)))"
  shows "cluster_boundaries xs labs =
     map (\<lambda>i. (Max (set (cluster_values (zip xs labs) (cs ! i)))
                + Min (set (cluster_values (zip xs labs) (cs ! Suc i)))) / 2) [0..<length cs - 1]"
proof -
  let ?lo = "\<lambda>l. Min (set (cluster_values (zip xs labs) l))"
  let ?hi = "\<lambda>l. Max (set (cluster_values (zip xs labs) l))"
  have "\<forall>l\<in>set cs. ?lo l \<le> ?hi l"
    using cluster_values_nonempty [OF len] assms(3) by simp
  from chain_sorted [OF this chain] have slo: "sorted (map ?lo cs)" and shi: "sorted (map ?hi cs)"
    by simp_all
  have mins: "cluster_minimum_values (cluster_frame xs labs) = map ?lo cs"
    unfolding cluster_minimum_values_def set_cluster_values_frame
    by (rule sorted_map_cluster_labels [OF len assms(2,3) slo])
  have maxs: "cluster_maximum_values (cluster_frame xs labs) = map ?hi cs"
    unfolding cluster_maximum_values_def set_cluster_values_frame
    by (rule sorted_map_cluster_labels [OF len assms(2,3) shi])
  show ?thesis
    unfolding cluster_boundaries_def Let_def mins maxs
    by (auto simp add: add.commute)
qed

lemma sort_cong_mset:
  fixes xs ys :: "real list"
  assumes "mset xs = mset ys"
  shows "sort xs = sort ys"
  by (rule sort_eq_if_mset_sorted) (simp_all add: assms)

lemma cluster_values_relabel:
  assumes "inj_on f (set labs)" and "l \<in> set labs"
  shows "set (cluster_values (zip xs (map f labs)) (f l)) = set (cluster_values (zip xs labs) l)"
proof -
  have z: "zip xs (map f labs) = map (\<lambda>p. (fst p, f (snd p))) (zip xs labs)"
    by (simp add: zip_map2 case_prod_beta)
  have "(x, f l) \<in> set (zip xs (map f labs)) \<longleftrightarrow> (x, l) \<in> set (zip xs labs)" for x
  proof
    assume "(x, f l) \<in> set (zip xs (map f labs))"
    then obtain l' where l': "(x, l') \<in> set (zip xs labs)" "f l' = f l"
      unfolding z by auto
    then have "l' \<in> set labs"
      by (meson set_zip_rightD)
    with l' assms have "l' = l"
      by (simp add: inj_on_def)
    with l' show "(x, l) \<in> set (zip xs labs)"
      by simp
  next
    assume "(x, l) \<in> set (zip xs labs)"
    then show "(x, f l) \<in> set (zip xs (map f labs))"
      unfolding z by force
  qed
  then show ?thesis
    by (simp add: set_cluster_values)
qed

lemma mset_cluster_labels_relabel:
  assumes "length labs = length xs" and "inj_on f (set labs)"
  shows "mset (cluster_labels (cluster_frame xs (map f labs)))
           = mset (map f (cluster_labels (cluster_frame xs labs)))"
proof (rule mset_distinct_same_set)
  show "distinct (cluster_labels (cluster_frame xs (map f labs)))"
    by simp
  show "distinct (map f (cluster_labels (cluster_frame xs labs)))"
    using assms by (simp add: distinct_map set_cluster_labels)
  show "set (cluster_labels (cluster_frame xs (map f labs))) = set (map f (cluster_labels (cluster_frame xs labs)))"
    using assms by (simp add: set_cluster_labels)
qed

lemma sort_map_relabel:
  fixes g g' :: "nat \<Rightarrow> real"
  assumes "length labs = length xs" and "inj_on f (set labs)"
    and "\<forall>l\<in>set labs. g' (f l) = g l"
  shows "sort (map g' (cluster_labels (cluster_frame xs (map f labs))))
           = sort (map g (cluster_labels (cluster_frame xs labs)))"
proof (rule sort_cong_mset)
  have "mset (map g' (cluster_labels (cluster_frame xs (map f labs))))
          = mset (map g' (map f (cluster_labels (cluster_frame xs labs))))"
    using mset_cluster_labels_relabel [OF assms(1,2)] by (metis mset_map)
  also have "map g' (map f (cluster_labels (cluster_frame xs labs)))
          = map g (cluster_labels (cluster_frame xs labs))"
    using assms(3) set_cluster_labels [OF assms(1)] by simp
  finally show "mset (map g' (cluster_labels (cluster_frame xs (map f labs))))
          = mset (map g (cluster_labels (cluster_frame xs labs)))" .
qed

lemma cluster_boundaries_relabel:
  assumes "length labs = length xs" and "inj_on f (set labs)"
  shows "cluster_boundaries xs (map f labs) = cluster_boundaries xs labs"
proof -
  have mins: "cluster_minimum_values (cluster_frame xs (map f labs)) = cluster_minimum_values (cluster_frame xs labs)"
    unfolding cluster_minimum_values_def set_cluster_values_frame
    by (rule sort_map_relabel [OF assms]) (simp add: cluster_values_relabel [OF assms(2)])
  have maxs: "cluster_maximum_values (cluster_frame xs (map f labs)) = cluster_maximum_values (cluster_frame xs labs)"
    unfolding cluster_maximum_values_def set_cluster_values_frame
    by (rule sort_map_relabel [OF assms]) (simp add: cluster_values_relabel [OF assms(2)])
  show ?thesis
    by (simp add: cluster_boundaries_def Let_def mins maxs)
qed

lemma example_cluster_values:
  "cluster_values [(10, 2), (1, 0), (12, 2), (2, 0), (20, Suc 0)] 0 = [1, 2 :: real]"
  "cluster_values [(10, 2), (1, 0), (12, 2), (2, 0), (20, Suc 0)] 2 = [10, 12 :: real]"
  "cluster_values [(10, 2), (1, 0), (12, 2), (2, 0), (20, Suc 0)] (Suc 0) = [20 :: real]"
  by (simp_all add: cluster_values_def)

lemma example_normal_values_clusters:
  "normal_values (ac_specials example_AgglomerativeClusteringBucketer) ''x'' example_column_clusters
     = [10, 1, 12, 2, 20]"
  by (simp add: normal_values_def special_values_def example_AgglomerativeClusteringBucketer_def
      example_column_clusters_def)

lemma most_frequent_bucket_example_table_missing_first:
  "most_frequent_bucket (sort_values_Count_descending example_reporting_missing_first
      (build_bucket_table example_reporting_missing_first X y feature bm)) = Inr 0"
  by (simp add: example_reporting_missing_first_def example_table_missing_first_def most_frequent_bucket_def)

lemma most_frequent_example:
  assumes "f Separate = Inr s1"
    and "\<forall>s1. f Separate = Inr s1 \<longrightarrow>
       (\<exists>bm. missing_bucket bm = None
          \<and> map_of (features_bucket_mapping' s1) feature = Some bm
          \<and> map_of (bucket_tables' s1) feature = Some (build_bucket_table example_reporting_missing_first X y feature bm)
          \<and> bucket_table_calls s1 = bucket_table_calls s @ [(feature, bm)]
          \<and> f MostFrequent =
              (case most_frequent_bucket
                      (sort_values_Count_descending example_reporting_missing_first
                         (build_bucket_table example_reporting_missing_first X y feature bm)) of
                 Inl e \<Rightarrow> Inl e
               | Inr b \<Rightarrow>
                   Inr (s1\<lparr>features_bucket_mapping' :=
                              AList.update feature (bm\<lparr>missing_bucket := Some b\<rparr>) (features_bucket_mapping' s1),
                           bucket_tables' :=
                              AList.update feature
                                (build_bucket_table example_reporting_missing_first X y feature (bm\<lparr>missing_bucket := Some b\<rparr>))
                                (bucket_tables' s1),
                           bucket_table_calls :=
                              bucket_table_calls s1 @ [(feature, bm\<lparr>missing_bucket := Some b\<rparr>)]\<rparr>)))"
    and "bucket_table_calls s = []"
  shows "(case f MostFrequent of
      Inl e \<Rightarrow> False
    | Inr s' \<Rightarrow>
        map (\<lambda>c. (fst c, missing_bucket (snd c))) (bucket_table_calls s') = [(feature, None), (feature, Some 0)]
        \<and> map_option missing_bucket (map_of (features_bucket_mapping' s') feature) = Some (Some 0))"
proof -
  from assms(1,2) obtain bm where bm: "missing_bucket bm = None"
    "bucket_table_calls s1 = bucket_table_calls s @ [(feature, bm)]"
    "f MostFrequent =
       Inr (s1\<lparr>features_bucket_mapping' :=
                  AList.update feature (bm\<lparr>missing_bucket := Some 0\<rparr>) (features_bucket_mapping' s1),
               bucket_tables' :=
                  AList.update feature
                    (build_bucket_table example_reporting_missing_first X y feature (bm\<lparr>missing_bucket := Some 0\<rparr>))
                    (bucket_tables' s1),
               bucket_table_calls :=
                  bucket_table_calls s1 @ [(feature, bm\<lparr>missing_bucket := Some 0\<rparr>)]\<rparr>)"
    unfolding most_frequent_bucket_example_table_missing_first by auto
  then show ?thesis
    using assms(3) by (simp add: update_conv')
qed

section \<open>The coverage check of the process\<close>

text \<open>
  Claim C1, as amended. Once both stages are fitted, \<^verbatim>\<open>BucketingProcess.fit\<close>
  succeeds exactly when the two stages cover the same set of columns. If some column is
  bucketed but not pre-bucketed, it raises \<open>NotPreBucketedError\<close>, and the message
  lists every such column. If every bucketed column is pre-bucketed and some
  pre-bucketed column is not bucketed, it raises \<open>NotBucketedError\<close>, and the message
  lists every such column. The two errors are different constructors.
\<close>
theorem fit_checks_column_coverage:
  assumes "pre_fit_transform env (prebucketing_pipeline self) X y = Inr (Xp, pre_fbm)"
    and "remap_all_specials (labels env) pre_fbm (prebucketing_specials self) (bucketing_specials self) = Inr bs"
    and "bucketing_fit env (map (assign_specials bs) (bucketing_pipeline self)) Xp y = Inr fbm"
  shows "((\<exists>c\<in>set (columns fbm). c \<notin> set (columns pre_fbm)) \<longrightarrow>
            (\<exists>msg. fit env self X y = Inl (NotPreBucketedError msg) \<and>
                   (\<forall>c\<in>set (columns fbm). c \<notin> set (columns pre_fbm) \<longrightarrow> sublist c msg)))
       \<and> ((\<forall>c\<in>set (columns fbm). c \<in> set (columns pre_fbm)) \<and>
          (\<exists>c\<in>set (columns pre_fbm). c \<notin> set (columns fbm)) \<longrightarrow>
            (\<exists>msg. fit env self X y = Inl (NotBucketedError msg) \<and>
                   (\<forall>c\<in>set (columns pre_fbm). c \<notin> set (columns fbm) \<longrightarrow> sublist c msg)))
       \<and> ((\<exists>self'. fit env self X y = Inr self') \<longleftrightarrow> set (columns fbm) = set (columns pre_fbm))
       \<and> (\<forall>m m'. NotPreBucketedError m \<noteq> NotBucketedError m')"
proof -
  let ?np = "filter (\<lambda>col. col \<notin> set (columns pre_fbm)) (columns fbm)"
  let ?nb = "filter (\<lambda>col. col \<notin> set (columns fbm)) (columns pre_fbm)"
  note fc = fit_cases [OF assms]
  have np: "?np \<noteq> [] \<longleftrightarrow> (\<exists>c\<in>set (columns fbm). c \<notin> set (columns pre_fbm))"
    by (simp add: filter_empty_conv)
  have nb: "?nb \<noteq> [] \<longleftrightarrow> (\<exists>c\<in>set (columns pre_fbm). c \<notin> set (columns fbm))"
    by (simp add: filter_empty_conv)
  have a: "(\<exists>msg. fit env self X y = Inl (NotPreBucketedError msg) \<and>
                   (\<forall>c\<in>set (columns fbm). c \<notin> set (columns pre_fbm) \<longrightarrow> sublist c msg))"
    if "\<exists>c\<in>set (columns fbm). c \<notin> set (columns pre_fbm)"
  proof -
    from that np have "fit env self X y = Inl (NotPreBucketedError (not_prebucketed_msg ?np))"
      by (simp only: fc if_True)
    moreover have "\<forall>c\<in>set (columns fbm). c \<notin> set (columns pre_fbm) \<longrightarrow> sublist c (not_prebucketed_msg ?np)"
      by (simp add: sublist_not_prebucketed_msg)
    ultimately show ?thesis by blast
  qed
  have b: "(\<exists>msg. fit env self X y = Inl (NotBucketedError msg) \<and>
                   (\<forall>c\<in>set (columns pre_fbm). c \<notin> set (columns fbm) \<longrightarrow> sublist c msg))"
    if "\<forall>c\<in>set (columns fbm). c \<in> set (columns pre_fbm)" "\<exists>c\<in>set (columns pre_fbm). c \<notin> set (columns fbm)"
  proof -
    from that(1) np have "?np = []" by blast
    moreover from that(2) nb have "?nb \<noteq> []" by blast
    ultimately have "fit env self X y = Inl (NotBucketedError (not_bucketed_msg ?nb))"
      by (simp only: fc if_True if_False simp_thms)
    moreover have "\<forall>c\<in>set (columns pre_fbm). c \<notin> set (columns fbm) \<longrightarrow> sublist c (not_bucketed_msg ?nb)"
      by (simp add: sublist_not_bucketed_msg)
    ultimately show ?thesis by blast
  qed
  have c: "(\<exists>self'. fit env self X y = Inr self') \<longleftrightarrow> set (columns fbm) = set (columns pre_fbm)"
  proof -
    have "(\<exists>self'. fit env self X y = Inr self') \<longleftrightarrow> ?np = [] \<and> ?nb = []"
      unfolding fc by auto
    also have "\<dots> \<longleftrightarrow> set (columns fbm) = set (columns pre_fbm)"
      using np nb by blast
    finally show ?thesis .
  qed
  from a b c show ?thesis by blast
qed

theorem fit_checks_column_coverage_witness:
  "fit (example_collaborators [''LIMIT_BAL'', ''EDUCATION''] [''LIMIT_BAL''] []) (example_process []) [] None
     = Inl (NotBucketedError (not_bucketed_msg [''EDUCATION'']))
   \<and> sublist ''EDUCATION'' (not_bucketed_msg [''EDUCATION''])
   \<and> (\<exists>msg. fit (example_collaborators [''LIMIT_BAL''] [''LIMIT_BAL'', ''BILL_AMT1''] []) (example_process []) [] None
          = Inl (NotPreBucketedError msg) \<and> sublist ''BILL_AMT1'' msg)"
proof -
  let ?e1 = "example_collaborators [''LIMIT_BAL'', ''EDUCATION''] [''LIMIT_BAL''] []"
  let ?e2 = "example_collaborators [''LIMIT_BAL''] [''LIMIT_BAL'', ''BILL_AMT1''] []"
  have p1: "pre_fit_transform ?e1 (prebucketing_pipeline (example_process [])) [] None
              = Inr ([], [(''LIMIT_BAL'', example_mapping ''LIMIT_BAL''), (''EDUCATION'', example_mapping ''EDUCATION'')])"
    by (simp add: example_collaborators_def)
  have r1: "remap_all_specials (labels ?e1) [(''LIMIT_BAL'', example_mapping ''LIMIT_BAL''), (''EDUCATION'', example_mapping ''EDUCATION'')]
              (prebucketing_specials (example_process [])) (bucketing_specials (example_process [])) = Inr []"
    by (simp add: example_process_def)
  have b1: "bucketing_fit ?e1 (map (assign_specials []) (bucketing_pipeline (example_process []))) [] None
              = Inr [(''LIMIT_BAL'', example_mapping ''LIMIT_BAL'')]"
    by (simp add: example_collaborators_def)
  have p2: "pre_fit_transform ?e2 (prebucketing_pipeline (example_process [])) [] None
              = Inr ([], [(''LIMIT_BAL'', example_mapping ''LIMIT_BAL'')])"
    by (simp add: example_collaborators_def)
  have r2: "remap_all_specials (labels ?e2) [(''LIMIT_BAL'', example_mapping ''LIMIT_BAL'')]
              (prebucketing_specials (example_process [])) (bucketing_specials (example_process [])) = Inr []"
    by (simp add: example_process_def)
  have b2: "bucketing_fit ?e2 (map (assign_specials []) (bucketing_pipeline (example_process []))) [] None
              = Inr [(''LIMIT_BAL'', example_mapping ''LIMIT_BAL''), (''BILL_AMT1'', example_mapping ''BILL_AMT1'')]"
    by (simp add: example_collaborators_def)
  from fit_checks_column_coverage [OF p1 r1 b1]
  have "\<exists>msg. fit ?e1 (example_process []) [] None = Inl (NotBucketedError msg) \<and> sublist ''EDUCATION'' msg"
    by (simp add: columns_def)
  moreover have "fit ?e1 (example_process []) [] None = Inl (NotBucketedError (not_bucketed_msg [''EDUCATION'']))"
    by (simp add: fit_cases [OF p1 r1 b1] columns_def)
  moreover from fit_checks_column_coverage [OF p2 r2 b2]
  have "\<exists>msg. fit ?e2 (example_process []) [] None = Inl (NotPreBucketedError msg) \<and> sublist ''BILL_AMT1'' msg"
    by (simp add: columns_def)
  ultimately show ?thesis by auto
qed

text \<open>
  The claim as stated fails where both kinds of column are present: \<open>EDUCATION\<close> is
  pre-bucketed and not bucketed, yet the error is the one of the first check, for
  \<open>LIMIT_BAL\<close>.
\<close>
theorem fit_not_bucketed_counterexample:
  "List.member [''EDUCATION''] ''EDUCATION'' \<and> \<not> List.member [''LIMIT_BAL''] ''EDUCATION''
   \<and> fit (example_collaborators [''EDUCATION''] [''LIMIT_BAL''] []) (example_process []) [] None
     = Inl (NotPreBucketedError (not_prebucketed_msg [''LIMIT_BAL'']))"
  by (simp add: fit_def example_collaborators_def example_process_def columns_def)

section \<open>The equal-width example\<close>

text \<open>
  Claim C5. For the column \<open>[10, 20, 30, 40, NaN]\<close> and two bins without specials, the
  histogram edges are computed from the four non-null values, the outer edges are dropped,
  the fitted mapping has the single boundary 25, and transforming the column gives
  \<open>[0, 0, 1, 1, -1]\<close>.
\<close>
theorem EqualWidthBucketer_example:
  "values_of (fst (filter_na_for_fit example_column y)) = [10, 20, 30, 40]
   \<and> histogram_bin_edges [10, 20, 30, 40] 2 = [10, 25, 40]
   \<and> EqualWidthBucketer_fit rep example_EqualWidthBucketer [(''x'', example_column)] y
       = Inr \<lparr>features_bucket_mapping' = [(''x'', example_mapping_25)],
              bucket_tables' = [(''x'', build_bucket_table rep [(''x'', example_column)] y ''x'' example_mapping_25)],
              binners = [], warnings = [],
              bucket_table_calls = [(''x'', example_mapping_25)]\<rparr>
   \<and> transform example_mapping_25 example_column = [0, 0, 1, 1, - 1]"
proof -
  have v: "values_of (fst (filter_na_for_fit example_column y)) = [10, 20, 30, 40]"
    by (simp add: filter_na_for_fit_def example_column_def Let_def)
  have f: "EqualWidthBucketer_fit rep example_EqualWidthBucketer [(''x'', example_column)] y
       = Inr \<lparr>features_bucket_mapping' = [(''x'', example_mapping_25)],
              bucket_tables' = [(''x'', build_bucket_table rep [(''x'', example_column)] y ''x'' example_mapping_25)],
              binners = [], warnings = [],
              bucket_table_calls = [(''x'', example_mapping_25)]\<rparr>"
    by (simp add: EqualWidthBucketer_fit_def check_variables_def example_EqualWidthBucketer_def
        EqualWidthBucketer_fit_feature_def get_column_def split_specials_def v example_histogram
        inner_edges_def finish_feature_def Let_def unfitted_def example_mapping_25_def)
  have t: "transform example_mapping_25 example_column = [0, 0, 1, 1, - 1]"
    by (simp add: transform_def transform_value_def example_mapping_25_def example_column_def)
  from v example_histogram f t show ?thesis by blast
qed

section \<open>The pre-bucketing precondition\<close>

text \<open>
  Claim C2, at the input where the code departs from it. The column holds the hundred
  distinct normal values 1, ..., 100 and one missing value. \<open>AsIsNumericalBucketer\<close>
  counts the missing value as one more distinct value and raises
  \<open>NotPreBucketedError\<close>, although the feature has no more than 100 distinct normal
  values.
\<close>
theorem AsIsNumericalBucketer_counts_missing_value:
  "card (set (normal_values (an_specials example_AsIsNumericalBucketer) ''x'' example_column_100)) = 100
   \<and> AsIsNumericalBucketer_fit rep nan example_AsIsNumericalBucketer [(''x'', example_column_100)] y
       = Inl (NotPreBucketedError (asis_not_prebucketed_msg ''x''))"
proof -
  have "distinct (map real [1..<101])"
    by (simp add: distinct_map inj_on_def)
  then have "card (set (map real [1..<101])) = length (map real [1..<101])"
    by (rule distinct_card)
  then have "card (set (map real [1..<101])) = 100"
    by simp
  then have c: "card (set (normal_values (an_specials example_AsIsNumericalBucketer) ''x'' example_column_100)) = 100"
    by (simp add: example_AsIsNumericalBucketer_def normal_values_example_column_100 del: set_map)
  have "length (unique example_column_100) = 101"
    using distinct_example_column_100 length_example_column_100
    by (simp add: unique_distinct)
  then have "AsIsNumericalBucketer_fit_feature rep nan example_AsIsNumericalBucketer [(''x'', example_column_100)] y ''x'' unfitted
       = Inl (NotPreBucketedError (asis_not_prebucketed_msg ''x''))"
    by (simp add: AsIsNumericalBucketer_fit_feature_def get_column_def split_specials_def
        example_AsIsNumericalBucketer_def Let_def)
  then have "AsIsNumericalBucketer_fit rep nan example_AsIsNumericalBucketer [(''x'', example_column_100)] y
       = Inl (NotPreBucketedError (asis_not_prebucketed_msg ''x''))"
    by (simp add: AsIsNumericalBucketer_fit_def check_variables_def example_AsIsNumericalBucketer_def)
  with c show ?thesis by simp
qed

section \<open>The messages of the precondition errors\<close>

text \<open>
  Claim C7, as amended. Each fit-time precondition error aborts the fit: the error of the
  first offending feature is the result of \<^verbatim>\<open>fit\<close>. The messages of
  \<open>OptimalBucketer\<close> and \<open>AsIsNumericalBucketer\<close> name the offending feature and the
  threshold 100. The message of \<open>DecisionTreeBucketer\<close> names the required minimum
  (the number of special groups plus 2) and the current \<^verbatim>\<open>max_n_bins\<close>.
\<close>
theorem precondition_errors_abort_fit:
  "(ob_variables_type oself = ''numerical'' \<and> get_column X1 feature = Inr col1
      \<and> 100 < card (set (normal_values (ob_specials oself) feature col1))
      \<and> check_variables X1 (ob_variables oself) = before @ feature # after
      \<and> for_features (OptimalBucketer_fit_feature rep1 opt oself X1 y) before unfitted = Inr s1
    \<longrightarrow> (\<exists>m. OptimalBucketer_fit rep1 opt oself X1 y = Inl (NotPreBucketedError m)
             \<and> sublist feature m \<and> sublist ''100'' m))
   \<and> (get_column X2 feature = Inr col2
      \<and> 100 < card (set (fst (fst (split_specials (an_specials aself) feature col2 y))))
      \<and> check_variables X2 (an_variables aself) = before @ feature # after
      \<and> for_features (AsIsNumericalBucketer_fit_feature rep2 nan aself X2 y) before unfitted = Inr s2
    \<longrightarrow> (\<exists>m. AsIsNumericalBucketer_fit rep2 nan aself X2 y = Inl (NotPreBucketedError m)
             \<and> sublist feature m \<and> sublist ''100'' m))
   \<and> (map_of (dt_specials dself) feature = Some special
      \<and> dt_max_n_bins dself - int (length special) \<le> 1
      \<and> check_variables X3 (dt_variables dself) = before @ feature # after
      \<and> for_features (DecisionTreeBucketer_fit_feature rep3 tree dself X3 y) before unfitted = Inr s3
    \<longrightarrow> (\<exists>m. DecisionTreeBucketer_fit rep3 tree dself X3 y = Inl (ValueError m)
             \<and> sublist (str_nat (length special + 2)) m
             \<and> sublist (str_int (dt_max_n_bins dself)) m))"
proof (intro conjI impI; elim conjE)
  assume a: "ob_variables_type oself = ''numerical''" "get_column X1 feature = Inr col1"
    "100 < card (set (normal_values (ob_specials oself) feature col1))"
    "check_variables X1 (ob_variables oself) = before @ feature # after"
    "for_features (OptimalBucketer_fit_feature rep1 opt oself X1 y) before unfitted = Inr s1"
  have "OptimalBucketer_fit rep1 opt oself X1 y
        = Inl (NotPreBucketedError (optimal_not_prebucketed_msg feature
                  (card (set (normal_values (ob_specials oself) feature col1)))))"
    unfolding OptimalBucketer_fit_def a(4)
    by (rule for_features_abort [OF a(5) OptimalBucketer_raises [OF a(1,2,3)]])
  then show "\<exists>m. OptimalBucketer_fit rep1 opt oself X1 y = Inl (NotPreBucketedError m)
             \<and> sublist feature m \<and> sublist ''100'' m"
    using optimal_msg_names_feature optimal_msg_names_threshold by blast
next
  assume a: "get_column X2 feature = Inr col2"
    "100 < card (set (fst (fst (split_specials (an_specials aself) feature col2 y))))"
    "check_variables X2 (an_variables aself) = before @ feature # after"
    "for_features (AsIsNumericalBucketer_fit_feature rep2 nan aself X2 y) before unfitted = Inr s2"
  have "AsIsNumericalBucketer_fit rep2 nan aself X2 y
        = Inl (NotPreBucketedError (asis_not_prebucketed_msg feature))"
    unfolding AsIsNumericalBucketer_fit_def a(3)
    by (rule for_features_abort [OF a(4) AsIsNumericalBucketer_raises [OF a(1,2)]])
  then show "\<exists>m. AsIsNumericalBucketer_fit rep2 nan aself X2 y = Inl (NotPreBucketedError m)
             \<and> sublist feature m \<and> sublist ''100'' m"
    using asis_msg_names_feature asis_msg_names_threshold by blast
next
  assume a: "map_of (dt_specials dself) feature = Some special"
    "dt_max_n_bins dself - int (length special) \<le> 1"
    "check_variables X3 (dt_variables dself) = before @ feature # after"
    "for_features (DecisionTreeBucketer_fit_feature rep3 tree dself X3 y) before unfitted = Inr s3"
  have "DecisionTreeBucketer_fit rep3 tree dself X3 y
        = Inl (ValueError (max_n_bins_msg (length special) (dt_max_n_bins dself)))"
    unfolding DecisionTreeBucketer_fit_def a(3)
    by (rule for_features_abort [OF a(4) DecisionTreeBucketer_raises [OF a(1,2)]])
  then show "\<exists>m. DecisionTreeBucketer_fit rep3 tree dself X3 y = Inl (ValueError m)
             \<and> sublist (str_nat (length special + 2)) m
             \<and> sublist (str_int (dt_max_n_bins dself)) m"
    using max_n_bins_msg_names_threshold max_n_bins_msg_names_current by blast
qed

text \<open>
  The claim as stated fails for \<open>DecisionTreeBucketer\<close>: the message of its error
  does not name the offending feature \<open>LIMIT_BAL\<close>.
\<close>
theorem DecisionTreeBucketer_message_counterexample:
  "DecisionTreeBucketer_fit example_reporting example_tree example_DecisionTreeBucketer
       [(''LIMIT_BAL'', [Some 10000, Some 400000])] None
     = Inl (ValueError ''max_n_bins must be at least = the number of special bins + 2: set a value max_n_bins>= 3 (currently max_n_bins=2)'')
   \<and> \<not> sublist ''LIMIT_BAL''
         ''max_n_bins must be at least = the number of special bins + 2: set a value max_n_bins>= 3 (currently max_n_bins=2)''"
proof -
  have "\<not> sublist ''LIMIT_BAL''
         ''max_n_bins must be at least = the number of special bins + 2: set a value max_n_bins>= 3 (currently max_n_bins=2)''"
    by (simp add: sublist_Cons_right)
  then show ?thesis
    by (simp only: example_DecisionTreeBucketer_fit example_max_n_bins_msg simp_thms)
qed

theorem precondition_errors_abort_fit_witness:
  "(\<exists>m. OptimalBucketer_fit example_reporting example_optbinning example_OptimalBucketer
            [(''x'', example_column_101)] None = Inl (NotPreBucketedError m)
        \<and> sublist ''x'' m \<and> sublist ''100'' m)
   \<and> (\<exists>m. AsIsNumericalBucketer_fit example_reporting example_nan_boundaries example_AsIsNumericalBucketer
            [(''x'', example_column_100)] None = Inl (NotPreBucketedError m)
        \<and> sublist ''x'' m \<and> sublist ''100'' m)
   \<and> (\<exists>m. DecisionTreeBucketer_fit example_reporting example_tree example_DecisionTreeBucketer
            [(''LIMIT_BAL'', [Some 10000, Some 400000])] None = Inl (ValueError m)
        \<and> sublist ''3'' m \<and> sublist ''2'' m)"
proof -
  have o: "ob_variables_type example_OptimalBucketer = ''numerical''
      \<and> get_column [(''x'', example_column_101)] ''x'' = Inr example_column_101
      \<and> 100 < card (set (normal_values (ob_specials example_OptimalBucketer) ''x'' example_column_101))
      \<and> check_variables [(''x'', example_column_101)] (ob_variables example_OptimalBucketer) = [] @ ''x'' # []
      \<and> for_features (OptimalBucketer_fit_feature example_reporting example_optbinning example_OptimalBucketer
             [(''x'', example_column_101)] None) [] unfitted = Inr unfitted"
    by (simp add: example_OptimalBucketer_def get_column_def check_variables_def
        card_normal_values_example_column_101)
  have a: "get_column [(''x'', example_column_100)] ''x'' = Inr example_column_100
      \<and> 100 < card (set (fst (fst (split_specials (an_specials example_AsIsNumericalBucketer) ''x'' example_column_100 None))))
      \<and> check_variables [(''x'', example_column_100)] (an_variables example_AsIsNumericalBucketer) = [] @ ''x'' # []
      \<and> for_features (AsIsNumericalBucketer_fit_feature example_reporting example_nan_boundaries example_AsIsNumericalBucketer
             [(''x'', example_column_100)] None) [] unfitted = Inr unfitted"
    by (simp add: example_AsIsNumericalBucketer_def get_column_def check_variables_def
        split_specials_def card_example_column_100)
  have d: "map_of (dt_specials example_DecisionTreeBucketer) ''LIMIT_BAL'' = Some [(''=400000.0'', [400000])]
      \<and> dt_max_n_bins example_DecisionTreeBucketer - int (length [(''=400000.0'', [400000::real])]) \<le> 1
      \<and> check_variables [(''LIMIT_BAL'', [Some 10000, Some 400000])] (dt_variables example_DecisionTreeBucketer)
           = [] @ ''LIMIT_BAL'' # []
      \<and> for_features (DecisionTreeBucketer_fit_feature example_reporting example_tree example_DecisionTreeBucketer
             [(''LIMIT_BAL'', [Some 10000, Some 400000])] None) [] unfitted = Inr unfitted"
    by (simp add: example_DecisionTreeBucketer_def check_variables_def)
  note t1 = precondition_errors_abort_fit [where oself = example_OptimalBucketer
      and ?X1.0 = "[(''x'', example_column_101)]" and feature = "''x''" and ?col1.0 = example_column_101
      and before = "[]" and after = "[]" and ?rep1.0 = example_reporting and opt = example_optbinning
      and y = None and ?s1.0 = unfitted
      and aself = example_AsIsNumericalBucketer and ?X2.0 = "[(''x'', example_column_100)]"
      and ?col2.0 = example_column_100 and ?rep2.0 = example_reporting and ?s2.0 = unfitted]
  note t2 = precondition_errors_abort_fit [where dself = example_DecisionTreeBucketer
      and ?X3.0 = "[(''LIMIT_BAL'', [Some 10000, Some 400000])]" and feature = "''LIMIT_BAL''"
      and special = "[(''=400000.0'', [400000])]" and before = "[]" and after = "[]"
      and ?rep3.0 = example_reporting and tree = example_tree and y = None and ?s3.0 = unfitted]
  from t1 o a have "(\<exists>m. OptimalBucketer_fit example_reporting example_optbinning example_OptimalBucketer
            [(''x'', example_column_101)] None = Inl (NotPreBucketedError m)
        \<and> sublist ''x'' m \<and> sublist ''100'' m)
   \<and> (\<exists>m. AsIsNumericalBucketer_fit example_reporting example_nan_boundaries example_AsIsNumericalBucketer
            [(''x'', example_column_100)] None = Inl (NotPreBucketedError m)
        \<and> sublist ''x'' m \<and> sublist ''100'' m)"
    by blast
  moreover from t2 d have "\<exists>m. DecisionTreeBucketer_fit example_reporting example_tree example_DecisionTreeBucketer
            [(''LIMIT_BAL'', [Some 10000, Some 400000])] None = Inl (ValueError m)
        \<and> sublist (str_nat (length [(''=400000.0'', [400000::real])] + 2)) m
        \<and> sublist (str_int (dt_max_n_bins example_DecisionTreeBucketer)) m"
    by blast
  then have "\<exists>m. DecisionTreeBucketer_fit example_reporting example_tree example_DecisionTreeBucketer
            [(''LIMIT_BAL'', [Some 10000, Some 400000])] None = Inl (ValueError m)
        \<and> sublist ''3'' m \<and> sublist ''2'' m"
    by (simp add: example_DecisionTreeBucketer_def str_int_def str_nat.simps digit_char_def)
  ultimately show ?thesis by blast
qed

section \<open>The constraints of the decision tree\<close>

text \<open>
  Claim C6. \<open>k\<close> is the number of special groups declared for the feature and
  \<open>frac_left\<close> the fraction of the rows of \<open>X\<close> that are left once specials and
  missings are removed. When rows are left, the tree is fitted on them with
  \<^verbatim>\<open>max_leaf_nodes = max_n_bins - k\<close> and with \<^verbatim>\<open>min_samples_leaf\<close> equal to
  \<^verbatim>\<open>min_bin_size / frac_left\<close> capped at one half, and the boundaries are its sorted
  distinct thresholds. When no row is left, which is the case when every row is a special
  value, no tree is fitted (no binner is stored and the result does not depend on the
  tree) and the boundary sequence is empty.
\<close>
theorem DecisionTreeBucketer_tree_constraints:
  assumes "get_column X feature = Inr col"
    and "0 < shape0 X"
    and "k = (case map_of (dt_specials self) feature of None \<Rightarrow> 0 | Some special \<Rightarrow> length special)"
    and "map_of (dt_specials self) feature = None \<or> 1 < dt_max_n_bins self - int k"
    and "frac_left = real (length (normal_values (dt_specials self) feature col)) / real (shape0 X)"
  shows "(normal_values (dt_specials self) feature col \<noteq> [] \<longrightarrow>
           (let flt = split_specials (dt_specials self) feature col y;
                y_flt = snd (filter_na_for_fit (fst (fst flt)) (snd (fst flt)));
                binner = \<lparr>max_leaf_nodes = dt_max_n_bins self - int k,
                          min_samples_leaf = min (1 / 2) (dt_min_bin_size self / frac_left),
                          random_state = dt_random_state self\<rparr>
            in DecisionTreeBucketer_fit_feature rep tree self X y feature s =
                 (case tree binner (normal_values (dt_specials self) feature col) y_flt of
                    Inl e \<Rightarrow> Inl e
                  | Inr thresholds \<Rightarrow>
                      finish_feature rep (dt_missing_treatment self) X y feature
                        (\<lambda>mb. \<lparr>feature_name = feature, type = ''numerical'',
                               bmap = Boundaries (sort (remdups thresholds)), right = False,
                               bm_specials = snd flt, missing_bucket = mb\<rparr>)
                        (s\<lparr>binners := AList.update feature binner (binners s)\<rparr>))))
       \<and> (normal_values (dt_specials self) feature col = [] \<longrightarrow>
            DecisionTreeBucketer_fit_feature rep tree self X y feature s =
              finish_feature rep (dt_missing_treatment self) X y feature
                (\<lambda>mb. \<lparr>feature_name = feature, type = ''numerical'', bmap = Boundaries [],
                       right = False,
                       bm_specials = snd (split_specials (dt_specials self) feature col y),
                       missing_bucket = mb\<rparr>)
                s)
       \<and> ((\<exists>special. map_of (dt_specials self) feature = Some special
              \<and> (\<forall>x\<in>set col. \<exists>v. x = Some v \<and> v \<in> set (special_values special)))
            \<longrightarrow> normal_values (dt_specials self) feature col = [])"
proof -
  have guard: "(map_of (dt_specials self) feature \<noteq> None \<and> dt_max_n_bins self - int k \<le> 1) = False"
    using assms(4) by auto
  have rows: "(shape0 X = 0) = False"
    using assms(2) by simp
  have cap: "(if dt_min_bin_size self / frac_left > 1 / 2 then 1 / 2 else dt_min_bin_size self / frac_left)
               = min (1 / 2) (dt_min_bin_size self / frac_left)"
    by (simp add: min_def)
  have unfold: "DecisionTreeBucketer_fit_feature rep tree self X y feature s =
     (if 0 < frac_left
      then (case tree \<lparr>max_leaf_nodes = dt_max_n_bins self - int k,
                        min_samples_leaf = min (1 / 2) (dt_min_bin_size self / frac_left),
                        random_state = dt_random_state self\<rparr>
                 (normal_values (dt_specials self) feature col)
                 (snd (filter_na_for_fit (fst (fst (split_specials (dt_specials self) feature col y)))
                        (snd (fst (split_specials (dt_specials self) feature col y))))) of
              Inl e \<Rightarrow> Inl e
            | Inr thresholds \<Rightarrow>
                finish_feature rep (dt_missing_treatment self) X y feature
                  (\<lambda>mb. \<lparr>feature_name = feature, type = ''numerical'',
                         bmap = Boundaries (sort (remdups thresholds)), right = False,
                         bm_specials = snd (split_specials (dt_specials self) feature col y),
                         missing_bucket = mb\<rparr>)
                  (s\<lparr>binners := AList.update feature
                        \<lparr>max_leaf_nodes = dt_max_n_bins self - int k,
                         min_samples_leaf = min (1 / 2) (dt_min_bin_size self / frac_left),
                         random_state = dt_random_state self\<rparr> (binners s)\<rparr>))
      else finish_feature rep (dt_missing_treatment self) X y feature
             (\<lambda>mb. \<lparr>feature_name = feature, type = ''numerical'', bmap = Boundaries [],
                    right = False,
                    bm_specials = snd (split_specials (dt_specials self) feature col y),
                    missing_bucket = mb\<rparr>)
             s)"
    unfolding DecisionTreeBucketer_fit_feature_def
    by (simp only: Let_def assms(1) assms(3) [symmetric] guard rows if_False sum.case
        length_fitted_rows fitted_values_normal assms(5) [symmetric] cap)
  have pos: "0 < frac_left \<longleftrightarrow> normal_values (dt_specials self) feature col \<noteq> []"
    using assms(2,5) by (simp add: zero_less_divide_iff)
  have all: "normal_values (dt_specials self) feature col = []"
    if "\<exists>special. map_of (dt_specials self) feature = Some special
              \<and> (\<forall>x\<in>set col. \<exists>v. x = Some v \<and> v \<in> set (special_values special))"
    using that all_special_no_normal_values by blast
  show ?thesis
    unfolding unfold Let_def using pos all by simp
qed

theorem DecisionTreeBucketer_tree_constraints_witness:
  "(case DecisionTreeBucketer_fit_feature example_reporting example_tree example_DecisionTreeBucketer_5
           [(''LIMIT_BAL'', [Some 10000, Some 400000])] None ''LIMIT_BAL'' unfitted of
      Inl e \<Rightarrow> False
    | Inr s' \<Rightarrow>
        binners s' = [(''LIMIT_BAL'', \<lparr>max_leaf_nodes = 4, min_samples_leaf = 1 / 2, random_state = 42\<rparr>)])
   \<and> (case DecisionTreeBucketer_fit_feature example_reporting example_tree example_DecisionTreeBucketer_5
           [(''LIMIT_BAL'', [Some 400000, Some 400000])] None ''LIMIT_BAL'' unfitted of
      Inl e \<Rightarrow> False
    | Inr s' \<Rightarrow>
        binners s' = [] \<and> map (\<lambda>m. bmap (snd m)) (features_bucket_mapping' s') = [Boundaries []])"
proof -
  let ?self = example_DecisionTreeBucketer_5
  let ?X1 = "[(''LIMIT_BAL'', [Some 10000, Some (400000 :: real)])]"
  let ?X2 = "[(''LIMIT_BAL'', [Some 400000, Some (400000 :: real)])]"
  have n1: "normal_values (dt_specials ?self) ''LIMIT_BAL'' [Some 10000, Some 400000] = [10000]"
    by (simp add: normal_values_def special_values_def example_DecisionTreeBucketer_5_def)
  have n2: "normal_values (dt_specials ?self) ''LIMIT_BAL'' [Some 400000, Some 400000] = []"
    by (simp add: normal_values_def special_values_def example_DecisionTreeBucketer_5_def)
  have k: "(1::nat) = (case map_of (dt_specials ?self) ''LIMIT_BAL'' of None \<Rightarrow> 0 | Some special \<Rightarrow> length special)"
    by (simp add: example_DecisionTreeBucketer_5_def)
  have b: "map_of (dt_specials ?self) ''LIMIT_BAL'' = None \<or> 1 < dt_max_n_bins ?self - int 1"
    by (simp add: example_DecisionTreeBucketer_5_def)
  have c1: "get_column ?X1 ''LIMIT_BAL'' = Inr [Some 10000, Some 400000]"
    by (simp add: get_column_def)
  have c2: "get_column ?X2 ''LIMIT_BAL'' = Inr [Some 400000, Some 400000]"
    by (simp add: get_column_def)
  have r1: "0 < shape0 ?X1" and r2: "0 < shape0 ?X2"
    by (simp_all add: shape0_def)
  have f1: "(1 / 2 :: real) = real (length (normal_values (dt_specials ?self) ''LIMIT_BAL'' [Some 10000, Some 400000]))
              / real (shape0 ?X1)"
    by (simp add: n1 shape0_def)
  have f2: "(0 :: real) = real (length (normal_values (dt_specials ?self) ''LIMIT_BAL'' [Some 400000, Some 400000]))
              / real (shape0 ?X2)"
    by (simp add: n2 shape0_def)
  note t1 = DecisionTreeBucketer_tree_constraints [where rep = example_reporting and tree = example_tree
      and y = None and s = unfitted, OF c1 r1 k b f1]
  note t2 = DecisionTreeBucketer_tree_constraints [where rep = example_reporting and tree = example_tree
      and y = None and s = unfitted, OF c2 r2 k b f2]
  from t1 have "DecisionTreeBucketer_fit_feature example_reporting example_tree ?self ?X1 None ''LIMIT_BAL'' unfitted
      = finish_feature example_reporting (dt_missing_treatment ?self) ?X1 None ''LIMIT_BAL''
          (\<lambda>mb. \<lparr>feature_name = ''LIMIT_BAL'', type = ''numerical'', bmap = Boundaries [], right = False,
                 bm_specials = [(''=400000.0'', [400000])], missing_bucket = mb\<rparr>)
          (unfitted\<lparr>binners := [(''LIMIT_BAL'',
              \<lparr>max_leaf_nodes = 4, min_samples_leaf = 1 / 2, random_state = 42\<rparr>)]\<rparr>)"
    unfolding n1 by (simp add: Let_def example_tree_def snd_split_specials example_DecisionTreeBucketer_5_def unfitted_def)
  moreover from t2 have "DecisionTreeBucketer_fit_feature example_reporting example_tree ?self ?X2 None ''LIMIT_BAL'' unfitted
      = finish_feature example_reporting (dt_missing_treatment ?self) ?X2 None ''LIMIT_BAL''
          (\<lambda>mb. \<lparr>feature_name = ''LIMIT_BAL'', type = ''numerical'', bmap = Boundaries [], right = False,
                 bm_specials = [(''=400000.0'', [400000])], missing_bucket = mb\<rparr>)
          unfitted"
    unfolding n2 by (simp add: snd_split_specials example_DecisionTreeBucketer_5_def)
  ultimately show ?thesis
    by (simp add: finish_feature_def Let_def example_DecisionTreeBucketer_5_def unfitted_def)
qed

section \<open>The quantile fallback\<close>

text \<open>
  Claim C8. When the quantile cut refuses the requested number of bins with a
  \<^verbatim>\<open>ValueError\<close> and succeeds once duplicate edges are dropped, the loop body of
  \<open>EqualFrequencyBucketer\<close> does not fail with that error: it issues the approximation
  warning and goes on to build the mapping from the inner edges of the fewer quantile
  boundaries. Every successful result carries the warning and such a mapping; unless the
  missing treatment is \<^verbatim>\<open>"most_frequent"\<close> (whose table lookup may fail), the
  result is successful.
\<close>
theorem EqualFrequencyBucketer_quantile_fallback:
  assumes "get_column X feature = Inr col"
    and "qcut (fst (fst (split_specials (ef_specials self) feature col y))) (ef_n_bins self) Raise
           = Inl (ValueError m)"
    and "qcut (fst (fst (split_specials (ef_specials self) feature col y))) (ef_n_bins self) Drop
           = Inr boundaries"
  shows "EqualFrequencyBucketer_fit_feature rep qcut self X y feature s =
           finish_feature rep (ef_missing_treatment self) X y feature
             (\<lambda>mb. \<lparr>feature_name = feature, type = ''numerical'',
                    bmap = Boundaries (inner_edges boundaries), right = True,
                    bm_specials = snd (split_specials (ef_specials self) feature col y),
                    missing_bucket = mb\<rparr>)
             (s\<lparr>warnings := warnings s @ [ApproximationWarning ''Approximated quantiles - too many unique values'']\<rparr>)
       \<and> (\<forall>s'. EqualFrequencyBucketer_fit_feature rep qcut self X y feature s = Inr s' \<longrightarrow>
             warnings s' = warnings s @ [ApproximationWarning ''Approximated quantiles - too many unique values'']
             \<and> (\<exists>bm. map_of (features_bucket_mapping' s') feature = Some bm
                    \<and> bmap bm = Boundaries (inner_edges boundaries)))
       \<and> (ef_missing_treatment self \<noteq> MostFrequent \<longrightarrow>
             (\<exists>s'. EqualFrequencyBucketer_fit_feature rep qcut self X y feature s = Inr s'))"
proof -
  let ?mapping = "\<lambda>mb. \<lparr>feature_name = feature, type = ''numerical'',
                    bmap = Boundaries (inner_edges boundaries), right = True,
                    bm_specials = snd (split_specials (ef_specials self) feature col y),
                    missing_bucket = mb\<rparr>"
  let ?s = "s\<lparr>warnings := warnings s @ [ApproximationWarning ''Approximated quantiles - too many unique values'']\<rparr>"
  have eq: "EqualFrequencyBucketer_fit_feature rep qcut self X y feature s =
           finish_feature rep (ef_missing_treatment self) X y feature ?mapping ?s"
    using assms by (simp add: EqualFrequencyBucketer_fit_feature_def Let_def)
  have "warnings s' = warnings s @ [ApproximationWarning ''Approximated quantiles - too many unique values'']
             \<and> (\<exists>bm. map_of (features_bucket_mapping' s') feature = Some bm
                    \<and> bmap bm = Boundaries (inner_edges boundaries))"
    if "EqualFrequencyBucketer_fit_feature rep qcut self X y feature s = Inr s'" for s'
  proof -
    from that eq have f: "finish_feature rep (ef_missing_treatment self) X y feature ?mapping ?s = Inr s'"
      by simp
    from finish_feature_keeps [OF f] finish_feature_mapping [OF f] show ?thesis
      by auto
  qed
  moreover have "\<exists>s'. EqualFrequencyBucketer_fit_feature rep qcut self X y feature s = Inr s'"
    if "ef_missing_treatment self \<noteq> MostFrequent"
    unfolding eq using that by (rule finish_feature_returns)
  ultimately show ?thesis
    using eq by blast
qed

theorem EqualFrequencyBucketer_quantile_fallback_witness:
  "(case EqualFrequencyBucketer_fit_feature example_reporting example_qcut example_EqualFrequencyBucketer
           [(''x'', example_column_duplicates)] None ''x'' unfitted of
      Inl e \<Rightarrow> False
    | Inr s' \<Rightarrow>
        warnings s' = [ApproximationWarning ''Approximated quantiles - too many unique values'']
        \<and> map (\<lambda>m. bmap (snd m)) (features_bucket_mapping' s') = [Boundaries [2]])"
proof -
  let ?X = "[(''x'', example_column_duplicates)]"
  have c: "get_column ?X ''x'' = Inr example_column_duplicates"
    by (simp add: get_column_def)
  have sp: "fst (fst (split_specials (ef_specials example_EqualFrequencyBucketer) ''x'' example_column_duplicates None))
              = example_column_duplicates"
    by (simp add: split_specials_def example_EqualFrequencyBucketer_def)
  have n: "ef_n_bins example_EqualFrequencyBucketer = 4"
    by (simp add: example_EqualFrequencyBucketer_def)
  have r: "example_qcut (fst (fst (split_specials (ef_specials example_EqualFrequencyBucketer) ''x'' example_column_duplicates None)))
              (ef_n_bins example_EqualFrequencyBucketer) Raise = Inl (ValueError ''Bin edges must be unique'')"
    unfolding sp n by (rule example_qcut_Raise)
  have d: "example_qcut (fst (fst (split_specials (ef_specials example_EqualFrequencyBucketer) ''x'' example_column_duplicates None)))
              (ef_n_bins example_EqualFrequencyBucketer) Drop = Inr [1, 2, 3]"
    unfolding sp n by (rule example_qcut_Drop)
  note t = EqualFrequencyBucketer_quantile_fallback [where rep = example_reporting and s = unfitted
      and qcut = example_qcut and self = example_EqualFrequencyBucketer and X = ?X and y = None
      and feature = "''x''" and col = example_column_duplicates, OF c r d]
  from t have "EqualFrequencyBucketer_fit_feature example_reporting example_qcut example_EqualFrequencyBucketer
           ?X None ''x'' unfitted =
         finish_feature example_reporting Separate ?X None ''x''
             (\<lambda>mb. \<lparr>feature_name = ''x'', type = ''numerical'',
                    bmap = Boundaries [2], right = True,
                    bm_specials = [],
                    missing_bucket = mb\<rparr>)
             (unfitted\<lparr>warnings := [ApproximationWarning ''Approximated quantiles - too many unique values'']\<rparr>)"
    by (simp add: example_EqualFrequencyBucketer_def inner_edges_def split_specials_def unfitted_def)
  then show ?thesis
    by (simp add: finish_feature_def Let_def unfitted_def)
qed

section \<open>The boundaries between clusters\<close>

text \<open>
  Claim C9. The clustering returns one label for each normal value and \<open>n\<close>
  different labels, \<open>n\<close> being the number of clusters asked for. Then the boundary
  sequence of the fitted mapping has \<open>n - 1\<close> entries. If \<open>cs\<close> lists the clusters in
  sorted value order, the maximum of each cluster lying below the minimum of the next
  one, the \<open>i\<close>-th boundary is the arithmetic mean of the maximum of cluster \<open>cs ! i\<close>
  and the minimum of cluster \<open>cs ! (i + 1)\<close>. Renaming the labels by an injective
  function does not change the boundaries.
\<close>
theorem AgglomerativeClusteringBucketer_boundaries:
  assumes "get_column X feature = Inr col"
    and "xs = normal_values (ac_specials self) feature col"
    and "clustering \<lparr>n_clusters = ac_n_bins self\<rparr> xs = Inr labs"
    and "length labs = length xs"
    and "card (set labs) = ac_n_bins self"
  shows "AgglomerativeClusteringBucketer_fit_feature rep clustering self X y feature s =
           finish_feature rep (ac_missing_treatment self) X y feature
             (\<lambda>mb. \<lparr>feature_name = feature, type = ''numerical'',
                    bmap = Boundaries (cluster_boundaries xs labs), right = True,
                    bm_specials = snd (split_specials (ac_specials self) feature col y),
                    missing_bucket = mb\<rparr>)
             (s\<lparr>binners := AList.update feature \<lparr>n_clusters = ac_n_bins self\<rparr> (binners s)\<rparr>)
       \<and> length (cluster_boundaries xs labs) = ac_n_bins self - 1
       \<and> (\<forall>cs. distinct cs \<and> set cs = set labs
                 \<and> (\<forall>i. Suc i < length cs \<longrightarrow>
                        Max (set (cluster_values (zip xs labs) (cs ! i)))
                          < Min (set (cluster_values (zip xs labs) (cs ! Suc i))))
             \<longrightarrow> cluster_boundaries xs labs =
                   map (\<lambda>i. (Max (set (cluster_values (zip xs labs) (cs ! i)))
                              + Min (set (cluster_values (zip xs labs) (cs ! Suc i)))) / 2)
                       [0..<ac_n_bins self - 1])
       \<and> (\<forall>f. inj_on f (set labs) \<longrightarrow> cluster_boundaries xs (map f labs) = cluster_boundaries xs labs)"
proof -
  have fit: "AgglomerativeClusteringBucketer_fit_feature rep clustering self X y feature s =
           finish_feature rep (ac_missing_treatment self) X y feature
             (\<lambda>mb. \<lparr>feature_name = feature, type = ''numerical'',
                    bmap = Boundaries (cluster_boundaries xs labs), right = True,
                    bm_specials = snd (split_specials (ac_specials self) feature col y),
                    missing_bucket = mb\<rparr>)
             (s\<lparr>binners := AList.update feature \<lparr>n_clusters = ac_n_bins self\<rparr> (binners s)\<rparr>)"
    unfolding AgglomerativeClusteringBucketer_fit_feature_def
    using assms(3,4)
    by (simp only: Let_def assms(1) sum.case fitted_values_normal assms(2) [symmetric])
      simp
  have len: "length (cluster_boundaries xs labs) = ac_n_bins self - 1"
    using length_cluster_boundaries [OF assms(4)] assms(5) by simp
  have ord: "cluster_boundaries xs labs =
                   map (\<lambda>i. (Max (set (cluster_values (zip xs labs) (cs ! i)))
                              + Min (set (cluster_values (zip xs labs) (cs ! Suc i)))) / 2)
                       [0..<ac_n_bins self - 1]"
    if "distinct cs \<and> set cs = set labs
                 \<and> (\<forall>i. Suc i < length cs \<longrightarrow>
                        Max (set (cluster_values (zip xs labs) (cs ! i)))
                          < Min (set (cluster_values (zip xs labs) (cs ! Suc i))))" for cs
  proof -
    from that have d: "distinct cs" and e: "set cs = set labs"
      and c: "\<forall>i. Suc i < length cs \<longrightarrow>
                        Max (set (cluster_values (zip xs labs) (cs ! i)))
                          < Min (set (cluster_values (zip xs labs) (cs ! Suc i)))"
      by simp_all
    have "length cs = ac_n_bins self"
      using distinct_card [OF d] e assms(5) by simp
    with cluster_boundaries_ordered [OF assms(4) d e c] show ?thesis
      by simp
  qed
  have rel: "cluster_boundaries xs (map f labs) = cluster_boundaries xs labs" if "inj_on f (set labs)" for f
    using assms(4) that by (rule cluster_boundaries_relabel)
  from fit len ord rel show ?thesis
    by blast
qed

theorem AgglomerativeClusteringBucketer_boundaries_witness:
  "(case AgglomerativeClusteringBucketer_fit_feature example_reporting example_clustering
           example_AgglomerativeClusteringBucketer [(''x'', example_column_clusters)] None ''x'' unfitted of
      Inl e \<Rightarrow> False
    | Inr s' \<Rightarrow> map (\<lambda>m. bmap (snd m)) (features_bucket_mapping' s') = [Boundaries [6, 16]])"
proof -
  let ?self = example_AgglomerativeClusteringBucketer
  let ?X = "[(''x'', example_column_clusters)]"
  let ?xs = "[10, 1, 12, 2, 20] :: real list"
  let ?labs = "[2, 0, 2, 0, 1] :: nat list"
  let ?cs = "[0, 2, 1] :: nat list"
  have c: "get_column ?X ''x'' = Inr example_column_clusters"
    by (simp add: get_column_def)
  have x: "?xs = normal_values (ac_specials ?self) ''x'' example_column_clusters"
    by (simp add: example_normal_values_clusters)
  have cl: "example_clustering \<lparr>n_clusters = ac_n_bins ?self\<rparr> ?xs = Inr ?labs"
    by (simp add: example_clustering_def)
  have len: "length ?labs = length ?xs"
    by simp
  have card: "card (set ?labs) = ac_n_bins ?self"
    unfolding card_set by (simp add: example_AgglomerativeClusteringBucketer_def)
  note t = AgglomerativeClusteringBucketer_boundaries [where rep = example_reporting
      and clustering = example_clustering and self = ?self and X = ?X and y = None and feature = "''x''"
      and col = example_column_clusters and xs = ?xs and labs = ?labs and s = unfitted,
      OF c x cl len card]
  have chain: "\<forall>i. Suc i < length ?cs \<longrightarrow>
                 Max (set (cluster_values (zip ?xs ?labs) (?cs ! i)))
                   < Min (set (cluster_values (zip ?xs ?labs) (?cs ! Suc i)))"
  proof (intro allI impI)
    fix i assume "Suc i < length ?cs"
    then have "i = 0 \<or> i = 1" by auto
    then show "Max (set (cluster_values (zip ?xs ?labs) (?cs ! i)))
                   < Min (set (cluster_values (zip ?xs ?labs) (?cs ! Suc i)))"
      by (auto simp add: example_cluster_values)
  qed
  have cs: "distinct ?cs \<and> set ?cs = set ?labs \<and> (\<forall>i. Suc i < length ?cs \<longrightarrow>
                 Max (set (cluster_values (zip ?xs ?labs) (?cs ! i)))
                   < Min (set (cluster_values (zip ?xs ?labs) (?cs ! Suc i))))"
    using chain by auto
  from t cs have "cluster_boundaries ?xs ?labs =
      map (\<lambda>i. (Max (set (cluster_values (zip ?xs ?labs) (?cs ! i)))
                 + Min (set (cluster_values (zip ?xs ?labs) (?cs ! Suc i)))) / 2)
          [0..<ac_n_bins ?self - 1]"
    by blast
  also have "\<dots> = [6, 16]"
    by (simp add: example_AgglomerativeClusteringBucketer_def upt_rec example_cluster_values)
  finally have b: "cluster_boundaries ?xs ?labs = [6, 16]" .
  note f = t [THEN conjunct1]
  from f show ?thesis
    unfolding b
    by (simp add: finish_feature_def Let_def example_AgglomerativeClusteringBucketer_def unfitted_def)
qed

section \<open>The most frequent bucket for missing values\<close>

text \<open>
  Claim C3, as amended. For each of the eight bucketers, the loop body under
  \<^verbatim>\<open>missing_treatment="most_frequent"\<close> is the loop body under
  \<^verbatim>\<open>"separate"\<close> followed by the re-derivation of the missing bucket. If the first
  fails, so does the second, with the same error. If the first returns \<open>s1\<close>, it has
  stored a mapping \<open>bm\<close> without missing bucket for the feature and the table built from
  it, by one call of \<^verbatim>\<open>build_bucket_table\<close>; the second then takes the missing
  bucket from that table sorted by descending count, stores \<open>bm\<close> with that missing
  bucket and the table built from it by one more call, and changes nothing else. The
  missing bucket is the bucket id of the first row of the sorted table, or of the second
  row when the first is labelled \<^verbatim>\<open>"Missing"\<close>; the fit raises when the sorted table
  is empty, or when its only row is labelled \<^verbatim>\<open>"Missing"\<close>. When the sort is a
  rearrangement of the table in descending order of count and at most one row is labelled
  \<^verbatim>\<open>"Missing"\<close>, that bucket id is the one of a row of highest count among the rows
  that are not labelled \<^verbatim>\<open>"Missing"\<close>.
\<close>
theorem most_frequent_missing_bucket:
  "(most_frequent_bucket sorted_table =
     (if sorted_table = [] then Inl (IndexError ''single positional indexer is out-of-bounds'')
      else if label (sorted_table ! 0) \<noteq> ''Missing'' then Inr (bucket_id (sorted_table ! 0))
      else if length sorted_table < 2 then Inl (KeyError ''1'')
      else Inr (bucket_id (sorted_table ! 1))))
   \<and> (mset sorted_table = mset tab \<and> sorted_wrt (\<lambda>r r'. Count r' \<le> Count r) sorted_table
        \<and> length (filter (\<lambda>r. label r = ''Missing'') tab) \<le> 1
        \<and> most_frequent_bucket sorted_table = Inr b
      \<longrightarrow> (\<exists>r\<in>set tab. label r \<noteq> ''Missing'' \<and> bucket_id r = b
             \<and> (\<forall>r'\<in>set tab. label r' \<noteq> ''Missing'' \<longrightarrow> Count r' \<le> Count r)))
   \<and> (\<forall>s1. OptimalBucketer_fit_feature rep_ob opt (self_ob\<lparr>ob_missing_treatment := Separate\<rparr>) X_ob y feature s_ob = Inr s1 \<longrightarrow>
       (\<exists>bm. missing_bucket bm = None
          \<and> map_of (features_bucket_mapping' s1) feature = Some bm
          \<and> map_of (bucket_tables' s1) feature = Some (build_bucket_table rep_ob X_ob y feature bm)
          \<and> bucket_table_calls s1 = bucket_table_calls s_ob @ [(feature, bm)]
          \<and> OptimalBucketer_fit_feature rep_ob opt (self_ob\<lparr>ob_missing_treatment := MostFrequent\<rparr>) X_ob y feature s_ob =
              (case most_frequent_bucket
                      (sort_values_Count_descending rep_ob (build_bucket_table rep_ob X_ob y feature bm)) of
                 Inl e \<Rightarrow> Inl e
               | Inr b \<Rightarrow>
                   Inr (s1\<lparr>features_bucket_mapping' :=
                              AList.update feature (bm\<lparr>missing_bucket := Some b\<rparr>) (features_bucket_mapping' s1),
                           bucket_tables' :=
                              AList.update feature
                                (build_bucket_table rep_ob X_ob y feature (bm\<lparr>missing_bucket := Some b\<rparr>))
                                (bucket_tables' s1),
                           bucket_table_calls :=
                              bucket_table_calls s1 @ [(feature, bm\<lparr>missing_bucket := Some b\<rparr>)]\<rparr>))))
   \<and> (\<forall>e. OptimalBucketer_fit_feature rep_ob opt (self_ob\<lparr>ob_missing_treatment := Separate\<rparr>) X_ob y feature s_ob = Inl e \<longrightarrow>
          OptimalBucketer_fit_feature rep_ob opt (self_ob\<lparr>ob_missing_treatment := MostFrequent\<rparr>) X_ob y feature s_ob = Inl e)
   \<and> (\<forall>s1. EqualWidthBucketer_fit_feature rep (self_ew\<lparr>ew_missing_treatment := Separate\<rparr>) X y feature s_ew = Inr s1 \<longrightarrow>
       (\<exists>bm. missing_bucket bm = None
          \<and> map_of (features_bucket_mapping' s1) feature = Some bm
          \<and> map_of (bucket_tables' s1) feature = Some (build_bucket_table rep X y feature bm)
          \<and> bucket_table_calls s1 = bucket_table_calls s_ew @ [(feature, bm)]
          \<and> EqualWidthBucketer_fit_feature rep (self_ew\<lparr>ew_missing_treatment := MostFrequent\<rparr>) X y feature s_ew =
              (case most_frequent_bucket
                      (sort_values_Count_descending rep (build_bucket_table rep X y feature bm)) of
                 Inl e \<Rightarrow> Inl e
               | Inr b \<Rightarrow>
                   Inr (s1\<lparr>features_bucket_mapping' :=
                              AList.update feature (bm\<lparr>missing_bucket := Some b\<rparr>) (features_bucket_mapping' s1),
                           bucket_tables' :=
                              AList.update feature
                                (build_bucket_table rep X y feature (bm\<lparr>missing_bucket := Some b\<rparr>))
                                (bucket_tables' s1),
                           bucket_table_calls :=
                              bucket_table_calls s1 @ [(feature, bm\<lparr>missing_bucket := Some b\<rparr>)]\<rparr>))))
   \<and> (\<forall>e. EqualWidthBucketer_fit_feature rep (self_ew\<lparr>ew_missing_treatment := Separate\<rparr>) X y feature s_ew = Inl e \<longrightarrow>
          EqualWidthBucketer_fit_feature rep (self_ew\<lparr>ew_missing_treatment := MostFrequent\<rparr>) X y feature s_ew = Inl e)
   \<and> (\<forall>s1. AgglomerativeClusteringBucketer_fit_feature rep clustering (self_ac\<lparr>ac_missing_treatment := Separate\<rparr>) X y feature s_ac = Inr s1 \<longrightarrow>
       (\<exists>bm. missing_bucket bm = None
          \<and> map_of (features_bucket_mapping' s1) feature = Some bm
          \<and> map_of (bucket_tables' s1) feature = Some (build_bucket_table rep X y feature bm)
          \<and> bucket_table_calls s1 = bucket_table_calls s_ac @ [(feature, bm)]
          \<and> AgglomerativeClusteringBucketer_fit_feature rep clustering (self_ac\<lparr>ac_missing_treatment := MostFrequent\<rparr>) X y feature s_ac =
              (case most_frequent_bucket
                      (sort_values_Count_descending rep (build_bucket_table rep X y feature bm)) of
                 Inl e \<Rightarrow> Inl e
               | Inr b \<Rightarrow>
                   Inr (s1\<lparr>features_bucket_mapping' :=
                              AList.update feature (bm\<lparr>missing_bucket := Some b\<rparr>) (features_bucket_mapping' s1),
                           bucket_tables' :=
                              AList.update feature
                                (build_bucket_table rep X y feature (bm\<lparr>missing_bucket := Some b\<rparr>))
                                (bucket_tables' s1),
                           bucket_table_calls :=
                              bucket_table_calls s1 @ [(feature, bm\<lparr>missing_bucket := Some b\<rparr>)]\<rparr>))))
   \<and> (\<forall>e. AgglomerativeClusteringBucketer_fit_feature rep clustering (self_ac\<lparr>ac_missing_treatment := Separate\<rparr>) X y feature s_ac = Inl e \<longrightarrow>
          AgglomerativeClusteringBucketer_fit_feature rep clustering (self_ac\<lparr>ac_missing_treatment := MostFrequent\<rparr>) X y feature s_ac = Inl e)
   \<and> (\<forall>s1. EqualFrequencyBucketer_fit_feature rep qcut (self_ef\<lparr>ef_missing_treatment := Separate\<rparr>) X y feature s_ef = Inr s1 \<longrightarrow>
       (\<exists>bm. missing_bucket bm = None
          \<and> map_of (features_bucket_mapping' s1) feature = Some bm
          \<and> map_of (bucket_tables' s1) feature = Some (build_bucket_table rep X y feature bm)
          \<and> bucket_table_calls s1 = bucket_table_calls s_ef @ [(feature, bm)]
          \<and> EqualFrequencyBucketer_fit_feature rep qcut (self_ef\<lparr>ef_missing_treatment := MostFrequent\<rparr>) X y feature s_ef =
              (case most_frequent_bucket
                      (sort_values_Count_descending rep (build_bucket_table rep X y feature bm)) of
                 Inl e \<Rightarrow> Inl e
               | Inr b \<Rightarrow>
                   Inr (s1\<lparr>features_bucket_mapping' :=
                              AList.update feature (bm\<lparr>missing_bucket := Some b\<rparr>) (features_bucket_mapping' s1),
                           bucket_tables' :=
                              AList.update feature
                                (build_bucket_table rep X y feature (bm\<lparr>missing_bucket := Some b\<rparr>))
                                (bucket_tables' s1),
                           bucket_table_calls :=
                              bucket_table_calls s1 @ [(feature, bm\<lparr>missing_bucket := Some b\<rparr>)]\<rparr>))))
   \<and> (\<forall>e. EqualFrequencyBucketer_fit_feature rep qcut (self_ef\<lparr>ef_missing_treatment := Separate\<rparr>) X y feature s_ef = Inl e \<longrightarrow>
          EqualFrequencyBucketer_fit_feature rep qcut (self_ef\<lparr>ef_missing_treatment := MostFrequent\<rparr>) X y feature s_ef = Inl e)
   \<and> (\<forall>s1. DecisionTreeBucketer_fit_feature rep tree (self_dt\<lparr>dt_missing_treatment := Separate\<rparr>) X y feature s_dt = Inr s1 \<longrightarrow>
       (\<exists>bm. missing_bucket bm = None
          \<and> map_of (features_bucket_mapping' s1) feature = Some bm
          \<and> map_of (bucket_tables' s1) feature = Some (build_bucket_table rep X y feature bm)
          \<and> bucket_table_calls s1 = bucket_table_calls s_dt @ [(feature, bm)]
          \<and> DecisionTreeBucketer_fit_feature rep tree (self_dt\<lparr>dt_missing_treatment := MostFrequent\<rparr>) X y feature s_dt =
              (case most_frequent_bucket
                      (sort_values_Count_descending rep (build_bucket_table rep X y feature bm)) of
                 Inl e \<Rightarrow> Inl e
               | Inr b \<Rightarrow>
                   Inr (s1\<lparr>features_bucket_mapping' :=
                              AList.update feature (bm\<lparr>missing_bucket := Some b\<rparr>) (features_bucket_mapping' s1),
                           bucket_tables' :=
                              AList.update feature
                                (build_bucket_table rep X y feature (bm\<lparr>missing_bucket := Some b\<rparr>))
                                (bucket_tables' s1),
                           bucket_table_calls :=
                              bucket_table_calls s1 @ [(feature, bm\<lparr>missing_bucket := Some b\<rparr>)]\<rparr>))))
   \<and> (\<forall>e. DecisionTreeBucketer_fit_feature rep tree (self_dt\<lparr>dt_missing_treatment := Separate\<rparr>) X y feature s_dt = Inl e \<longrightarrow>
          DecisionTreeBucketer_fit_feature rep tree (self_dt\<lparr>dt_missing_treatment := MostFrequent\<rparr>) X y feature s_dt = Inl e)
   \<and> (\<forall>s1. OrdinalCategoricalBucketer_fit_feature rep_oc pd (self_oc\<lparr>oc_missing_treatment := Separate\<rparr>) X_oc y feature s_oc = Inr s1 \<longrightarrow>
       (\<exists>bm. missing_bucket bm = None
          \<and> map_of (features_bucket_mapping' s1) feature = Some bm
          \<and> map_of (bucket_tables' s1) feature = Some (build_bucket_table rep_oc X_oc y feature bm)
          \<and> bucket_table_calls s1 = bucket_table_calls s_oc @ [(feature, bm)]
          \<and> OrdinalCategoricalBucketer_fit_feature rep_oc pd (self_oc\<lparr>oc_missing_treatment := MostFrequent\<rparr>) X_oc y feature s_oc =
              (case most_frequent_bucket
                      (sort_values_Count_descending rep_oc (build_bucket_table rep_oc X_oc y feature bm)) of
                 Inl e \<Rightarrow> Inl e
               | Inr b \<Rightarrow>
                   Inr (s1\<lparr>features_bucket_mapping' :=
                              AList.update feature (bm\<lparr>missing_bucket := Some b\<rparr>) (features_bucket_mapping' s1),
                           bucket_tables' :=
                              AList.update feature
                                (build_bucket_table rep_oc X_oc y feature (bm\<lparr>missing_bucket := Some b\<rparr>))
                                (bucket_tables' s1),
                           bucket_table_calls :=
                              bucket_table_calls s1 @ [(feature, bm\<lparr>missing_bucket := Some b\<rparr>)]\<rparr>))))
   \<and> (\<forall>e. OrdinalCategoricalBucketer_fit_feature rep_oc pd (self_oc\<lparr>oc_missing_treatment := Separate\<rparr>) X_oc y feature s_oc = Inl e \<longrightarrow>
          OrdinalCategoricalBucketer_fit_feature rep_oc pd (self_oc\<lparr>oc_missing_treatment := MostFrequent\<rparr>) X_oc y feature s_oc = Inl e)
   \<and> (\<forall>s1. AsIsCategoricalBucketer_fit_feature rep_aic (self_aic\<lparr>aic_missing_treatment := Separate\<rparr>) X_aic y feature s_aic = Inr s1 \<longrightarrow>
       (\<exists>bm. missing_bucket bm = None
          \<and> map_of (features_bucket_mapping' s1) feature = Some bm
          \<and> map_of (bucket_tables' s1) feature = Some (build_bucket_table rep_aic X_aic y feature bm)
          \<and> bucket_table_calls s1 = bucket_table_calls s_aic @ [(feature, bm)]
          \<and> AsIsCategoricalBucketer_fit_feature rep_aic (self_aic\<lparr>aic_missing_treatment := MostFrequent\<rparr>) X_aic y feature s_aic =
              (case most_frequent_bucket
                      (sort_values_Count_descending rep_aic (build_bucket_table rep_aic X_aic y feature bm)) of
                 Inl e \<Rightarrow> Inl e
               | Inr b \<Rightarrow>
                   Inr (s1\<lparr>features_bucket_mapping' :=
                              AList.update feature (bm\<lparr>missing_bucket := Some b\<rparr>) (features_bucket_mapping' s1),
                           bucket_tables' :=
                              AList.update feature
                                (build_bucket_table rep_aic X_aic y feature (bm\<lparr>missing_bucket := Some b\<rparr>))
                                (bucket_tables' s1),
                           bucket_table_calls :=
                              bucket_table_calls s1 @ [(feature, bm\<lparr>missing_bucket := Some b\<rparr>)]\<rparr>))))
   \<and> (\<forall>e. AsIsCategoricalBucketer_fit_feature rep_aic (self_aic\<lparr>aic_missing_treatment := Separate\<rparr>) X_aic y feature s_aic = Inl e \<longrightarrow>
          AsIsCategoricalBucketer_fit_feature rep_aic (self_aic\<lparr>aic_missing_treatment := MostFrequent\<rparr>) X_aic y feature s_aic = Inl e)
   \<and> (\<forall>s1. AsIsNumericalBucketer_fit_feature rep_an nan (self_an\<lparr>an_missing_treatment := Separate\<rparr>) X_an y feature s_an = Inr s1 \<longrightarrow>
       (\<exists>bm. missing_bucket bm = None
          \<and> map_of (features_bucket_mapping' s1) feature = Some bm
          \<and> map_of (bucket_tables' s1) feature = Some (build_bucket_table rep_an X_an y feature bm)
          \<and> bucket_table_calls s1 = bucket_table_calls s_an @ [(feature, bm)]
          \<and> AsIsNumericalBucketer_fit_feature rep_an nan (self_an\<lparr>an_missing_treatment := MostFrequent\<rparr>) X_an y feature s_an =
              (case most_frequent_bucket
                      (sort_values_Count_descending rep_an (build_bucket_table rep_an X_an y feature bm)) of
                 Inl e \<Rightarrow> Inl e
               | Inr b \<Rightarrow>
                   Inr (s1\<lparr>features_bucket_mapping' :=
                              AList.update feature (bm\<lparr>missing_bucket := Some b\<rparr>) (features_bucket_mapping' s1),
                           bucket_tables' :=
                              AList.update feature
                                (build_bucket_table rep_an X_an y feature (bm\<lparr>missing_bucket := Some b\<rparr>))
                                (bucket_tables' s1),
                           bucket_table_calls :=
                              bucket_table_calls s1 @ [(feature, bm\<lparr>missing_bucket := Some b\<rparr>)]\<rparr>))))
   \<and> (\<forall>e. AsIsNumericalBucketer_fit_feature rep_an nan (self_an\<lparr>an_missing_treatment := Separate\<rparr>) X_an y feature s_an = Inl e \<longrightarrow>
          AsIsNumericalBucketer_fit_feature rep_an nan (self_an\<lparr>an_missing_treatment := MostFrequent\<rparr>) X_an y feature s_an = Inl e)"
proof -
  note ob = most_frequent_refit [where f = "\<lambda>t. OptimalBucketer_fit_feature rep_ob opt (self_ob\<lparr>ob_missing_treatment := t\<rparr>) X_ob y feature s_ob"
      and rep = rep_ob and X = X_ob and y = y and feature = feature and s = s_ob]
  note ew = most_frequent_refit [where f = "\<lambda>t. EqualWidthBucketer_fit_feature rep (self_ew\<lparr>ew_missing_treatment := t\<rparr>) X y feature s_ew"
      and rep = rep and X = X and y = y and feature = feature and s = s_ew]
  note ac = most_frequent_refit [where f = "\<lambda>t. AgglomerativeClusteringBucketer_fit_feature rep clustering (self_ac\<lparr>ac_missing_treatment := t\<rparr>) X y feature s_ac"
      and rep = rep and X = X and y = y and feature = feature and s = s_ac]
  note ef = most_frequent_refit [where f = "\<lambda>t. EqualFrequencyBucketer_fit_feature rep qcut (self_ef\<lparr>ef_missing_treatment := t\<rparr>) X y feature s_ef"
      and rep = rep and X = X and y = y and feature = feature and s = s_ef]
  note dt = most_frequent_refit [where f = "\<lambda>t. DecisionTreeBucketer_fit_feature rep tree (self_dt\<lparr>dt_missing_treatment := t\<rparr>) X y feature s_dt"
      and rep = rep and X = X and y = y and feature = feature and s = s_dt]
  note oc = most_frequent_refit [where f = "\<lambda>t. OrdinalCategoricalBucketer_fit_feature rep_oc pd (self_oc\<lparr>oc_missing_treatment := t\<rparr>) X_oc y feature s_oc"
      and rep = rep_oc and X = X_oc and y = y and feature = feature and s = s_oc]
  note aic = most_frequent_refit [where f = "\<lambda>t. AsIsCategoricalBucketer_fit_feature rep_aic (self_aic\<lparr>aic_missing_treatment := t\<rparr>) X_aic y feature s_aic"
      and rep = rep_aic and X = X_aic and y = y and feature = feature and s = s_aic]
  note an = most_frequent_refit [where f = "\<lambda>t. AsIsNumericalBucketer_fit_feature rep_an nan (self_an\<lparr>an_missing_treatment := t\<rparr>) X_an y feature s_an"
      and rep = rep_an and X = X_an and y = y and feature = feature and s = s_an]
  have highest: "mset sorted_table = mset tab \<and> sorted_wrt (\<lambda>r r'. Count r' \<le> Count r) sorted_table
        \<and> length (filter (\<lambda>r. label r = ''Missing'') tab) \<le> 1
        \<and> most_frequent_bucket sorted_table = Inr b
      \<longrightarrow> (\<exists>r\<in>set tab. label r \<noteq> ''Missing'' \<and> bucket_id r = b
             \<and> (\<forall>r'\<in>set tab. label r' \<noteq> ''Missing'' \<longrightarrow> Count r' \<le> Count r))"
    using most_frequent_bucket_highest [of sorted_table tab b] by blast
  show ?thesis
    apply (intro conjI)
    apply (rule most_frequent_bucket_rows)
    apply (rule highest)
    apply (rule ob [THEN conjunct1], erule OptimalBucketer_fit_feature_tail, erule OptimalBucketer_fit_feature_fails)
    apply (rule ob [THEN conjunct2], erule OptimalBucketer_fit_feature_tail, erule OptimalBucketer_fit_feature_fails)
    apply (rule ew [THEN conjunct1], erule EqualWidthBucketer_fit_feature_tail, erule EqualWidthBucketer_fit_feature_fails)
    apply (rule ew [THEN conjunct2], erule EqualWidthBucketer_fit_feature_tail, erule EqualWidthBucketer_fit_feature_fails)
    apply (rule ac [THEN conjunct1], erule AgglomerativeClusteringBucketer_fit_feature_tail, erule AgglomerativeClusteringBucketer_fit_feature_fails)
    apply (rule ac [THEN conjunct2], erule AgglomerativeClusteringBucketer_fit_feature_tail, erule AgglomerativeClusteringBucketer_fit_feature_fails)
    apply (rule ef [THEN conjunct1], erule EqualFrequencyBucketer_fit_feature_tail, erule EqualFrequencyBucketer_fit_feature_fails)
    apply (rule ef [THEN conjunct2], erule EqualFrequencyBucketer_fit_feature_tail, erule EqualFrequencyBucketer_fit_feature_fails)
    apply (rule dt [THEN conjunct1], erule DecisionTreeBucketer_fit_feature_tail, erule DecisionTreeBucketer_fit_feature_fails)
    apply (rule dt [THEN conjunct2], erule DecisionTreeBucketer_fit_feature_tail, erule DecisionTreeBucketer_fit_feature_fails)
    apply (rule oc [THEN conjunct1], erule OrdinalCategoricalBucketer_fit_feature_tail, erule OrdinalCategoricalBucketer_fit_feature_fails)
    apply (rule oc [THEN conjunct2], erule OrdinalCategoricalBucketer_fit_feature_tail, erule OrdinalCategoricalBucketer_fit_feature_fails)
    apply (rule aic [THEN conjunct1], erule AsIsCategoricalBucketer_fit_feature_tail, erule AsIsCategoricalBucketer_fit_feature_fails)
    apply (rule aic [THEN conjunct2], erule AsIsCategoricalBucketer_fit_feature_tail, erule AsIsCategoricalBucketer_fit_feature_fails)
    apply (rule an [THEN conjunct1], erule AsIsNumericalBucketer_fit_feature_tail, erule AsIsNumericalBucketer_fit_feature_fails)
    apply (rule an [THEN conjunct2], erule AsIsNumericalBucketer_fit_feature_tail, erule AsIsNumericalBucketer_fit_feature_fails)
    done
qed

theorem most_frequent_missing_bucket_witness:
  "(\<exists>r\<in>set example_table_missing_first. label r \<noteq> ''Missing'' \<and> bucket_id r = 0
      \<and> (\<forall>r'\<in>set example_table_missing_first. label r' \<noteq> ''Missing'' \<longrightarrow> Count r' \<le> Count r))
   \<and> (case OptimalBucketer_fit_feature example_reporting_missing_first example_optbinning (example_OptimalBucketer\<lparr>ob_missing_treatment := MostFrequent\<rparr>) [(''x'', example_column)] None ''x'' unfitted of
      Inl e \<Rightarrow> False
    | Inr s' \<Rightarrow>
        map (\<lambda>c. (fst c, missing_bucket (snd c))) (bucket_table_calls s') = [(''x'', None), (''x'', Some 0)]
        \<and> map_option missing_bucket (map_of (features_bucket_mapping' s') ''x'') = Some (Some 0))
   \<and> (case EqualWidthBucketer_fit_feature example_reporting_missing_first (example_EqualWidthBucketer\<lparr>ew_missing_treatment := MostFrequent\<rparr>) [(''x'', example_column)] None ''x'' unfitted of
      Inl e \<Rightarrow> False
    | Inr s' \<Rightarrow>
        map (\<lambda>c. (fst c, missing_bucket (snd c))) (bucket_table_calls s') = [(''x'', None), (''x'', Some 0)]
        \<and> map_option missing_bucket (map_of (features_bucket_mapping' s') ''x'') = Some (Some 0))
   \<and> (case AgglomerativeClusteringBucketer_fit_feature example_reporting_missing_first example_clustering (example_AgglomerativeClusteringBucketer\<lparr>ac_missing_treatment := MostFrequent\<rparr>) [(''x'', example_column_clusters)] None ''x'' unfitted of
      Inl e \<Rightarrow> False
    | Inr s' \<Rightarrow>
        map (\<lambda>c. (fst c, missing_bucket (snd c))) (bucket_table_calls s') = [(''x'', None), (''x'', Some 0)]
        \<and> map_option missing_bucket (map_of (features_bucket_mapping' s') ''x'') = Some (Some 0))
   \<and> (case EqualFrequencyBucketer_fit_feature example_reporting_missing_first example_qcut (example_EqualFrequencyBucketer\<lparr>ef_missing_treatment := MostFrequent\<rparr>) [(''x'', example_column_duplicates)] None ''x'' unfitted of
      Inl e \<Rightarrow> False
    | Inr s' \<Rightarrow>
        map (\<lambda>c. (fst c, missing_bucket (snd c))) (bucket_table_calls s') = [(''x'', None), (''x'', Some 0)]
        \<and> map_option missing_bucket (map_of (features_bucket_mapping' s') ''x'') = Some (Some 0))
   \<and> (case DecisionTreeBucketer_fit_feature example_reporting_missing_first example_tree (example_DecisionTreeBucketer_5\<lparr>dt_missing_treatment := MostFrequent\<rparr>) [(''LIMIT_BAL'', [Some 10000, Some 400000])] None ''LIMIT_BAL'' unfitted of
      Inl e \<Rightarrow> False
    | Inr s' \<Rightarrow>
        map (\<lambda>c. (fst c, missing_bucket (snd c))) (bucket_table_calls s') = [(''LIMIT_BAL'', None), (''LIMIT_BAL'', Some 0)]
        \<and> map_option missing_bucket (map_of (features_bucket_mapping' s') ''LIMIT_BAL'') = Some (Some 0))
   \<and> (case OrdinalCategoricalBucketer_fit_feature example_reporting_missing_first example_pandas_counts (example_OrdinalCategoricalBucketer\<lparr>oc_missing_treatment := MostFrequent\<rparr>) [(''x'', example_column_categories)] None ''x'' unfitted of
      Inl e \<Rightarrow> False
    | Inr s' \<Rightarrow>
        map (\<lambda>c. (fst c, missing_bucket (snd c))) (bucket_table_calls s') = [(''x'', None), (''x'', Some 0)]
        \<and> map_option missing_bucket (map_of (features_bucket_mapping' s') ''x'') = Some (Some 0))
   \<and> (case AsIsCategoricalBucketer_fit_feature example_reporting_missing_first (example_AsIsCategoricalBucketer\<lparr>aic_missing_treatment := MostFrequent\<rparr>) [(''x'', example_column_categories)] None ''x'' unfitted of
      Inl e \<Rightarrow> False
    | Inr s' \<Rightarrow>
        map (\<lambda>c. (fst c, missing_bucket (snd c))) (bucket_table_calls s') = [(''x'', None), (''x'', Some 0)]
        \<and> map_option missing_bucket (map_of (features_bucket_mapping' s') ''x'') = Some (Some 0))
   \<and> (case AsIsNumericalBucketer_fit_feature example_reporting_missing_first example_nan_boundaries (example_AsIsNumericalBucketer\<lparr>an_missing_treatment := MostFrequent\<rparr>) [(''x'', example_column)] None ''x'' unfitted of
      Inl e \<Rightarrow> False
    | Inr s' \<Rightarrow>
        map (\<lambda>c. (fst c, missing_bucket (snd c))) (bucket_table_calls s') = [(''x'', None), (''x'', Some 0)]
        \<and> map_option missing_bucket (map_of (features_bucket_mapping' s') ''x'') = Some (Some 0))"
proof -
  have srt: "sort_values_Count_descending example_reporting_missing_first example_table_missing_first =
      [\<lparr>bucket_id = - 1, label = ''Missing'', Count = 3\<rparr>,
       \<lparr>bucket_id = 0, label = ''(-inf, 25.0]'', Count = 2\<rparr>,
       \<lparr>bucket_id = 1, label = ''(25.0, inf]'', Count = 1\<rparr>]"
    by (simp add: example_reporting_missing_first_def example_table_missing_first_def)
  have h: "mset (sort_values_Count_descending example_reporting_missing_first example_table_missing_first)
             = mset example_table_missing_first
        \<and> sorted_wrt (\<lambda>r r'. Count r' \<le> Count r)
            (sort_values_Count_descending example_reporting_missing_first example_table_missing_first)
        \<and> length (filter (\<lambda>r. label r = ''Missing'') example_table_missing_first) \<le> 1
        \<and> most_frequent_bucket
            (sort_values_Count_descending example_reporting_missing_first example_table_missing_first) = Inr 0"
    unfolding srt by (simp add: example_table_missing_first_def most_frequent_bucket_def)
  note g = most_frequent_missing_bucket [where tab = example_table_missing_first and b = 0
      and sorted_table = "sort_values_Count_descending example_reporting_missing_first example_table_missing_first",
      THEN conjunct2, THEN conjunct1]
  from g h have w0: "\<exists>r\<in>set example_table_missing_first. label r \<noteq> ''Missing'' \<and> bucket_id r = 0
      \<and> (\<forall>r'\<in>set example_table_missing_first. label r' \<noteq> ''Missing'' \<longrightarrow> Count r' \<le> Count r)"
    by (rule mp)
  obtain s_ob where sep_ob: "OptimalBucketer_fit_feature example_reporting_missing_first example_optbinning (example_OptimalBucketer\<lparr>ob_missing_treatment := Separate\<rparr>) [(''x'', example_column)] None ''x'' unfitted = Inr s_ob"
    by (simp add: OptimalBucketer_fit_feature_def OptimalBucketer_binner_def example_OptimalBucketer_def example_optbinning_def example_column_def get_column_def split_specials_def
        filter_na_for_fit_def finish_feature_Separate Let_def)
  note t_ob = most_frequent_missing_bucket [where rep_ob = example_reporting_missing_first and opt = example_optbinning and self_ob = example_OptimalBucketer and X_ob = "[(''x'', example_column)]" and s_ob = unfitted
      and y = None and feature = "''x''", THEN conjunct2, THEN conjunct2, THEN conjunct1]
  have w_ob: "(case OptimalBucketer_fit_feature example_reporting_missing_first example_optbinning (example_OptimalBucketer\<lparr>ob_missing_treatment := MostFrequent\<rparr>) [(''x'', example_column)] None ''x'' unfitted of
      Inl e \<Rightarrow> False
    | Inr s' \<Rightarrow>
        map (\<lambda>c. (fst c, missing_bucket (snd c))) (bucket_table_calls s') = [(''x'', None), (''x'', Some 0)]
        \<and> map_option missing_bucket (map_of (features_bucket_mapping' s') ''x'') = Some (Some 0))"
    by (rule most_frequent_example [where f = "\<lambda>t. OptimalBucketer_fit_feature example_reporting_missing_first example_optbinning (example_OptimalBucketer\<lparr>ob_missing_treatment := t\<rparr>) [(''x'', example_column)] None ''x'' unfitted",
        where s = unfitted, OF sep_ob t_ob]) (simp add: unfitted_def)
  obtain s_ew where sep_ew: "EqualWidthBucketer_fit_feature example_reporting_missing_first (example_EqualWidthBucketer\<lparr>ew_missing_treatment := Separate\<rparr>) [(''x'', example_column)] None ''x'' unfitted = Inr s_ew"
    by (simp add: EqualWidthBucketer_fit_feature_def example_EqualWidthBucketer_def get_column_def split_specials_def
        filter_na_for_fit_def finish_feature_Separate Let_def)
  note t_ew = most_frequent_missing_bucket [where rep = example_reporting_missing_first and self_ew = example_EqualWidthBucketer and X = "[(''x'', example_column)]" and s_ew = unfitted
      and y = None and feature = "''x''", THEN conjunct2, THEN conjunct2, THEN conjunct2, THEN conjunct2, THEN conjunct1]
  have w_ew: "(case EqualWidthBucketer_fit_feature example_reporting_missing_first (example_EqualWidthBucketer\<lparr>ew_missing_treatment := MostFrequent\<rparr>) [(''x'', example_column)] None ''x'' unfitted of
      Inl e \<Rightarrow> False
    | Inr s' \<Rightarrow>
        map (\<lambda>c. (fst c, missing_bucket (snd c))) (bucket_table_calls s') = [(''x'', None), (''x'', Some 0)]
        \<and> map_option missing_bucket (map_of (features_bucket_mapping' s') ''x'') = Some (Some 0))"
    by (rule most_frequent_example [where f = "\<lambda>t. EqualWidthBucketer_fit_feature example_reporting_missing_first (example_EqualWidthBucketer\<lparr>ew_missing_treatment := t\<rparr>) [(''x'', example_column)] None ''x'' unfitted",
        where s = unfitted, OF sep_ew t_ew]) (simp add: unfitted_def)
  obtain s_ac where sep_ac: "AgglomerativeClusteringBucketer_fit_feature example_reporting_missing_first example_clustering (example_AgglomerativeClusteringBucketer\<lparr>ac_missing_treatment := Separate\<rparr>) [(''x'', example_column_clusters)] None ''x'' unfitted = Inr s_ac"
    by (simp add: AgglomerativeClusteringBucketer_fit_feature_def example_AgglomerativeClusteringBucketer_def example_clustering_def example_column_clusters_def get_column_def split_specials_def
        filter_na_for_fit_def finish_feature_Separate Let_def)
  note t_ac = most_frequent_missing_bucket [where rep = example_reporting_missing_first and clustering = example_clustering and self_ac = example_AgglomerativeClusteringBucketer and X = "[(''x'', example_column_clusters)]" and s_ac = unfitted
      and y = None and feature = "''x''", THEN conjunct2, THEN conjunct2, THEN conjunct2, THEN conjunct2, THEN conjunct2, THEN conjunct2, THEN conjunct1]
  have w_ac: "(case AgglomerativeClusteringBucketer_fit_feature example_reporting_missing_first example_clustering (example_AgglomerativeClusteringBucketer\<lparr>ac_missing_treatment := MostFrequent\<rparr>) [(''x'', example_column_clusters)] None ''x'' unfitted of
      Inl e \<Rightarrow> False
    | Inr s' \<Rightarrow>
        map (\<lambda>c. (fst c, missing_bucket (snd c))) (bucket_table_calls s') = [(''x'', None), (''x'', Some 0)]
        \<and> map_option missing_bucket (map_of (features_bucket_mapping' s') ''x'') = Some (Some 0))"
    by (rule most_frequent_example [where f = "\<lambda>t. AgglomerativeClusteringBucketer_fit_feature example_reporting_missing_first example_clustering (example_AgglomerativeClusteringBucketer\<lparr>ac_missing_treatment := t\<rparr>) [(''x'', example_column_clusters)] None ''x'' unfitted",
        where s = unfitted, OF sep_ac t_ac]) (simp add: unfitted_def)
  obtain s_ef where sep_ef: "EqualFrequencyBucketer_fit_feature example_reporting_missing_first example_qcut (example_EqualFrequencyBucketer\<lparr>ef_missing_treatment := Separate\<rparr>) [(''x'', example_column_duplicates)] None ''x'' unfitted = Inr s_ef"
    by (simp add: EqualFrequencyBucketer_fit_feature_def example_EqualFrequencyBucketer_def example_qcut_Raise example_qcut_Drop get_column_def split_specials_def
        filter_na_for_fit_def finish_feature_Separate Let_def)
  note t_ef = most_frequent_missing_bucket [where rep = example_reporting_missing_first and qcut = example_qcut and self_ef = example_EqualFrequencyBucketer and X = "[(''x'', example_column_duplicates)]" and s_ef = unfitted
      and y = None and feature = "''x''", THEN conjunct2, THEN conjunct2, THEN conjunct2, THEN conjunct2, THEN conjunct2, THEN conjunct2, THEN conjunct2, THEN conjunct2, THEN conjunct1]
  have w_ef: "(case EqualFrequencyBucketer_fit_feature example_reporting_missing_first example_qcut (example_EqualFrequencyBucketer\<lparr>ef_missing_treatment := MostFrequent\<rparr>) [(''x'', example_column_duplicates)] None ''x'' unfitted of
      Inl e \<Rightarrow> False
    | Inr s' \<Rightarrow>
        map (\<lambda>c. (fst c, missing_bucket (snd c))) (bucket_table_calls s') = [(''x'', None), (''x'', Some 0)]
        \<and> map_option missing_bucket (map_of (features_bucket_mapping' s') ''x'') = Some (Some 0))"
    by (rule most_frequent_example [where f = "\<lambda>t. EqualFrequencyBucketer_fit_feature example_reporting_missing_first example_qcut (example_EqualFrequencyBucketer\<lparr>ef_missing_treatment := t\<rparr>) [(''x'', example_column_duplicates)] None ''x'' unfitted",
        where s = unfitted, OF sep_ef t_ef]) (simp add: unfitted_def)
  obtain s_dt where sep_dt: "DecisionTreeBucketer_fit_feature example_reporting_missing_first example_tree (example_DecisionTreeBucketer_5\<lparr>dt_missing_treatment := Separate\<rparr>) [(''LIMIT_BAL'', [Some 10000, Some 400000])] None ''LIMIT_BAL'' unfitted = Inr s_dt"
    by (simp add: DecisionTreeBucketer_fit_feature_def example_DecisionTreeBucketer_5_def example_tree_def shape0_def special_values_def filter_specials_for_fit_def get_column_def split_specials_def
        filter_na_for_fit_def finish_feature_Separate Let_def)
  note t_dt = most_frequent_missing_bucket [where rep = example_reporting_missing_first and tree = example_tree and self_dt = example_DecisionTreeBucketer_5 and X = "[(''LIMIT_BAL'', [Some 10000, Some 400000])]" and s_dt = unfitted
      and y = None and feature = "''LIMIT_BAL''", THEN conjunct2, THEN conjunct2, THEN conjunct2, THEN conjunct2, THEN conjunct2, THEN conjunct2, THEN conjunct2, THEN conjunct2, THEN conjunct2, THEN conjunct2, THEN conjunct1]
  have w_dt: "(case DecisionTreeBucketer_fit_feature example_reporting_missing_first example_tree (example_DecisionTreeBucketer_5\<lparr>dt_missing_treatment := MostFrequent\<rparr>) [(''LIMIT_BAL'', [Some 10000, Some 400000])] None ''LIMIT_BAL'' unfitted of
      Inl e \<Rightarrow> False
    | Inr s' \<Rightarrow>
        map (\<lambda>c. (fst c, missing_bucket (snd c))) (bucket_table_calls s') = [(''LIMIT_BAL'', None), (''LIMIT_BAL'', Some 0)]
        \<and> map_option missing_bucket (map_of (features_bucket_mapping' s') ''LIMIT_BAL'') = Some (Some 0))"
    by (rule most_frequent_example [where f = "\<lambda>t. DecisionTreeBucketer_fit_feature example_reporting_missing_first example_tree (example_DecisionTreeBucketer_5\<lparr>dt_missing_treatment := t\<rparr>) [(''LIMIT_BAL'', [Some 10000, Some 400000])] None ''LIMIT_BAL'' unfitted",
        where s = unfitted, OF sep_dt t_dt]) (simp add: unfitted_def)
  obtain s_oc where sep_oc: "OrdinalCategoricalBucketer_fit_feature example_reporting_missing_first example_pandas_counts (example_OrdinalCategoricalBucketer\<lparr>oc_missing_treatment := Separate\<rparr>) [(''x'', example_column_categories)] None ''x'' unfitted = Inr s_oc"
    by (simp add: OrdinalCategoricalBucketer_fit_feature_def example_OrdinalCategoricalBucketer_def get_column_def split_specials_def
        filter_na_for_fit_def finish_feature_Separate Let_def)
  note t_oc = most_frequent_missing_bucket [where rep_oc = example_reporting_missing_first and pd = example_pandas_counts and self_oc = example_OrdinalCategoricalBucketer and X_oc = "[(''x'', example_column_categories)]" and s_oc = unfitted
      and y = None and feature = "''x''", THEN conjunct2, THEN conjunct2, THEN conjunct2, THEN conjunct2, THEN conjunct2, THEN conjunct2, THEN conjunct2, THEN conjunct2, THEN conjunct2, THEN conjunct2, THEN conjunct2, THEN conjunct2, THEN conjunct1]
  have w_oc: "(case OrdinalCategoricalBucketer_fit_feature example_reporting_missing_first example_pandas_counts (example_OrdinalCategoricalBucketer\<lparr>oc_missing_treatment := MostFrequent\<rparr>) [(''x'', example_column_categories)] None ''x'' unfitted of
      Inl e \<Rightarrow> False
    | Inr s' \<Rightarrow>
        map (\<lambda>c. (fst c, missing_bucket (snd c))) (bucket_table_calls s') = [(''x'', None), (''x'', Some 0)]
        \<and> map_option missing_bucket (map_of (features_bucket_mapping' s') ''x'') = Some (Some 0))"
    by (rule most_frequent_example [where f = "\<lambda>t. OrdinalCategoricalBucketer_fit_feature example_reporting_missing_first example_pandas_counts (example_OrdinalCategoricalBucketer\<lparr>oc_missing_treatment := t\<rparr>) [(''x'', example_column_categories)] None ''x'' unfitted",
        where s = unfitted, OF sep_oc t_oc]) (simp add: unfitted_def)
  obtain s_aic where sep_aic: "AsIsCategoricalBucketer_fit_feature example_reporting_missing_first (example_AsIsCategoricalBucketer\<lparr>aic_missing_treatment := Separate\<rparr>) [(''x'', example_column_categories)] None ''x'' unfitted = Inr s_aic"
    by (simp add: AsIsCategoricalBucketer_fit_feature_def example_AsIsCategoricalBucketer_def get_column_def split_specials_def
        filter_na_for_fit_def finish_feature_Separate Let_def)
  note t_aic = most_frequent_missing_bucket [where rep_aic = example_reporting_missing_first and self_aic = example_AsIsCategoricalBucketer and X_aic = "[(''x'', example_column_categories)]" and s_aic = unfitted
      and y = None and feature = "''x''", THEN conjunct2, THEN conjunct2, THEN conjunct2, THEN conjunct2, THEN conjunct2, THEN conjunct2, THEN conjunct2, THEN conjunct2, THEN conjunct2, THEN conjunct2, THEN conjunct2, THEN conjunct2, THEN conjunct2, THEN conjunct2, THEN conjunct1]
  have w_aic: "(case AsIsCategoricalBucketer_fit_feature example_reporting_missing_first (example_AsIsCategoricalBucketer\<lparr>aic_missing_treatment := MostFrequent\<rparr>) [(''x'', example_column_categories)] None ''x'' unfitted of
      Inl e \<Rightarrow> False
    | Inr s' \<Rightarrow>
        map (\<lambda>c. (fst c, missing_bucket (snd c))) (bucket_table_calls s') = [(''x'', None), (''x'', Some 0)]
        \<and> map_option missing_bucket (map_of (features_bucket_mapping' s') ''x'') = Some (Some 0))"
    by (rule most_frequent_example [where f = "\<lambda>t. AsIsCategoricalBucketer_fit_feature example_reporting_missing_first (example_AsIsCategoricalBucketer\<lparr>aic_missing_treatment := t\<rparr>) [(''x'', example_column_categories)] None ''x'' unfitted",
        where s = unfitted, OF sep_aic t_aic]) (simp add: unfitted_def)
  obtain s_an where sep_an: "AsIsNumericalBucketer_fit_feature example_reporting_missing_first example_nan_boundaries (example_AsIsNumericalBucketer\<lparr>an_missing_treatment := Separate\<rparr>) [(''x'', example_column)] None ''x'' unfitted = Inr s_an"
    by (simp add: AsIsNumericalBucketer_fit_feature_def example_AsIsNumericalBucketer_def example_nan_boundaries_def example_column_def unique_def get_column_def split_specials_def
        filter_na_for_fit_def finish_feature_Separate Let_def)
  note t_an = most_frequent_missing_bucket [where rep_an = example_reporting_missing_first and nan = example_nan_boundaries and self_an = example_AsIsNumericalBucketer and X_an = "[(''x'', example_column)]" and s_an = unfitted
      and y = None and feature = "''x''", THEN conjunct2, THEN conjunct2, THEN conjunct2, THEN conjunct2, THEN conjunct2, THEN conjunct2, THEN conjunct2, THEN conjunct2, THEN conjunct2, THEN conjunct2, THEN conjunct2, THEN conjunct2, THEN conjunct2, THEN conjunct2, THEN conjunct2, THEN conjunct2, THEN conjunct1]
  have w_an: "(case AsIsNumericalBucketer_fit_feature example_reporting_missing_first example_nan_boundaries (example_AsIsNumericalBucketer\<lparr>an_missing_treatment := MostFrequent\<rparr>) [(''x'', example_column)] None ''x'' unfitted of
      Inl e \<Rightarrow> False
    | Inr s' \<Rightarrow>
        map (\<lambda>c. (fst c, missing_bucket (snd c))) (bucket_table_calls s') = [(''x'', None), (''x'', Some 0)]
        \<and> map_option missing_bucket (map_of (features_bucket_mapping' s') ''x'') = Some (Some 0))"
    by (rule most_frequent_example [where f = "\<lambda>t. AsIsNumericalBucketer_fit_feature example_reporting_missing_first example_nan_boundaries (example_AsIsNumericalBucketer\<lparr>an_missing_treatment := t\<rparr>) [(''x'', example_column)] None ''x'' unfitted",
        where s = unfitted, OF sep_an t_an]) (simp add: unfitted_def)
  show ?thesis
    by (intro conjI w0 w_ob w_ew w_ac w_ef w_dt w_oc w_aic w_an)
qed

text \<open>
  The claim as stated fails when every value of the feature is missing. The bucket table
  then has the row of the missing values only: the first row of the sorted table is
  labelled \<^verbatim>\<open>"Missing"\<close> and there is no second row, so that the fit raises
  \<^verbatim>\<open>KeyError\<close>, sets no missing bucket and computes no second table.
\<close>
theorem most_frequent_only_missing_counterexample:
  "DecisionTreeBucketer_fit example_reporting_only_missing example_tree example_DecisionTreeBucketer_most_frequent
       [(''LIMIT_BAL'', [None, None, None])] (Some [0, 1, 0])
     = Inl (KeyError ''1'')"
  by (simp add: DecisionTreeBucketer_fit_def DecisionTreeBucketer_fit_feature_def check_variables_def
      example_DecisionTreeBucketer_most_frequent_def get_column_def split_specials_def shape0_def
      filter_na_for_fit_def keep_rows_def finish_feature_def Let_def example_reporting_only_missing_def
      example_table_only_missing_def most_frequent_bucket_def)

section \<open>Remapping the specials\<close>

text \<open>
  Claim C4, as amended. \<open>var\<close> is a feature with declared specials \<open>var_specials\<close>,
  \<open>bl\<close> the labels of its prebucketing mapping and \<open>L\<close> one of its groups. The pure
  function \<open>find_remapped_specials\<close> of the labels and the declared specials maps \<open>L\<close>
  to a list of one pre-bucket id, the last one in the order of the labels whose label is
  \<^verbatim>\<open>"Special: L"\<close>, and to nothing when no pre-bucket has that label; with exactly
  one such pre-bucket the list is the list of the pre-bucket ids with that label. After a
  successful fit every step of the bucketing pipeline holds, for \<open>var\<close>, the remapped
  specials when there are some, and otherwise what the process held for \<open>var\<close> before
  the fit; the bucketing mapping is the result of fitting the pipeline with these
  specials.
\<close>
theorem fit_remaps_specials:
  assumes "fit env self X y = Inr self'"
    and "pre_fit_transform env (prebucketing_pipeline self) X y = Inr (Xp, pre_fbm)"
    and "distinct (map fst (prebucketing_specials self))"
    and "map_of (prebucketing_specials self) var = Some var_specials"
    and "map_of pre_fbm var = Some bm"
    and "labels env bm = Some bl"
    and "L \<in> fst ` set var_specials"
  shows "map_of (find_remapped_specials (Some bl) (Some var_specials)) L
           = (if label_ids bl L = [] then None else Some [last (label_ids bl L)])
       \<and> (length (label_ids bl L) = 1 \<longrightarrow>
            map_of (find_remapped_specials (Some bl) (Some var_specials)) L = Some (label_ids bl L))
       \<and> (\<forall>st\<in>set (bucketing_pipeline self').
             map_of (specials (estimator st)) var
               = (if find_remapped_specials (Some bl) (Some var_specials) = []
                  then map_of (bucketing_specials self) var
                  else Some (find_remapped_specials (Some bl) (Some var_specials))))
       \<and> bucketing_fit env (bucketing_pipeline self') Xp y = Inr (bucketing_mapping self')"
proof -
  have L: "map_of (find_remapped_specials (Some bl) (Some var_specials)) L
           = (if label_ids bl L = [] then None else Some [last (label_ids bl L)])"
    using assms(7) by (simp add: map_of_find_remapped_specials)
  have one: "map_of (find_remapped_specials (Some bl) (Some var_specials)) L = Some (label_ids bl L)"
    if "length (label_ids bl L) = 1"
  proof -
    from that obtain b where b: "label_ids bl L = [b]"
      by (cases "label_ids bl L") simp_all
    with L show ?thesis by simp
  qed
  from fit_Inr_state [OF assms(1,2)] obtain bs where
    bs: "remap_all_specials (labels env) pre_fbm (prebucketing_specials self) (bucketing_specials self) = Inr bs"
    and pipe: "bucketing_pipeline self' = map (assign_specials bs) (bucketing_pipeline self)"
    and bfit: "bucketing_fit env (bucketing_pipeline self') Xp y = Inr (bucketing_mapping self')"
    by blast
  from map_of_remap_all_specials [OF bs assms(3), of var] assms(4,5,6)
  have "map_of bs var = (if find_remapped_specials (Some bl) (Some var_specials) = []
                  then map_of (bucketing_specials self) var
                  else Some (find_remapped_specials (Some bl) (Some var_specials)))"
    by simp
  with pipe have "\<forall>st\<in>set (bucketing_pipeline self').
             map_of (specials (estimator st)) var
               = (if find_remapped_specials (Some bl) (Some var_specials) = []
                  then map_of (bucketing_specials self) var
                  else Some (find_remapped_specials (Some bl) (Some var_specials)))"
    by auto
  with L one bfit show ?thesis by blast
qed

theorem fit_remaps_specials_witness:
  "(case fit (example_collaborators [''LIMIT_BAL''] [''LIMIT_BAL''] example_labels)
           (example_process example_specials) [] None of
      Inl e \<Rightarrow> False
    | Inr self' \<Rightarrow>
        map (\<lambda>st. map_of (specials (estimator st)) ''LIMIT_BAL'') (bucketing_pipeline self')
          = [Some [(''high'', [- 3])], Some [(''high'', [- 3])]])
   \<and> map_of (find_remapped_specials (Some example_labels) (Some [(''high'', [999999::real]), (''low'', [0])])) ''high''
       = Some [- 3]"
proof -
  let ?env = "example_collaborators [''LIMIT_BAL''] [''LIMIT_BAL''] example_labels"
  let ?self = "example_process example_specials"
  obtain self' where f: "fit ?env ?self [] None = Inr self'"
    using fit_example by blast
  have p: "pre_fit_transform ?env (prebucketing_pipeline ?self) [] None
             = Inr ([], [(''LIMIT_BAL'', example_mapping ''LIMIT_BAL'')])"
    by (simp add: example_collaborators_def)
  have d: "distinct (map fst (prebucketing_specials ?self))"
    by (simp add: example_process_def example_specials_def)
  have v: "map_of (prebucketing_specials ?self) ''LIMIT_BAL'' = Some [(''high'', [999999]), (''low'', [0])]"
    by (simp add: example_process_def example_specials_def)
  have m: "map_of [(''LIMIT_BAL'', example_mapping ''LIMIT_BAL'' :: real bucket_mapping)] ''LIMIT_BAL''
             = Some (example_mapping ''LIMIT_BAL'')"
    by simp
  have l: "labels ?env (example_mapping ''LIMIT_BAL'') = Some example_labels"
    by (simp add: example_collaborators_def)
  have k: "''high'' \<in> fst ` set [(''high'', [999999::real]), (''low'', [0])]"
    by simp
  have o: "length (label_ids example_labels ''high'') = 1"
    by simp
  note t = fit_remaps_specials [OF f p d v m l k]
  from t o have "map_of (find_remapped_specials (Some example_labels) (Some [(''high'', [999999::real]), (''low'', [0])])) ''high''
       = Some (label_ids example_labels ''high'')"
    by blast
  moreover from f have "bucketing_pipeline self' =
      [Tuple ''opt'' \<lparr>specials = [(''LIMIT_BAL'', [(''high'', [- 3])])], params = ()\<rparr>,
       Estimator \<lparr>specials = [(''LIMIT_BAL'', [(''high'', [- 3])])], params = ()\<rparr>]"
    unfolding fit_example by auto
  ultimately show ?thesis
    using f by simp
qed

text \<open>
  The claim as stated fails when two pre-buckets carry the label of one group: the
  remapped special then holds the last of the two pre-bucket ids only, not both.
\<close>
theorem find_remapped_specials_last_counterexample:
  "label_ids example_labels_two ''high'' = [- 3, - 4]
   \<and> map_of (find_remapped_specials (Some example_labels_two) (Some [(''high'', [999999::real]), (''low'', [0])])) ''high''
       = Some [- 4]
   \<and> (case fit (example_collaborators [''LIMIT_BAL''] [''LIMIT_BAL''] example_labels_two)
           (example_process example_specials) [] None of
        Inl e \<Rightarrow> False
      | Inr self' \<Rightarrow>
          map (\<lambda>st. map_of (specials (estimator st)) ''LIMIT_BAL'') (bucketing_pipeline self')
            = [Some [(''high'', [- 4])], Some [(''high'', [- 4])]])"
  by (simp add: label_ids_def example_labels_two_def find_remapped_specials_def fit_def
      example_collaborators_def example_process_def example_specials_def columns_def tables_for_def)

section \<open>Special groups without a pre-bucket\<close>

text \<open>
  Claim C10, as amended. The prebucketing stage is fitted and covers every variable with
  declared specials, and the bucketing pipeline fits and covers the same columns. Then
  the fit returns without error, whatever the labels are. A declared group \<open>L\<close> of
  \<open>var\<close> whose label \<^verbatim>\<open>"Special: L"\<close> no pre-bucket carries is not among the
  specials remapped by this fit. Every bucketing step holds for \<open>var\<close> what the process
  holds after the fit: the remapped specials when some group has a pre-bucket, and
  otherwise the entry that the process held before the fit, unchanged. So a group without
  pre-bucket is absent from every step if some other group has a pre-bucket or if the
  process held no entry for \<open>var\<close>. If no group of \<open>var\<close> has a pre-bucket and the
  process held no entry for \<open>var\<close>, as after \<^verbatim>\<open>__init__\<close>, no step has a specials
  entry for \<open>var\<close>, so that a bucketer of the second stage treats all rows of \<open>var\<close> as
  normal rows, without specials.
\<close>
theorem fit_omits_unmatched_specials:
  assumes "pre_fit_transform env (prebucketing_pipeline self) X y = Inr (Xp, pre_fbm)"
    and "\<forall>v\<in>fst ` set (prebucketing_specials self). v \<in> fst ` set pre_fbm"
    and "\<forall>bs. \<exists>fbm. bucketing_fit env (map (assign_specials bs) (bucketing_pipeline self)) Xp y = Inr fbm
                  \<and> set (columns fbm) = set (columns pre_fbm)"
    and "distinct (map fst (prebucketing_specials self))"
    and "map_of (prebucketing_specials self) var = Some var_specials"
    and "map_of pre_fbm var = Some bm"
    and "labels env bm = Some bl"
  shows "\<exists>self'. fit env self X y = Inr self'
       \<and> (\<forall>L. label_ids bl L = [] \<longrightarrow>
             map_of (find_remapped_specials (Some bl) (Some var_specials)) L = None)
       \<and> map_of (bucketing_specials self') var
           = (if find_remapped_specials (Some bl) (Some var_specials) = []
              then map_of (bucketing_specials self) var
              else Some (find_remapped_specials (Some bl) (Some var_specials)))
       \<and> (\<forall>st\<in>set (bucketing_pipeline self').
             map_of (specials (estimator st)) var = map_of (bucketing_specials self') var)
       \<and> (\<forall>L. label_ids bl L = []
               \<and> (find_remapped_specials (Some bl) (Some var_specials) \<noteq> []
                    \<or> map_of (bucketing_specials self) var = None) \<longrightarrow>
             (\<forall>st\<in>set (bucketing_pipeline self').
                   case map_of (specials (estimator st)) var of
                     None \<Rightarrow> True
                   | Some sp \<Rightarrow> map_of sp L = None))
       \<and> ((\<forall>L\<in>fst ` set var_specials. label_ids bl L = []) \<longrightarrow>
             find_remapped_specials (Some bl) (Some var_specials) = []
             \<and> map_of (bucketing_specials self') var = map_of (bucketing_specials self) var
             \<and> (\<forall>st\<in>set (bucketing_pipeline self').
                   map_of (specials (estimator st)) var = map_of (bucketing_specials self) var
                   \<and> (map_of (bucketing_specials self) var = None \<longrightarrow>
                        (\<forall>col y'. split_specials (specials (estimator st)) var col y' = ((col, y'), [])))))"
proof -
  have "\<exists>bs. remap_all_specials (labels env) pre_fbm (prebucketing_specials self) (bucketing_specials self) = Inr bs"
    using assms(2) by (rule iffD2 [OF remap_all_specials_returns])
  then obtain bs where
    bs: "remap_all_specials (labels env) pre_fbm (prebucketing_specials self) (bucketing_specials self) = Inr bs"
    by (rule exE)
  from assms(3) obtain fbm where
    fbm: "bucketing_fit env (map (assign_specials bs) (bucketing_pipeline self)) Xp y = Inr fbm"
    and cols: "set (columns fbm) = set (columns pre_fbm)"
    by blast
  let ?self' = "self\<lparr>bucketing_pipeline := map (assign_specials bs) (bucketing_pipeline self),
                  bucketing_specials := bs,
                  prebucketing_mapping := pre_fbm,
                  bucketing_mapping := fbm,
                  prebucket_tables := tables_for (raw_bucket_table env) X X y pre_fbm,
                  bucket_tables := tables_for (pre_bucket_table env) X Xp y fbm\<rparr>"
  have f: "fit env self X y = Inr ?self'"
    unfolding fit_cases [OF assms(1) bs fbm] using cols by (simp add: filter_empty_conv)
  let ?new = "find_remapped_specials (Some bl) (Some var_specials)"
  have entry: "map_of bs var = (if ?new = [] then map_of (bucketing_specials self) var else Some ?new)"
    using map_of_remap_all_specials [OF bs assms(4), of var] assms(5,6,7) by simp
  then have e: "map_of (bucketing_specials ?self') var
           = (if ?new = [] then map_of (bucketing_specials self) var else Some ?new)"
    by simp
  have steps: "\<forall>st\<in>set (bucketing_pipeline ?self'). specials (estimator st) = bs"
    by auto
  then have s: "\<forall>st\<in>set (bucketing_pipeline ?self').
             map_of (specials (estimator st)) var = map_of (bucketing_specials ?self') var"
    by simp
  have n: "\<forall>L. label_ids bl L = [] \<longrightarrow> map_of ?new L = None"
    by (simp add: map_of_find_remapped_specials)
  have a: "\<forall>L. label_ids bl L = [] \<and> (?new \<noteq> [] \<or> map_of (bucketing_specials self) var = None) \<longrightarrow>
             (\<forall>st\<in>set (bucketing_pipeline ?self').
                   case map_of (specials (estimator st)) var of
                     None \<Rightarrow> True
                   | Some sp \<Rightarrow> map_of sp L = None)"
    using steps entry n by (auto split: option.splits if_splits)
  have b: "?new = [] \<and> map_of (bucketing_specials ?self') var = map_of (bucketing_specials self) var
             \<and> (\<forall>st\<in>set (bucketing_pipeline ?self').
                   map_of (specials (estimator st)) var = map_of (bucketing_specials self) var
                   \<and> (map_of (bucketing_specials self) var = None \<longrightarrow>
                        (\<forall>col y'. split_specials (specials (estimator st)) var col y' = ((col, y'), []))))"
    if "\<forall>L\<in>fst ` set var_specials. label_ids bl L = []"
  proof -
    from that have e: "?new = []"
      by (simp add: find_remapped_specials_Nil_iff)
    with entry have "map_of bs var = map_of (bucketing_specials self) var" by simp
    with e steps show ?thesis
      by (auto simp add: split_specials_no_entry)
  qed
  show ?thesis
    apply (rule exI [of _ ?self'])
    apply (intro conjI)
    apply (rule f)
    apply (rule n)
    apply (rule e)
    apply (rule s)
    apply (rule a)
    using b apply blast
    done
qed

theorem fit_omits_unmatched_specials_witness:
  "(case fit (example_collaborators [''LIMIT_BAL''] [''LIMIT_BAL''] example_labels_plain)
           (example_process example_specials) [] None of
      Inl e \<Rightarrow> False
    | Inr self' \<Rightarrow>
        bucketing_specials self' = []
        \<and> map (\<lambda>st. map_of (specials (estimator st)) ''LIMIT_BAL'') (bucketing_pipeline self') = [None, None])"
proof -
  let ?env = "example_collaborators [''LIMIT_BAL''] [''LIMIT_BAL''] example_labels_plain"
  let ?self = "example_process example_specials"
  let ?pre = "[(''LIMIT_BAL'', example_mapping ''LIMIT_BAL'' :: real bucket_mapping)]"
  have p: "pre_fit_transform ?env (prebucketing_pipeline ?self) [] None = Inr ([], ?pre)"
    by (simp add: example_collaborators_def)
  have c: "\<forall>v\<in>fst ` set (prebucketing_specials ?self). v \<in> fst ` set ?pre"
    by (simp add: example_process_def example_specials_def)
  have b: "\<forall>bs. \<exists>fbm. bucketing_fit ?env (map (assign_specials bs) (bucketing_pipeline ?self)) [] None = Inr fbm
                  \<and> set (columns fbm) = set (columns ?pre)"
    by (simp add: example_collaborators_def columns_def)
  have d: "distinct (map fst (prebucketing_specials ?self))"
    by (simp add: example_process_def example_specials_def)
  have v: "map_of (prebucketing_specials ?self) ''LIMIT_BAL'' = Some [(''high'', [999999]), (''low'', [0])]"
    by (simp add: example_process_def example_specials_def)
  have m: "map_of ?pre ''LIMIT_BAL'' = Some (example_mapping ''LIMIT_BAL'')"
    by simp
  have l: "labels ?env (example_mapping ''LIMIT_BAL'') = Some example_labels_plain"
    by (simp add: example_collaborators_def)
  have i: "map_of (bucketing_specials ?self) ''LIMIT_BAL'' = None"
    by (simp add: example_process_def)
  from fit_omits_unmatched_specials [OF p c b d v m l] i
  obtain self' where f: "fit ?env ?self [] None = Inr self'"
    and n: "\<forall>st\<in>set (bucketing_pipeline self'). map_of (specials (estimator st)) ''LIMIT_BAL'' = None"
    by auto
  have s: "bucketing_specials self' = [] \<and> length (bucketing_pipeline self') = 2"
    using f
    by (auto simp add: fit_def example_collaborators_def example_process_def example_specials_def
        find_remapped_specials_def example_labels_plain_def columns_def tables_for_def)
  then obtain st1 st2 where "bucketing_pipeline self' = [st1, st2]"
    by (auto simp add: length_Suc_conv numeral_2_eq_2)
  with f n s show ?thesis
    by simp
qed

text \<open>
  The claim as stated fails on a second fit. The first fit finds the pre-bucket of the
  group \<^verbatim>\<open>high\<close> and stores the remapped specials of \<^verbatim>\<open>LIMIT_BAL\<close>. In the second
  fit no group of \<^verbatim>\<open>LIMIT_BAL\<close> has a pre-bucket, and yet the process and every
  bucketing step still hold the entry of the first fit, with the group \<^verbatim>\<open>high\<close>.
\<close>
theorem refit_keeps_specials_counterexample:
  "label_ids example_labels_plain ''high'' = [] \<and> label_ids example_labels_plain ''low'' = []
   \<and> (case fit (example_collaborators [''LIMIT_BAL''] [''LIMIT_BAL''] example_labels)
            (example_process example_specials) [] None of
        Inl e \<Rightarrow> False
      | Inr self1 \<Rightarrow>
          (case fit (example_collaborators [''LIMIT_BAL''] [''LIMIT_BAL''] example_labels_plain) self1 [] None of
             Inl e \<Rightarrow> False
           | Inr self2 \<Rightarrow>
               map_of (bucketing_specials self2) ''LIMIT_BAL'' = Some [(''high'', [- 3])]
               \<and> map (\<lambda>st. map_of (specials (estimator st)) ''LIMIT_BAL'') (bucketing_pipeline self2)
                   = [Some [(''high'', [- 3])], Some [(''high'', [- 3])]]))"
  unfolding fit_example
  by (simp add: fit_def example_collaborators_def example_process_def example_specials_def
      find_remapped_specials_def example_labels_plain_def columns_def tables_for_def label_ids_def)

end
